theory Spec2Isabelle
  imports Complex_Main "HOL-Library.Word" "HOL-Library.Signed_Division"
begin

section \<open>Shared data model\<close>

text \<open>
  The trackers of the interaction-event classification engine are modelled as records
  with explicit state passing: every entry point takes the tracker and returns the
  updated tracker together with the list of events it hands to its callback.

  Conventions used throughout:
  \<^item> Record fields carry the source's names behind a short prefix naming the struct
    (\<open>hd_\<close> for \<open>HotkeyDetector\<close>, \<open>ddt_\<close> for \<open>DragDropTracker\<close>, ...), since several
    structs of the source share field names such as \<open>EventCallback\<close>.
  \<^item> A \<open>time.Time\<close> is the number of nanoseconds since Go's zero time, so
    \<open>IsZero\<close> is equality with 0; a \<open>time.Duration\<close> is a number of nanoseconds.
    Every entry point reads the clock once and that reading is the parameter \<open>now\<close>.
  \<^item> \<open>EventCallback\<close> is the flag "the callback is not nil"; the events returned by an
    entry point are the ones passed to the callback.
  \<^item> \<open>createEventMetadata()\<close> samples the operating system; its result is the
    parameter \<open>md\<close>.
\<close>

type_synonym uint32 = "32 word"
type_synonym int32 = "32 word"
type_synonym uint64 = "64 word"
type_synonym time = int
type_synonym duration = int

record Position =
  X :: int32
  Y :: int32

record UIElement =
  Role :: string
  Name :: string
  ProcessID :: uint32
  WindowTitle :: string
  ApplicationName :: string
  URL :: string

record EventMetadata =
  md_UIElement :: "UIElement option"
  md_Timestamp :: uint64

datatype MouseButton = MouseButtonLeft | MouseButtonRight | MouseButtonMiddle | MouseButtonNone

definition Millisecond :: duration where
  "Millisecond = 1000000"

definition maxDuration :: duration where
  "maxDuration = 2 ^ 63 - 1"

definition minDuration :: duration where
  "minDuration = - (2 ^ 63)"

text \<open>\<open>t.Sub(u)\<close>: the difference, saturated to the range of a 64-bit duration.\<close>

definition time_Sub :: "time \<Rightarrow> time \<Rightarrow> duration" where
  "time_Sub t u = (if t - u > maxDuration then maxDuration
                   else if t - u < minDuration then minDuration else t - u)"

text \<open>\<open>time.Since(u)\<close> at clock reading \<open>now\<close>.\<close>

definition time_Since :: "time \<Rightarrow> time \<Rightarrow> duration" where
  "time_Since now u = time_Sub now u"

text \<open>\<open>d.Milliseconds()\<close>: Go's integer division truncates towards zero.\<close>

definition Milliseconds :: "duration \<Rightarrow> int" where
  "Milliseconds d = d sdiv Millisecond"

section \<open>Hotkey detector (hotkey\_detector.go)\<close>

definition VK_CONTROL :: uint32 where "VK_CONTROL = 0x11"
definition VK_MENU :: uint32 where "VK_MENU = 0x12"
definition VK_SHIFT :: uint32 where "VK_SHIFT = 0x10"
definition VK_LWIN :: uint32 where "VK_LWIN = 0x5B"

record HotkeyPattern =
  pat_Keys :: "uint32 list"
  pat_Combination :: string
  pat_Action :: string
  pat_IsGlobal :: bool
  pat_Category :: string

record HotkeyEvent =
  he_Combination :: string
  he_Action :: string
  he_IsGlobal :: bool
  he_Metadata :: EventMetadata

record HotkeyDetector =
  hd_PressedKeys :: "uint32 \<rightharpoonup> bool"
  hd_KeyPressOrder :: "uint32 list"
  hd_LastKeyTime :: time
  hd_HotkeyPatterns :: "HotkeyPattern list"
  hd_EventCallback :: bool
  hd_MaxKeyDelay :: duration

definition mkPattern :: "uint32 list \<Rightarrow> string \<Rightarrow> string \<Rightarrow> bool \<Rightarrow> string \<Rightarrow> HotkeyPattern" where
  "mkPattern ks c a g cat =
     \<lparr>pat_Keys = ks, pat_Combination = c, pat_Action = a, pat_IsGlobal = g, pat_Category = cat\<rparr>"

definition initializeHotkeyPatterns :: "HotkeyPattern list" where
  "initializeHotkeyPatterns =
   [ mkPattern [VK_CONTROL, 0x53] ''Ctrl+S'' ''Save'' False ''File'',
     mkPattern [VK_CONTROL, 0x4F] ''Ctrl+O'' ''Open'' False ''File'',
     mkPattern [VK_CONTROL, 0x4E] ''Ctrl+N'' ''New'' False ''File'',
     mkPattern [VK_CONTROL, 0x50] ''Ctrl+P'' ''Print'' False ''File'',
     mkPattern [VK_CONTROL, 0x43] ''Ctrl+C'' ''Copy'' False ''Edit'',
     mkPattern [VK_CONTROL, 0x56] ''Ctrl+V'' ''Paste'' False ''Edit'',
     mkPattern [VK_CONTROL, 0x58] ''Ctrl+X'' ''Cut'' False ''Edit'',
     mkPattern [VK_CONTROL, 0x5A] ''Ctrl+Z'' ''Undo'' False ''Edit'',
     mkPattern [VK_CONTROL, 0x59] ''Ctrl+Y'' ''Redo'' False ''Edit'',
     mkPattern [VK_CONTROL, 0x41] ''Ctrl+A'' ''Select All'' False ''Edit'',
     mkPattern [VK_CONTROL, 0x46] ''Ctrl+F'' ''Find'' False ''Edit'',
     mkPattern [VK_MENU, 0x09] ''Alt+Tab'' ''Switch Window'' True ''Window'',
     mkPattern [VK_MENU, 0x70] ''Alt+F4'' ''Close Window'' False ''Window'',
     mkPattern [VK_LWIN, 0x44] ''Win+D'' ''Show Desktop'' True ''Window'',
     mkPattern [VK_LWIN, 0x4C] ''Win+L'' ''Lock Screen'' True ''System'',
     mkPattern [VK_CONTROL, 0x54] ''Ctrl+T'' ''New Tab'' False ''Browser'',
     mkPattern [VK_CONTROL, 0x57] ''Ctrl+W'' ''Close Tab'' False ''Browser'',
     mkPattern [VK_CONTROL, 0x09] ''Ctrl+Tab'' ''Next Tab'' False ''Browser'',
     mkPattern [VK_CONTROL, VK_SHIFT, 0x09] ''Ctrl+Shift+Tab'' ''Previous Tab'' False ''Browser'',
     mkPattern [VK_CONTROL, 0x52] ''Ctrl+R'' ''Refresh'' False ''Browser'',
     mkPattern [VK_CONTROL, 0x4C] ''Ctrl+L'' ''Address Bar'' False ''Browser'',
     mkPattern [VK_LWIN, 0x31] ''Win+1'' ''Launch App 1'' True ''Launcher'',
     mkPattern [VK_LWIN, 0x32] ''Win+2'' ''Launch App 2'' True ''Launcher'',
     mkPattern [VK_LWIN, 0x33] ''Win+3'' ''Launch App 3'' True ''Launcher'',
     mkPattern [VK_LWIN, 0x34] ''Win+4'' ''Launch App 4'' True ''Launcher'',
     mkPattern [VK_LWIN, 0x35] ''Win+5'' ''Launch App 5'' True ''Launcher'',
     mkPattern [0x70] ''F1'' ''Help'' False ''Function'',
     mkPattern [0x73] ''F4'' ''Address Bar'' False ''Function'',
     mkPattern [0x74] ''F5'' ''Refresh'' False ''Function'',
     mkPattern [0x7A] ''F11'' ''Full Screen'' False ''Function'',
     mkPattern [VK_CONTROL, 0x42] ''Ctrl+B'' ''Bold'' False ''Format'',
     mkPattern [VK_CONTROL, 0x49] ''Ctrl+I'' ''Italic'' False ''Format'',
     mkPattern [VK_CONTROL, 0x55] ''Ctrl+U'' ''Underline'' False ''Format'',
     mkPattern [VK_MENU, 0x25] ''Alt+Left'' ''Back'' False ''Navigation'',
     mkPattern [VK_MENU, 0x27] ''Alt+Right'' ''Forward'' False ''Navigation'',
     mkPattern [VK_CONTROL, 0x24] ''Ctrl+Home'' ''Go to Start'' False ''Navigation'',
     mkPattern [VK_CONTROL, 0x23] ''Ctrl+End'' ''Go to End'' False ''Navigation'',
     mkPattern [VK_CONTROL, VK_SHIFT, 0x1B] ''Ctrl+Shift+Esc'' ''Task Manager'' True ''System'',
     mkPattern [VK_CONTROL, VK_MENU, 0x2E] ''Ctrl+Alt+Delete'' ''Security Screen'' True ''System'',
     mkPattern [0x2C] ''PrintScreen'' ''Screenshot'' True ''System'' ]"

text \<open>\<open>NewHotkeyDetector(callback)\<close>; the argument says whether the callback is non-nil.\<close>

definition NewHotkeyDetector :: "bool \<Rightarrow> HotkeyDetector" where
  "NewHotkeyDetector callback =
     \<lparr>hd_PressedKeys = Map.empty, hd_KeyPressOrder = [], hd_LastKeyTime = 0,
      hd_HotkeyPatterns = initializeHotkeyPatterns, hd_EventCallback = callback,
      hd_MaxKeyDelay = 500 * Millisecond\<rparr>"

text \<open>Reading a Go \<open>map[uint32]bool\<close>: a missing key reads as \<open>false\<close>.\<close>

definition map_get :: "('k \<rightharpoonup> bool) \<Rightarrow> 'k \<Rightarrow> bool" where
  "map_get m k = (case m k of None \<Rightarrow> False | Some b \<Rightarrow> b)"

definition clearState :: "HotkeyDetector \<Rightarrow> HotkeyDetector" where
  "clearState hk = hk\<lparr>hd_PressedKeys := Map.empty, hd_KeyPressOrder := []\<rparr>"

text \<open>
  \<open>keysMatch\<close>: the lengths must agree, then the pressed keys (already sorted by the
  caller) are compared index by index with the sorted pattern keys.
\<close>

definition keysMatch :: "uint32 list \<Rightarrow> uint32 list \<Rightarrow> bool" where
  "keysMatch pressedKeys patternKeys =
     (if length pressedKeys \<noteq> length patternKeys then False
      else list_all2 (=) pressedKeys (sort patternKeys))"

text \<open>The loop of \<open>checkForHotkeys\<close> over the catalogue: the first matching pattern.\<close>

fun firstMatch :: "uint32 list \<Rightarrow> HotkeyPattern list \<Rightarrow> HotkeyPattern option" where
  "firstMatch pressed [] = None"
| "firstMatch pressed (p # ps) =
     (if keysMatch pressed (pat_Keys p) then Some p else firstMatch pressed ps)"

definition hotkeyEvent :: "HotkeyPattern \<Rightarrow> EventMetadata \<Rightarrow> HotkeyEvent" where
  "hotkeyEvent pattern md =
     \<lparr>he_Combination = pat_Combination pattern, he_Action = pat_Action pattern,
      he_IsGlobal = pat_IsGlobal pattern, he_Metadata = md\<rparr>"

text \<open>
  \<open>checkForHotkeys\<close> collects the keys of the held map and sorts them, which is
  \<open>sorted_list_of_set\<close> of the map's domain; \<open>len(PressedKeys)\<close> is the number of keys.
  In \<open>HandleKeyPress\<close> the loop that removes the released key from the press order
  removes its first occurrence and stops, which is \<open>remove1\<close>.
\<close>

definition checkForHotkeys :: "EventMetadata \<Rightarrow> HotkeyDetector \<Rightarrow> HotkeyDetector \<times> HotkeyEvent list" where
  "checkForHotkeys md hk =
     (if card (dom (hd_PressedKeys hk)) < 2 then (hk, [])
      else
        (case firstMatch (sorted_list_of_set (dom (hd_PressedKeys hk))) (hd_HotkeyPatterns hk) of
           None \<Rightarrow> (hk, [])
         | Some pattern \<Rightarrow>
             (clearState hk,
              if hd_EventCallback hk
              then [hotkeyEvent pattern md]
              else [])))"

definition HandleKeyPress ::
  "time \<Rightarrow> EventMetadata \<Rightarrow> uint32 \<Rightarrow> bool \<Rightarrow> HotkeyDetector \<Rightarrow> HotkeyDetector \<times> HotkeyEvent list" where
  "HandleKeyPress now md keyCode isKeyDown hk =
     (if isKeyDown then
        (if \<not> map_get (hd_PressedKeys hk) keyCode then
           checkForHotkeys md
             (hk\<lparr>hd_PressedKeys := (hd_PressedKeys hk)(keyCode \<mapsto> True),
                 hd_KeyPressOrder := hd_KeyPressOrder hk @ [keyCode],
                 hd_LastKeyTime := now\<rparr>)
         else (hk, []))
      else
        (if map_get (hd_PressedKeys hk) keyCode then
           (let hk1 = hk\<lparr>hd_PressedKeys := (hd_PressedKeys hk)(keyCode := None),
                          hd_KeyPressOrder := remove1 keyCode (hd_KeyPressOrder hk)\<rparr>
            in if card (dom (hd_PressedKeys hk1)) = 0
                  \<or> time_Since now (hd_LastKeyTime hk1) > hd_MaxKeyDelay hk1
               then (clearState hk1, [])
               else (hk1, []))
         else (hk, [])))"

text \<open>
  A run of the detector: the calls are (clock reading, metadata, key code, key-down flag),
  applied in order; the events of all calls are collected in order.
\<close>

type_synonym keyCall = "time \<times> EventMetadata \<times> uint32 \<times> bool"

fun runKeys :: "keyCall list \<Rightarrow> HotkeyDetector \<Rightarrow> HotkeyDetector \<times> HotkeyEvent list" where
  "runKeys [] hk = (hk, [])"
| "runKeys ((now, md, keyCode, isKeyDown) # cs) hk =
     (let (hk1, es1) = HandleKeyPress now md keyCode isKeyDown hk;
          (hk2, es2) = runKeys cs hk1
      in (hk2, es1 @ es2))"

text \<open>Runs made of key-downs only, or of key-ups only, and the key codes of such a run.\<close>

definition keyDowns :: "(time \<times> EventMetadata \<times> uint32) list \<Rightarrow> keyCall list" where
  "keyDowns ds = map (\<lambda>(t, md, k). (t, md, k, True)) ds"

definition keyUps :: "(time \<times> EventMetadata \<times> uint32) list \<Rightarrow> keyCall list" where
  "keyUps us = map (\<lambda>(t, md, k). (t, md, k, False)) us"

definition keysOf :: "(time \<times> EventMetadata \<times> uint32) list \<Rightarrow> uint32 list" where
  "keysOf ds = map (\<lambda>(t, md, k). k) ds"

text \<open>The state change of a key-down of a key that is not held, before the match.\<close>

definition pressDown :: "time \<Rightarrow> uint32 \<Rightarrow> HotkeyDetector \<Rightarrow> HotkeyDetector" where
  "pressDown now k hk =
     hk\<lparr>hd_PressedKeys := (hd_PressedKeys hk)(k \<mapsto> True),
        hd_KeyPressOrder := hd_KeyPressOrder hk @ [k],
        hd_LastKeyTime := now\<rparr>"

text \<open>
  The invariant of the detector: the press-order list has no duplicates, holds exactly
  the keys of the held map, and every stored value is \<open>true\<close>.
\<close>

definition hd_inv :: "HotkeyDetector \<Rightarrow> bool" where
  "hd_inv hk = (distinct (hd_KeyPressOrder hk)
      \<and> set (hd_KeyPressOrder hk) = dom (hd_PressedKeys hk)
      \<and> ran (hd_PressedKeys hk) \<subseteq> {True})"

text \<open>The first entry of the catalogue, and a metadata value for concrete runs.\<close>

definition ctrlS :: HotkeyPattern where
  "ctrlS = mkPattern [VK_CONTROL, 0x53] ''Ctrl+S'' ''Save'' False ''File''"

definition md0 :: EventMetadata where
  "md0 = \<lparr>md_UIElement = None, md_Timestamp = 0\<rparr>"


section \<open>Rate gate (RateLimiter)\<close>

text \<open>
  \<open>MaxEvents\<close> and \<open>EventCount\<close> are \<open>int32\<close>: 32-bit words compared as signed
  values. \<open>time.Now()\<close> is the parameter \<open>now\<close>.
\<close>

record RateLimiter =
  rl_MaxEvents :: int32
  rl_WindowSize :: duration
  rl_EventCount :: int32
  rl_WindowStart :: time

definition NewRateLimiter :: "time \<Rightarrow> int32 \<Rightarrow> duration \<Rightarrow> RateLimiter" where
  "NewRateLimiter now maxEvents windowSize =
     \<lparr>rl_MaxEvents = maxEvents, rl_WindowSize = windowSize, rl_EventCount = 0,
      rl_WindowStart = now\<rparr>"

definition Allow :: "time \<Rightarrow> RateLimiter \<Rightarrow> bool \<times> RateLimiter" where
  "Allow now rl =
     (let rl1 = (if time_Sub now (rl_WindowStart rl) \<ge> rl_WindowSize rl
                 then rl\<lparr>rl_EventCount := 0, rl_WindowStart := now\<rparr> else rl)
      in if rl_MaxEvents rl1 \<le>s rl_EventCount rl1 then (False, rl1)
         else (True, rl1\<lparr>rl_EventCount := rl_EventCount rl1 + 1\<rparr>))"

text \<open>Successive calls of \<open>Allow\<close> at the given clock readings, with their results.\<close>

fun allowAll :: "time list \<Rightarrow> RateLimiter \<Rightarrow> bool list \<times> RateLimiter" where
  "allowAll [] rl = ([], rl)"
| "allowAll (t # ts) rl =
     (let (b, rl1) = Allow t rl; (bs, rl2) = allowAll ts rl1 in (b # bs, rl2))"

text \<open>A limiter of two events per second whose window, opened at time 0, is used up.\<close>

definition rl_full :: RateLimiter where
  "rl_full = \<lparr>rl_MaxEvents = 2, rl_WindowSize = 1000 * Millisecond, rl_EventCount = 2,
              rl_WindowStart = 0\<rparr>"

section \<open>Geometry and strings\<close>

text \<open>
  \<open>calculateDistance\<close>: the coordinate differences are \<open>int32\<close> subtractions (they wrap)
  read as signed values and converted to \<open>float64\<close>. The model computes the square root
  over the reals. For the thresholds the trackers compare it with (5, 10 and 50) the
  comparison agrees with the floating-point one: the sum of squares is an integer, exact
  below \<open>2^53\<close> and far above the thresholds otherwise, and the rounded square root of
  an integer is below such a threshold exactly when the integer is below its square.
\<close>

definition calculateDistance :: "Position \<Rightarrow> Position \<Rightarrow> real" where
  "calculateDistance p1 p2 =
     (let dx = real_of_int (sint (X p2 - X p1));
          dy = real_of_int (sint (Y p2 - Y p1))
      in sqrt (dx * dx + dy * dy))"

text \<open>
  Strings are byte lists (UTF-8). \<open>strings.ToLower\<close> has two paths: a string whose bytes
  are all below 128 is lowered byte by byte, A to Z becoming a to z; any other string is
  mapped rune by rune through the Unicode case tables (\<open>Map(unicode.ToLower, s)\<close>).
  The tables are not part of the repository: that second path is the parameter
  \<open>mapLower\<close> of \<open>ToLower\<close> and of every function that lowers a string, and every
  statement below holds whatever the tables are. \<open>strings.Contains\<close> looks for a
  contiguous occurrence; the empty string is contained in every string.
\<close>

definition toLowerChar :: "char \<Rightarrow> char" where
  "toLowerChar c =
     (let n = (of_char c :: nat) in if 65 \<le> n \<and> n \<le> 90 then char_of (n + 32) else c)"

definition isASCII :: "string \<Rightarrow> bool" where
  "isASCII s = list_all (\<lambda>c. (of_char c :: nat) < 128) s"

definition ToLower :: "(string \<Rightarrow> string) \<Rightarrow> string \<Rightarrow> string" where
  "ToLower mapLower s = (if isASCII s then map toLowerChar s else mapLower s)"

fun HasPrefix :: "string \<Rightarrow> string \<Rightarrow> bool" where
  "HasPrefix s [] = True"
| "HasPrefix [] (p # ps) = False"
| "HasPrefix (c # cs) (p # ps) = (c = p \<and> HasPrefix cs ps)"

fun Contains :: "string \<Rightarrow> string \<Rightarrow> bool" where
  "Contains [] substr = (substr = [])"
| "Contains (c # cs) substr = (HasPrefix (c # cs) substr \<or> Contains cs substr)"

section \<open>Drag-drop tracker (drag\_drop\_tracker.go)\<close>

text \<open>
  \<open>MinDragDistance\<close> is a \<open>float64\<close> field, modelled as a real. The entry points are
  prefixed with \<open>ddt_\<close> where the text selection tracker has a method of the same name.
  \<open>HandleMouseUp\<close> takes the Unicode path of \<open>ToLower\<close>, the clock reading, the
  metadata and the clipboard content that \<open>getDragContent\<close> reads.
\<close>

record DragDropEvent =
  dde_StartPosition :: Position
  dde_EndPosition :: Position
  dde_SourceElement :: "UIElement option"
  dde_DataType :: string
  dde_Content :: string
  dde_Success :: bool
  dde_Metadata :: EventMetadata

record DragDropTracker =
  ddt_IsDragging :: bool
  ddt_DragStartPos :: Position
  ddt_DragStartTime :: time
  ddt_DragStartElement :: "UIElement option"
  ddt_LastDragPos :: Position
  ddt_MinDragDistance :: real
  ddt_EventCallback :: bool

definition zeroPosition :: Position where
  "zeroPosition = \<lparr>X = 0, Y = 0\<rparr>"

definition NewDragDropTracker :: "bool \<Rightarrow> DragDropTracker" where
  "NewDragDropTracker callback =
     \<lparr>ddt_IsDragging = False, ddt_DragStartPos = zeroPosition, ddt_DragStartTime = 0,
      ddt_DragStartElement = None, ddt_LastDragPos = zeroPosition,
      ddt_MinDragDistance = 10, ddt_EventCallback = callback\<rparr>"

definition ddt_HandleMouseDown ::
  "time \<Rightarrow> Position \<Rightarrow> MouseButton \<Rightarrow> UIElement option \<Rightarrow> DragDropTracker \<Rightarrow> DragDropTracker" where
  "ddt_HandleMouseDown now position button element ddt =
     (if button \<noteq> MouseButtonLeft then ddt
      else ddt\<lparr>ddt_DragStartPos := position, ddt_DragStartTime := now,
               ddt_DragStartElement := element, ddt_LastDragPos := position,
               ddt_IsDragging := False\<rparr>)"

definition ddt_HandleMouseMove :: "Position \<Rightarrow> DragDropTracker \<Rightarrow> DragDropTracker" where
  "ddt_HandleMouseMove position ddt =
     (if ddt_DragStartTime ddt = 0 then ddt
      else
        (let ddt1 = ddt\<lparr>ddt_LastDragPos := position\<rparr>;
             distance = calculateDistance (ddt_DragStartPos ddt1) position
         in if \<not> ddt_IsDragging ddt1 \<and> distance \<ge> ddt_MinDragDistance ddt1
            then ddt1\<lparr>ddt_IsDragging := True\<rparr> else ddt1))"

definition clearDragState :: "DragDropTracker \<Rightarrow> DragDropTracker" where
  "clearDragState ddt =
     ddt\<lparr>ddt_IsDragging := False, ddt_DragStartTime := 0, ddt_DragStartElement := None,
         ddt_DragStartPos := zeroPosition, ddt_LastDragPos := zeroPosition\<rparr>"

definition dropTargetRoles :: "string list" where
  "dropTargetRoles =
     [''list'', ''listbox'', ''tree'', ''treeitem'',
      ''document'', ''application'', ''pane'', ''window'',
      ''textbox'', ''editbox'', ''richedit'',
      ''button'', ''dropdownbutton'']"

definition dropKeywords :: "string list" where
  "dropKeywords =
     [''drop'', ''upload'', ''import'', ''attach'', ''browse'',
      ''file'', ''folder'', ''directory'']"

definition isDropTarget :: "(string \<Rightarrow> string) \<Rightarrow> UIElement option \<Rightarrow> bool" where
  "isDropTarget mapLower element =
     (case element of
        None \<Rightarrow> False
      | Some e \<Rightarrow>
          (let elementRole = ToLower mapLower (Role e) in
           if list_ex (\<lambda>role. elementRole = role \<or> Contains elementRole role) dropTargetRoles
           then True
           else (let elementName = ToLower mapLower (Name e) in
                 if list_ex (\<lambda>keyword. Contains elementName keyword) dropKeywords
                 then True else False)))"

definition isSuccessfulDrop ::
  "(string \<Rightarrow> string) \<Rightarrow> time \<Rightarrow> Position \<Rightarrow> UIElement option \<Rightarrow> DragDropTracker \<Rightarrow> bool" where
  "isSuccessfulDrop mapLower now dropPosition targetElement ddt =
     (if targetElement \<noteq> None \<and> isDropTarget mapLower targetElement then True
      else if calculateDistance (ddt_DragStartPos ddt) dropPosition > 50 then True
      else if time_Since now (ddt_DragStartTime ddt) > 500 * Millisecond then True
      else False)"

definition getDragContent ::
  "(string \<Rightarrow> string) \<Rightarrow> string \<Rightarrow> DragDropTracker \<Rightarrow> string \<times> string" where
  "getDragContent mapLower clipboardContent ddt =
     (if clipboardContent \<noteq> [] then
        (if Contains clipboardContent [CHR '':'', CHR 0x5C] \<or> Contains clipboardContent ''/''
         then (clipboardContent, ''file'')
         else (clipboardContent, ''text''))
      else
        (case ddt_DragStartElement ddt of
           None \<Rightarrow> ([], ''unknown'')
         | Some e \<Rightarrow>
             (let elementRole = ToLower mapLower (Role e); elementName = ToLower mapLower (Name e) in
              if (Contains elementRole ''listitem'' \<or> Contains elementRole ''treeitem'')
                 \<and> Contains elementName ''.''
              then (Name e, ''file'')
              else if Contains elementRole ''text'' \<or> Contains elementRole ''edit''
              then (Name e, ''text'')
              else if Contains elementRole ''image'' \<or> Contains elementName ''image''
              then (Name e, ''image'')
              else ([], ''unknown''))))"

definition ddt_HandleMouseUp ::
  "(string \<Rightarrow> string) \<Rightarrow> time \<Rightarrow> EventMetadata \<Rightarrow> string \<Rightarrow> Position \<Rightarrow> MouseButton \<Rightarrow> UIElement option
     \<Rightarrow> DragDropTracker \<Rightarrow> DragDropTracker \<times> DragDropEvent list" where
  "ddt_HandleMouseUp mapLower now md clipboardContent position button element ddt =
     (if button \<noteq> MouseButtonLeft then (ddt, [])
      else if \<not> ddt_IsDragging ddt \<or> ddt_DragStartTime ddt = 0 then (clearDragState ddt, [])
      else if calculateDistance (ddt_DragStartPos ddt) position < ddt_MinDragDistance ddt
      then (clearDragState ddt, [])
      else
        (let dropSuccess = isSuccessfulDrop mapLower now position element ddt;
             (content, dataType) = getDragContent mapLower clipboardContent ddt;
             event = \<lparr>dde_StartPosition = ddt_DragStartPos ddt, dde_EndPosition = position,
                      dde_SourceElement = ddt_DragStartElement ddt, dde_DataType = dataType,
                      dde_Content = content, dde_Success = dropSuccess,
                      dde_Metadata = (if element \<noteq> None then md\<lparr>md_UIElement := element\<rparr> else md)\<rparr>
         in (clearDragState ddt, if ddt_EventCallback ddt then [event] else [])))"

definition ddt_HandleKeyPress :: "uint32 \<Rightarrow> bool \<Rightarrow> DragDropTracker \<Rightarrow> DragDropTracker" where
  "ddt_HandleKeyPress keyCode isKeyDown ddt =
     (if keyCode = 0x1B \<and> isKeyDown then (if ddt_IsDragging ddt then clearDragState ddt else ddt)
      else ddt)"

text \<open>A position from its coordinates, and elements and a tracker of concrete runs.\<close>

definition pos :: "int32 \<Rightarrow> int32 \<Rightarrow> Position" where
  "pos x y = \<lparr>X = x, Y = y\<rparr>"

definition listboxElement :: UIElement where
  "listboxElement = \<lparr>Role = ''listbox'', Name = ''Items'', ProcessID = 7,
                      WindowTitle = ''Explorer'', ApplicationName = ''explorer.exe'', URL = []\<rparr>"

definition mixedCaseListElement :: UIElement where
  "mixedCaseListElement = \<lparr>Role = ''ListBox'', Name = ''Items'', ProcessID = 7,
                            WindowTitle = ''Explorer'', ApplicationName = ''explorer.exe'', URL = []\<rparr>"

definition labelElement :: UIElement where
  "labelElement = \<lparr>Role = ''label'', Name = ''Caption'', ProcessID = 7,
                    WindowTitle = ''Explorer'', ApplicationName = ''explorer.exe'', URL = []\<rparr>"

definition uploadElement :: UIElement where
  "uploadElement = \<lparr>Role = ''custom'', Name = ''Upload area'', ProcessID = 7,
                     WindowTitle = ''Explorer'', ApplicationName = ''explorer.exe'', URL = []\<rparr>"

definition draggingFromOrigin :: DragDropTracker where
  "draggingFromOrigin =
     (NewDragDropTracker True)\<lparr>ddt_IsDragging := True, ddt_DragStartTime := 1000000000\<rparr>"

section \<open>Text selection tracker (text\_selection\_tracker.go)\<close>

text \<open>
  \<open>ClickCount\<close> is a Go \<open>int\<close>: a 64-bit word compared as a signed value.
  \<open>HandleMouseUp\<close> takes as \<open>selectedText\<close> what the content source
  (\<open>getSelectedText\<close>) returns; the source's own \<open>getSelectedText\<close> is a placeholder that
  returns the empty string whatever the clipboard holds, and the statements below hold for
  every content source, that one included.
\<close>

type_synonym goInt = "64 word"

datatype SelectionMethod =
  SelectionMouseDrag | SelectionDoubleClick | SelectionTripleClick
  | SelectionKeyboardShortcut | SelectionContextMenu

record TextSelectionEvent =
  tse_SelectedText :: string
  tse_StartPosition :: Position
  tse_EndPosition :: Position
  tse_SelectionMethod :: SelectionMethod
  tse_SelectionLength :: uint32
  tse_Metadata :: EventMetadata

record TextSelectionTracker =
  tst_IsSelecting :: bool
  tst_SelectionStartPos :: Position
  tst_SelectionStartTime :: time
  tst_LastMousePos :: Position
  tst_LastClickTime :: time
  tst_LastClickPos :: Position
  tst_ClickCount :: goInt
  tst_EventCallback :: bool

definition NewTextSelectionTracker :: "bool \<Rightarrow> TextSelectionTracker" where
  "NewTextSelectionTracker callback =
     \<lparr>tst_IsSelecting = False, tst_SelectionStartPos = zeroPosition, tst_SelectionStartTime = 0,
      tst_LastMousePos = zeroPosition, tst_LastClickTime = 0, tst_LastClickPos = zeroPosition,
      tst_ClickCount = 0, tst_EventCallback = callback\<rparr>"

definition isCloseClick :: "time \<Rightarrow> Position \<Rightarrow> TextSelectionTracker \<Rightarrow> bool" where
  "isCloseClick now position tst =
     (if time_Since now (tst_LastClickTime tst) > 500 * Millisecond then False
      else calculateDistance (tst_LastClickPos tst) position \<le> 5)"

definition tst_HandleMouseDown ::
  "time \<Rightarrow> Position \<Rightarrow> MouseButton \<Rightarrow> TextSelectionTracker \<Rightarrow> TextSelectionTracker" where
  "tst_HandleMouseDown now position button tst =
     (if button \<noteq> MouseButtonLeft then tst
      else
        (let tst1 = (if isCloseClick now position tst
                     then tst\<lparr>tst_ClickCount := tst_ClickCount tst + 1\<rparr>
                     else tst\<lparr>tst_ClickCount := 1\<rparr>)
         in tst1\<lparr>tst_LastClickTime := now, tst_LastClickPos := position,
                  tst_IsSelecting := True, tst_SelectionStartPos := position,
                  tst_SelectionStartTime := now, tst_LastMousePos := position\<rparr>))"

definition tst_HandleMouseMove :: "Position \<Rightarrow> TextSelectionTracker \<Rightarrow> TextSelectionTracker" where
  "tst_HandleMouseMove position tst =
     (if \<not> tst_IsSelecting tst then tst else tst\<lparr>tst_LastMousePos := position\<rparr>)"

definition getSelectedText :: "string \<Rightarrow> string" where
  "getSelectedText originalClipboard = []"

text \<open>The \<open>switch\<close> of \<open>HandleMouseUp\<close> on the click count; \<open>None\<close> is its early return.\<close>

definition selectionMethod :: "goInt \<Rightarrow> real \<Rightarrow> SelectionMethod option" where
  "selectionMethod clickCount distance =
     (if clickCount = 2 then Some SelectionDoubleClick
      else if clickCount = 3 then Some SelectionTripleClick
      else if distance \<ge> 5 then Some SelectionMouseDrag
      else None)"

definition selectionEvent ::
  "string \<Rightarrow> Position \<Rightarrow> Position \<Rightarrow> SelectionMethod \<Rightarrow> EventMetadata \<Rightarrow> TextSelectionEvent" where
  "selectionEvent selectedText startPos endPos method md =
     \<lparr>tse_SelectedText = selectedText, tse_StartPosition = startPos, tse_EndPosition = endPos,
      tse_SelectionMethod = method, tse_SelectionLength = of_nat (length selectedText),
      tse_Metadata = md\<rparr>"

definition tst_HandleMouseUp ::
  "EventMetadata \<Rightarrow> string \<Rightarrow> Position \<Rightarrow> MouseButton \<Rightarrow> TextSelectionTracker
     \<Rightarrow> TextSelectionTracker \<times> TextSelectionEvent list" where
  "tst_HandleMouseUp md selectedText position button tst =
     (if button \<noteq> MouseButtonLeft then (tst, [])
      else if \<not> tst_IsSelecting tst then (tst, [])
      else
        (let tst1 = tst\<lparr>tst_IsSelecting := False\<rparr>;
             distance = calculateDistance (tst_SelectionStartPos tst1) position
         in if distance < 5 \<and> tst_ClickCount tst1 \<le>s 1 then (tst1, [])
            else
              (case selectionMethod (tst_ClickCount tst1) distance of
                 None \<Rightarrow> (tst1, [])
               | Some method \<Rightarrow>
                   if selectedText = [] then (tst1, [])
                   else (tst1,
                         if tst_EventCallback tst1
                         then [selectionEvent selectedText (tst_SelectionStartPos tst1) position method md]
                         else []))))"

text \<open>A tracker after two presses at (100,100), 100 ms apart.\<close>

definition twoClicks :: TextSelectionTracker where
  "twoClicks = tst_HandleMouseDown 1100000000 (pos 100 100) MouseButtonLeft
                 (tst_HandleMouseDown 1000000000 (pos 100 100) MouseButtonLeft
                   (NewTextSelectionTracker True))"

section \<open>Text input manager (text\_input\_tracker.go)\<close>

text \<open>
  The text of a field is a list of Unicode code points (runes), the unit
  \<open>strings.TrimSpace\<close> works on; \<open>unicode_IsSpace\<close> is Go's \<open>unicode.IsSpace\<close>.
  \<open>getCurrentText\<close> returns the empty string for a nil element and otherwise what the
  accessibility layer reads from the element, the parameter \<open>readText\<close>; the source's
  own reader is the placeholder \<open>placeholderText\<close>, which always returns the empty string.
  A session's \<open>CompletionTimer\<close> is its pending deadline, \<open>None\<close> once stopped.
\<close>

type_synonym runes = "nat list"

definition unicode_IsSpace :: "nat \<Rightarrow> bool" where
  "unicode_IsSpace r =
     ((0x09 \<le> r \<and> r \<le> 0x0D) \<or> r = 0x20 \<or> r = 0x85 \<or> r = 0xA0 \<or> r = 0x1680
      \<or> (0x2000 \<le> r \<and> r \<le> 0x200A) \<or> r = 0x2028 \<or> r = 0x2029 \<or> r = 0x202F
      \<or> r = 0x205F \<or> r = 0x3000)"

definition TrimSpace :: "runes \<Rightarrow> runes" where
  "TrimSpace s = rev (dropWhile unicode_IsSpace (rev (dropWhile unicode_IsSpace s)))"

datatype TextInputMethod =
  TextInputTyped | TextInputPasted | TextInputAutoFilled | TextInputSuggestion | TextInputMixed

record TextInputCompletedEvent =
  tic_TextValue :: runes
  tic_FieldName :: string
  tic_FieldType :: string
  tic_InputMethod :: TextInputMethod
  tic_TypingDurationMs :: uint64
  tic_KeystrokeCount :: uint32
  tic_Metadata :: EventMetadata

record TextInputTracker =
  tit_Element :: "UIElement option"
  tit_StartTime :: time
  tit_LastKeystroke :: time
  tit_KeystrokeCount :: uint32
  tit_InitialText :: runes
  tit_CurrentText :: runes
  tit_InputMethod :: TextInputMethod
  tit_CompletionTimer :: "time option"

record TextInputManager =
  tim_ActiveInputs :: "string \<rightharpoonup> TextInputTracker"
  tim_CompletionTimeout :: duration
  tim_EventCallback :: bool

definition NewTextInputManager :: "duration \<Rightarrow> bool \<Rightarrow> TextInputManager" where
  "NewTextInputManager completionTimeout callback =
     \<lparr>tim_ActiveInputs = Map.empty, tim_CompletionTimeout = completionTimeout,
      tim_EventCallback = callback\<rparr>"

definition getElementKey :: "UIElement option \<Rightarrow> string" where
  "getElementKey element =
     (case element of None \<Rightarrow> [] | Some e \<Rightarrow> Role e @ ''|'' @ Name e @ ''|'' @ WindowTitle e)"

definition getCurrentText :: "(UIElement \<Rightarrow> runes) \<Rightarrow> UIElement option \<Rightarrow> runes" where
  "getCurrentText readText element = (case element of None \<Rightarrow> [] | Some e \<Rightarrow> readText e)"

definition placeholderText :: "UIElement \<Rightarrow> runes" where
  "placeholderText e = []"

definition getFieldName :: "UIElement option \<Rightarrow> string" where
  "getFieldName element =
     (case element of None \<Rightarrow> ''Unknown''
      | Some e \<Rightarrow> if Name e = [] then ''Unknown'' else Name e)"

definition getFieldType :: "UIElement option \<Rightarrow> string" where
  "getFieldType element = (case element of None \<Rightarrow> ''Unknown'' | Some e \<Rightarrow> Role e)"

definition textInputEvent ::
  "time \<Rightarrow> EventMetadata \<Rightarrow> runes \<Rightarrow> TextInputTracker \<Rightarrow> TextInputCompletedEvent" where
  "textInputEvent now md finalText tracker =
     \<lparr>tic_TextValue = finalText,
      tic_FieldName = getFieldName (tit_Element tracker),
      tic_FieldType = getFieldType (tit_Element tracker),
      tic_InputMethod = tit_InputMethod tracker,
      tic_TypingDurationMs = word_of_int (Milliseconds (time_Since now (tit_StartTime tracker))),
      tic_KeystrokeCount = tit_KeystrokeCount tracker,
      tic_Metadata = (if tit_Element tracker \<noteq> None
                      then md\<lparr>md_UIElement := tit_Element tracker\<rparr> else md)\<rparr>"

definition completeTextInputInternal ::
  "time \<Rightarrow> EventMetadata \<Rightarrow> (UIElement \<Rightarrow> runes) \<Rightarrow> TextInputTracker option \<Rightarrow> string
     \<Rightarrow> TextInputManager \<Rightarrow> TextInputTracker option \<times> TextInputCompletedEvent list" where
  "completeTextInputInternal now md readText tracker reason tim =
     (case tracker of
        None \<Rightarrow> (None, [])
      | Some tr \<Rightarrow>
          (let tr1 = tr\<lparr>tit_CompletionTimer := None\<rparr>;
               finalText = getCurrentText readText (tit_Element tr1)
           in if finalText \<noteq> tit_InitialText tr1 \<and> TrimSpace finalText \<noteq> []
              then (Some tr1,
                    if tim_EventCallback tim then [textInputEvent now md finalText tr1] else [])
              else (Some tr1, [])))"

definition CompleteTextInput ::
  "time \<Rightarrow> EventMetadata \<Rightarrow> (UIElement \<Rightarrow> runes) \<Rightarrow> string \<Rightarrow> string
     \<Rightarrow> TextInputManager \<Rightarrow> TextInputManager \<times> TextInputCompletedEvent list" where
  "CompleteTextInput now md readText elementKey reason tim =
     (case tim_ActiveInputs tim elementKey of
        Some tracker \<Rightarrow>
          (tim\<lparr>tim_ActiveInputs := (tim_ActiveInputs tim)(elementKey := None)\<rparr>,
           snd (completeTextInputInternal now md readText (Some tracker) reason tim))
      | None \<Rightarrow> (tim, []))"

definition StartTextInput ::
  "time \<Rightarrow> EventMetadata \<Rightarrow> (UIElement \<Rightarrow> runes) \<Rightarrow> UIElement option
     \<Rightarrow> TextInputManager \<Rightarrow> TextInputManager \<times> TextInputCompletedEvent list" where
  "StartTextInput now md readText element tim =
     (if element = None then (tim, [])
      else
        (let elementKey = getElementKey element;
             events = (case tim_ActiveInputs tim elementKey of
                         Some existing \<Rightarrow>
                           snd (completeTextInputInternal now md readText (Some existing)
                                  ''focus_change'' tim)
                       | None \<Rightarrow> []);
             tracker = \<lparr>tit_Element = element, tit_StartTime = now, tit_LastKeystroke = now,
                        tit_KeystrokeCount = 0,
                        tit_InitialText = getCurrentText readText element,
                        tit_CurrentText = getCurrentText readText element,
                        tit_InputMethod = TextInputTyped,
                        tit_CompletionTimer = Some (now + tim_CompletionTimeout tim)\<rparr>
         in (tim\<lparr>tim_ActiveInputs := (tim_ActiveInputs tim)(elementKey \<mapsto> tracker)\<rparr>, events)))"

text \<open>
  \<open>CompleteAllActiveInputs\<close> ranges over the map; \<open>iterationOrder\<close> is the order in which
  the range visits the keys.
\<close>

fun completeAll ::
  "time \<Rightarrow> EventMetadata \<Rightarrow> (UIElement \<Rightarrow> runes) \<Rightarrow> string list
     \<Rightarrow> TextInputManager \<Rightarrow> TextInputManager \<times> TextInputCompletedEvent list" where
  "completeAll now md readText [] tim = (tim, [])"
| "completeAll now md readText (elementKey # ks) tim =
     (case tim_ActiveInputs tim elementKey of
        None \<Rightarrow> completeAll now md readText ks tim
      | Some tracker \<Rightarrow>
          (let es = snd (completeTextInputInternal now md readText (Some tracker) ''session_end'' tim);
               (tim2, es2) = completeAll now md readText ks
                               (tim\<lparr>tim_ActiveInputs := (tim_ActiveInputs tim)(elementKey := None)\<rparr>)
           in (tim2, es @ es2)))"

definition CompleteAllActiveInputs ::
  "time \<Rightarrow> EventMetadata \<Rightarrow> (UIElement \<Rightarrow> runes) \<Rightarrow> string list
     \<Rightarrow> TextInputManager \<Rightarrow> TextInputManager \<times> TextInputCompletedEvent list" where
  "CompleteAllActiveInputs now md readText iterationOrder tim =
     completeAll now md readText iterationOrder tim"

text \<open>A session on an edit field with five keystrokes, for concrete runs.\<close>

definition editElement :: UIElement where
  "editElement = \<lparr>Role = ''edit'', Name = ''Search'', ProcessID = 9,
                   WindowTitle = ''Notepad'', ApplicationName = ''notepad.exe'', URL = []\<rparr>"

definition helloText :: runes where
  "helloText = [104, 101, 108, 108, 111]"

definition helloSession :: TextInputTracker where
  "helloSession = \<lparr>tit_Element = Some editElement, tit_StartTime = 1000000000,
                    tit_LastKeystroke = 2000000000, tit_KeystrokeCount = 5,
                    tit_InitialText = [], tit_CurrentText = [],
                    tit_InputMethod = TextInputTyped, tit_CompletionTimer = Some 5000000000\<rparr>"

definition helloManager :: TextInputManager where
  "helloManager = \<lparr>tim_ActiveInputs = [getElementKey (Some editElement) \<mapsto> helloSession],
                    tim_CompletionTimeout = 3000 * Millisecond, tim_EventCallback = True\<rparr>"

definition readHello :: "UIElement \<Rightarrow> runes" where
  "readHello e = helloText"

text \<open>
  A text of white space only (space, tab, line feed, carriage return, no-break space, em
  space, ideographic space), a letter between two spaces, and a zero-width space, which is
  not white space.
\<close>

definition blankText :: runes where
  "blankText = [0x20, 0x09, 0x0A, 0x0D, 0xA0, 0x2003, 0x3000]"

definition paddedText :: runes where
  "paddedText = [0x20, 0x61, 0x20]"

definition zeroWidthText :: runes where
  "zeroWidthText = [0x200B]"

section \<open>Browser tab navigation tracker (enhanced\_clipboard.go)\<close>

text \<open>
  \<open>BrowserStates\<close> maps a process id to its state; the source keeps pointers in the map,
  so an update of a state is an update of the map entry. \<open>URLPatterns\<close> is the list of
  the pattern names of \<open>initializePatterns\<close>; the four compiled expressions are the same
  expression, so the order in which the map is ranged over does not matter.
  \<open>extractTitle\<close> and \<open>getBrowserName\<close> only fill the title and browser fields of an
  event; they are parameters of \<open>HandleWindowChange\<close>, after the Unicode path
  \<open>mapLower\<close> of \<open>ToLower\<close>, and every statement below holds whatever they return.
  The concrete runs are stated for every \<open>mapLower\<close>; the application names of their
  elements are ASCII.
\<close>

datatype TabAction =
  TabCreated | TabSwitched | TabClosed | TabMoved | TabDuplicated | TabPinned | TabRefreshed

datatype TabNavigationMethod =
  TabNavigationKeyboardShortcut | TabNavigationTabClick | TabNavigationNewTabButton
  | TabNavigationCloseButton | TabNavigationContextMenu | TabNavigationAddressBar
  | TabNavigationLinkNewTab | TabNavigationOther

record BrowserTabNavigationEvent =
  bne_Action :: TabAction
  bne_Method :: TabNavigationMethod
  bne_ToURL :: string
  bne_FromURL :: string
  bne_ToTitle :: string
  bne_FromTitle :: string
  bne_Browser :: string
  bne_TabIndex :: uint32
  bne_TotalTabs :: uint32
  bne_PageDwellTimeMs :: uint64
  bne_IsBackForward :: bool
  bne_Metadata :: EventMetadata

record BrowserState =
  bs_ProcessID :: uint32
  bs_WindowTitle :: string
  bs_CurrentURL :: string
  bs_LastURLChange :: time
  bs_TabCount :: uint32
  bs_LastTabAction :: time
  bs_RecentHotkeys :: "string list"
  bs_RecentClicks :: "Position list"

record BrowserTabTracker =
  btt_BrowserStates :: "uint32 \<rightharpoonup> BrowserState"
  btt_LastNavigation :: time
  btt_EventCallback :: bool
  btt_URLPatterns :: "string list"

definition NewBrowserTabTracker :: "bool \<Rightarrow> BrowserTabTracker" where
  "NewBrowserTabTracker callback =
     \<lparr>btt_BrowserStates = Map.empty, btt_LastNavigation = 0, btt_EventCallback = callback,
      btt_URLPatterns = [''chrome'', ''firefox'', ''edge'', ''safari'']\<rparr>"

definition browsers :: "string list" where
  "browsers = [''chrome'', ''firefox'', ''edge'', ''safari'', ''opera'', ''brave'', ''vivaldi'']"

definition isBrowserWindow :: "(string \<Rightarrow> string) \<Rightarrow> UIElement option \<Rightarrow> bool" where
  "isBrowserWindow mapLower element =
     (case element of
        None \<Rightarrow> False
      | Some e \<Rightarrow>
          (let appName = ToLower mapLower (ApplicationName e);
               windowTitle = ToLower mapLower (WindowTitle e)
           in list_ex (\<lambda>browser. Contains appName browser \<or> Contains windowTitle browser) browsers))"

text \<open>
  The regular expressions. \<open>https?://\<close> is matched by \<open>matchScheme\<close>, which returns the
  scheme and the rest of the string. \<open>findAfterScheme run\<close> is the leftmost match of the
  scheme followed by a non-empty greedy run of a character class: \<open>urlRun\<close> for the
  class of the browser patterns (everything but white space, the hyphen and the em dash),
  \<open>fallbackRun\<close> for the fallback class (which also excludes the bar and the square
  brackets), \<open>takeWhile\<close> up to the first slash for the domain. Strings are UTF-8 bytes:
  white space is tab, newline, form feed, carriage return and space, and the em dash is the
  byte sequence E2 80 94, which can only start a character.
  \<open>FindString\<close> returns the empty string when there is no match.
\<close>

definition matchScheme :: "string \<Rightarrow> (string \<times> string) option" where
  "matchScheme s =
     (if HasPrefix s ''https://'' then Some (''https://'', drop 8 s)
      else if HasPrefix s ''http://'' then Some (''http://'', drop 7 s)
      else None)"

fun findAfterScheme :: "(string \<Rightarrow> string) \<Rightarrow> string \<Rightarrow> (string \<times> string) option" where
  "findAfterScheme run [] = None"
| "findAfterScheme run (c # cs) =
     (case matchScheme (c # cs) of
        Some (scheme, rest) \<Rightarrow>
          if run rest \<noteq> [] then Some (scheme, run rest) else findAfterScheme run cs
      | None \<Rightarrow> findAfterScheme run cs)"

definition regexSpace :: "char \<Rightarrow> bool" where
  "regexSpace c = (c = CHR 0x09 \<or> c = CHR 0x0A \<or> c = CHR 0x0C \<or> c = CHR 0x0D \<or> c = CHR '' '')"

definition startsEmDash :: "string \<Rightarrow> bool" where
  "startsEmDash s = HasPrefix s [CHR 0xE2, CHR 0x80, CHR 0x94]"

fun urlRun :: "string \<Rightarrow> string" where
  "urlRun [] = []"
| "urlRun (c # cs) =
     (if regexSpace c \<or> c = CHR ''-'' \<or> startsEmDash (c # cs) then [] else c # urlRun cs)"

fun fallbackRun :: "string \<Rightarrow> string" where
  "fallbackRun [] = []"
| "fallbackRun (c # cs) =
     (if regexSpace c \<or> c = CHR ''-'' \<or> startsEmDash (c # cs)
         \<or> c = CHR ''|'' \<or> c = CHR ''['' \<or> c = CHR '']''
      then [] else c # fallbackRun cs)"

definition FindString :: "(string \<Rightarrow> string) \<Rightarrow> string \<Rightarrow> string" where
  "FindString run s = (case findAfterScheme run s of None \<Rightarrow> [] | Some (scheme, m) \<Rightarrow> scheme @ m)"

definition TrimRight :: "string \<Rightarrow> string \<Rightarrow> string" where
  "TrimRight s cutset = rev (dropWhile (\<lambda>c. c \<in> set cutset) (rev s))"

fun firstPatternMatch :: "string list \<Rightarrow> string \<Rightarrow> string" where
  "firstPatternMatch [] windowTitle = []"
| "firstPatternMatch (pattern # ps) windowTitle =
     (if FindString urlRun windowTitle \<noteq> [] then FindString urlRun windowTitle
      else firstPatternMatch ps windowTitle)"

definition extractURL :: "BrowserTabTracker \<Rightarrow> string \<Rightarrow> string" where
  "extractURL btt windowTitle =
     (if windowTitle = [] then []
      else if firstPatternMatch (btt_URLPatterns btt) windowTitle \<noteq> []
      then firstPatternMatch (btt_URLPatterns btt) windowTitle
      else if FindString fallbackRun windowTitle \<noteq> []
      then TrimRight (FindString fallbackRun windowTitle) ''.,;)''
      else [])"

definition extractDomain :: "string \<Rightarrow> string" where
  "extractDomain url =
     (case findAfterScheme (takeWhile (\<lambda>c. c \<noteq> CHR ''/'')) url of
        None \<Rightarrow> [] | Some (scheme, domain) \<Rightarrow> domain)"

definition isBackForwardNavigation :: "string \<Rightarrow> string \<Rightarrow> bool" where
  "isBackForwardNavigation fromURL toURL =
     (if fromURL = [] \<or> toURL = [] then False
      else extractDomain fromURL = extractDomain toURL \<and> extractDomain fromURL \<noteq> [])"

text \<open>
  \<open>determineNavigationMethod\<close>: the \<open>switch\<close> on one hotkey is \<open>hotkeyMethod\<close>
  (\<open>None\<close> when no case applies), the loop over the buffer is \<open>firstHotkeyMethod\<close>.
\<close>

definition hotkeyMethod :: "string \<Rightarrow> TabNavigationMethod option" where
  "hotkeyMethod hotkey =
     (if hotkey \<in> set [''Ctrl+T'', ''Ctrl+Shift+T''] then Some TabNavigationNewTabButton
      else if hotkey \<in> set [''Ctrl+W'', ''Ctrl+F4''] then Some TabNavigationCloseButton
      else if hotkey \<in> set [''Ctrl+Tab'', ''Ctrl+Shift+Tab'', ''Ctrl+1'', ''Ctrl+2'', ''Ctrl+3'',
                              ''Ctrl+4'', ''Ctrl+5'', ''Ctrl+6'', ''Ctrl+7'', ''Ctrl+8'', ''Ctrl+9'']
        then Some TabNavigationKeyboardShortcut
      else if hotkey \<in> set [''Ctrl+L'', ''F6''] then Some TabNavigationAddressBar
      else None)"

fun firstHotkeyMethod :: "string list \<Rightarrow> TabNavigationMethod option" where
  "firstHotkeyMethod [] = None"
| "firstHotkeyMethod (hotkey # hs) =
     (case hotkeyMethod hotkey of Some m \<Rightarrow> Some m | None \<Rightarrow> firstHotkeyMethod hs)"

definition determineNavigationMethod :: "BrowserState \<Rightarrow> TabNavigationMethod" where
  "determineNavigationMethod browserState =
     (case firstHotkeyMethod (bs_RecentHotkeys browserState) of
        Some m \<Rightarrow> m
      | None \<Rightarrow>
          if length (bs_RecentClicks browserState) > 0 then TabNavigationTabClick
          else TabNavigationOther)"

definition isBrowserNavigationHotkey :: "string \<Rightarrow> bool" where
  "isBrowserNavigationHotkey combination =
     (combination \<in> set
        [''Ctrl+T'', ''Ctrl+Shift+T'', ''Ctrl+W'', ''Ctrl+F4'',
         ''Ctrl+Tab'', ''Ctrl+Shift+Tab'', ''Ctrl+L'', ''F6'',
         ''Ctrl+1'', ''Ctrl+2'', ''Ctrl+3'', ''Ctrl+4'', ''Ctrl+5'',
         ''Ctrl+6'', ''Ctrl+7'', ''Ctrl+8'', ''Ctrl+9'',
         ''Ctrl+R'', ''F5'', ''Ctrl+F5'', ''Ctrl+Shift+R'',
         ''Alt+Left'', ''Alt+Right'', ''Backspace''])"

definition navigationEvent ::
  "(string \<Rightarrow> string) \<Rightarrow> (string \<Rightarrow> string) \<Rightarrow> time \<Rightarrow> EventMetadata \<Rightarrow> UIElement \<Rightarrow> string
     \<Rightarrow> BrowserState \<Rightarrow> BrowserTabNavigationEvent" where
  "navigationEvent extractTitle getBrowserName now md e currentURL browserState =
     \<lparr>bne_Action = TabSwitched,
      bne_Method = determineNavigationMethod browserState,
      bne_ToURL = currentURL,
      bne_FromURL = bs_CurrentURL browserState,
      bne_ToTitle = extractTitle (WindowTitle e),
      bne_FromTitle = extractTitle (bs_WindowTitle browserState),
      bne_Browser = getBrowserName (ApplicationName e),
      bne_TabIndex = 0,
      bne_TotalTabs = 0,
      bne_PageDwellTimeMs = word_of_int (Milliseconds (time_Since now (bs_LastURLChange browserState))),
      bne_IsBackForward = isBackForwardNavigation (bs_CurrentURL browserState) currentURL,
      bne_Metadata = md\<lparr>md_UIElement := Some e\<rparr>\<rparr>"

definition HandleWindowChange ::
  "(string \<Rightarrow> string) \<Rightarrow> (string \<Rightarrow> string) \<Rightarrow> (string \<Rightarrow> string) \<Rightarrow> time \<Rightarrow> EventMetadata \<Rightarrow> UIElement option
     \<Rightarrow> BrowserTabTracker \<Rightarrow> BrowserTabTracker \<times> BrowserTabNavigationEvent list" where
  "HandleWindowChange mapLower extractTitle getBrowserName now md element btt =
     (case element of
        None \<Rightarrow> (btt, [])
      | Some e \<Rightarrow>
          if \<not> isBrowserWindow mapLower (Some e) then (btt, [])
          else
            (let processID = ProcessID e;
                 windowTitle = WindowTitle e;
                 currentURL = extractURL btt windowTitle
             in case btt_BrowserStates btt processID of
                  None \<Rightarrow>
                    (btt\<lparr>btt_BrowserStates := (btt_BrowserStates btt)(processID \<mapsto>
                        \<lparr>bs_ProcessID = processID, bs_WindowTitle = windowTitle,
                         bs_CurrentURL = currentURL, bs_LastURLChange = now, bs_TabCount = 1,
                         bs_LastTabAction = 0, bs_RecentHotkeys = [], bs_RecentClicks = []\<rparr>)\<rparr>,
                     [])
                | Some browserState \<Rightarrow>
                    (let changed = (currentURL \<noteq> [] \<and> currentURL \<noteq> bs_CurrentURL browserState);
                         events = (if changed \<and> btt_EventCallback btt
                                   then [navigationEvent extractTitle getBrowserName now md e
                                           currentURL browserState]
                                   else []);
                         bs1 = (if changed
                                then browserState\<lparr>bs_CurrentURL := currentURL,
                                        bs_WindowTitle := windowTitle,
                                        bs_LastURLChange := now, bs_LastTabAction := now\<rparr>
                                else browserState);
                         bs2 = bs1\<lparr>bs_WindowTitle := windowTitle,
                                   bs_CurrentURL := (if currentURL \<noteq> [] then currentURL
                                                     else bs_CurrentURL bs1)\<rparr>
                     in (btt\<lparr>btt_BrowserStates := (btt_BrowserStates btt)(processID \<mapsto> bs2)\<rparr>,
                         events))))"

definition HandleHotkey ::
  "(string \<Rightarrow> string) \<Rightarrow> string \<Rightarrow> UIElement option \<Rightarrow> BrowserTabTracker \<Rightarrow> BrowserTabTracker" where
  "HandleHotkey mapLower combination activeElement btt =
     (case activeElement of
        None \<Rightarrow> btt
      | Some e \<Rightarrow>
          if \<not> isBrowserWindow mapLower (Some e) then btt
          else if isBrowserNavigationHotkey combination then
            (case btt_BrowserStates btt (ProcessID e) of
               None \<Rightarrow> btt
             | Some browserState \<Rightarrow>
                 (let hs = bs_RecentHotkeys browserState @ [combination];
                      hs1 = (if length hs > 5 then tl hs else hs)
                  in btt\<lparr>btt_BrowserStates := (btt_BrowserStates btt)(ProcessID e \<mapsto>
                            browserState\<lparr>bs_RecentHotkeys := hs1\<rparr>)\<rparr>))
          else btt)"

definition HandleClick ::
  "(string \<Rightarrow> string) \<Rightarrow> Position \<Rightarrow> UIElement option \<Rightarrow> BrowserTabTracker \<Rightarrow> BrowserTabTracker" where
  "HandleClick mapLower position activeElement btt =
     (case activeElement of
        None \<Rightarrow> btt
      | Some e \<Rightarrow>
          if \<not> isBrowserWindow mapLower (Some e) then btt
          else
            (case btt_BrowserStates btt (ProcessID e) of
               None \<Rightarrow> btt
             | Some browserState \<Rightarrow>
                 (let cs = bs_RecentClicks browserState @ [position];
                      cs1 = (if length cs > 10 then tl cs else cs)
                  in btt\<lparr>btt_BrowserStates := (btt_BrowserStates btt)(ProcessID e \<mapsto>
                            browserState\<lparr>bs_RecentClicks := cs1\<rparr>)\<rparr>)))"

text \<open>
  The navigation method as the specification words it: the pattern groups are tried in
  the order new tab, close tab, tab cycle, address bar, each against the whole buffer.
  It is compared below with \<open>determineNavigationMethod\<close>, which is the source's.
\<close>

definition spec_navigationMethod :: "BrowserState \<Rightarrow> TabNavigationMethod" where
  "spec_navigationMethod browserState =
     (let hs = bs_RecentHotkeys browserState in
      if list_ex (\<lambda>h. h \<in> set [''Ctrl+T'', ''Ctrl+Shift+T'']) hs then TabNavigationNewTabButton
      else if list_ex (\<lambda>h. h \<in> set [''Ctrl+W'', ''Ctrl+F4'']) hs then TabNavigationCloseButton
      else if list_ex (\<lambda>h. h \<in> set [''Ctrl+Tab'', ''Ctrl+Shift+Tab'', ''Ctrl+1'', ''Ctrl+2'',
                 ''Ctrl+3'', ''Ctrl+4'', ''Ctrl+5'', ''Ctrl+6'', ''Ctrl+7'', ''Ctrl+8'', ''Ctrl+9'']) hs
        then TabNavigationKeyboardShortcut
      else if list_ex (\<lambda>h. h \<in> set [''Ctrl+L'', ''F6'']) hs then TabNavigationAddressBar
      else if bs_RecentClicks browserState \<noteq> [] then TabNavigationTabClick
      else TabNavigationOther)"

definition addressThenNewTab :: BrowserState where
  "addressThenNewTab =
     \<lparr>bs_ProcessID = 1234, bs_WindowTitle = ''Example Chrome'', bs_CurrentURL = [],
      bs_LastURLChange = 1000000000, bs_TabCount = 1, bs_LastTabAction = 0,
      bs_RecentHotkeys = [''Ctrl+L'', ''Ctrl+T''], bs_RecentClicks = []\<rparr>"

text \<open>Elements, states and trackers of concrete runs.\<close>

definition emDash :: string where
  "emDash = [CHR 0xE2, CHR 0x80, CHR 0x94]"

definition chromeSeed :: UIElement where
  "chromeSeed = \<lparr>Role = ''window'', Name = ''Example'', ProcessID = 1234,
                  WindowTitle = ''Example '' @ emDash @ '' Chrome'',
                  ApplicationName = ''chrome.exe'', URL = []\<rparr>"

definition chromePage :: UIElement where
  "chromePage = \<lparr>Role = ''window'', Name = ''Page'', ProcessID = 1234,
                  WindowTitle = ''https://example.com/page '' @ emDash @ '' Chrome'',
                  ApplicationName = ''chrome.exe'', URL = []\<rparr>"

definition seededState :: BrowserState where
  "seededState = \<lparr>bs_ProcessID = 1234, bs_WindowTitle = WindowTitle chromeSeed,
                   bs_CurrentURL = [], bs_LastURLChange = 1000000000, bs_TabCount = 1,
                   bs_LastTabAction = 0, bs_RecentHotkeys = [], bs_RecentClicks = []\<rparr>"

definition seededTracker :: "(string \<Rightarrow> string) \<Rightarrow> BrowserTabTracker" where
  "seededTracker mapLower =
     fst (HandleWindowChange mapLower (\<lambda>s. s) (\<lambda>s. s) 1000000000 md0 (Some chromeSeed)
                          (NewBrowserTabTracker True))"

definition hotkeyTracker :: "(string \<Rightarrow> string) \<Rightarrow> BrowserTabTracker" where
  "hotkeyTracker mapLower =
     HandleHotkey mapLower ''Ctrl+T'' (Some chromeSeed)
       (HandleHotkey mapLower ''Ctrl+L'' (Some chromeSeed)
         (HandleHotkey mapLower ''Ctrl+R'' (Some chromeSeed) (seededTracker mapLower)))"

text \<open>
  A window that is not a browser's although its title holds a URL; a browser window whose
  application name is in upper case; and one whose application name has the dotted capital
  I (the bytes C4 B0), which the Unicode tables lower to i: \<open>dottedLower\<close> does on that
  name what the tables do.
\<close>

definition notepadWindow :: UIElement where
  "notepadWindow = \<lparr>Role = ''window'', Name = ''Notes'', ProcessID = 77,
                     WindowTitle = ''https://example.com/page - Notepad'',
                     ApplicationName = ''notepad.exe'', URL = []\<rparr>"

definition firefoxUpper :: UIElement where
  "firefoxUpper = \<lparr>Role = ''window'', Name = ''Start'', ProcessID = 88,
                    WindowTitle = ''Start'', ApplicationName = ''FIREFOX.EXE'', URL = []\<rparr>"

definition dottedName :: string where
  "dottedName = [CHR ''F'', CHR 0xC4, CHR 0xB0] @ ''REFOX.EXE''"

definition firefoxDotted :: UIElement where
  "firefoxDotted = \<lparr>Role = ''window'', Name = ''Start'', ProcessID = 99,
                     WindowTitle = ''Start'', ApplicationName = dottedName, URL = []\<rparr>"

definition dottedLower :: "string \<Rightarrow> string" where
  "dottedLower s = (if s = dottedName then ''firefox.exe'' else s)"

section \<open>Proofs: hotkey detector\<close>

subsection \<open>Invariant and step lemmas\<close>

lemma map_get_inv: "hd_inv hk \<Longrightarrow> map_get (hd_PressedKeys hk) k = (k \<in> set (hd_KeyPressOrder hk))"
  by (auto simp: hd_inv_def map_get_def ran_def split: option.splits)

lemma hd_inv_New: "hd_inv (NewHotkeyDetector cb)"
  by (simp add: hd_inv_def NewHotkeyDetector_def)

lemma hd_inv_clearState: "hd_inv (clearState hk)"
  by (simp add: hd_inv_def clearState_def)

lemma hd_inv_checkForHotkeys: "hd_inv hk \<Longrightarrow> hd_inv (fst (checkForHotkeys md hk))"
  by (simp add: checkForHotkeys_def hd_inv_clearState split: option.splits)

lemma hd_inv_down:
  assumes "hd_inv hk" "\<not> map_get (hd_PressedKeys hk) k"
  shows "hd_inv (hk\<lparr>hd_PressedKeys := (hd_PressedKeys hk)(k \<mapsto> True),
                 hd_KeyPressOrder := hd_KeyPressOrder hk @ [k],
                 hd_LastKeyTime := now\<rparr>)"
  using assms map_get_inv[OF assms(1), of k]
  by (auto simp: hd_inv_def ran_def)

lemma hd_inv_up:
  assumes "hd_inv hk"
  shows "hd_inv (hk\<lparr>hd_PressedKeys := (hd_PressedKeys hk)(k := None),
                 hd_KeyPressOrder := remove1 k (hd_KeyPressOrder hk)\<rparr>)"
  using assms
  by (auto simp: hd_inv_def ran_def dom_def split: if_splits)

lemma hd_inv_HandleKeyPress: "hd_inv hk \<Longrightarrow> hd_inv (fst (HandleKeyPress now md k d hk))"
  unfolding HandleKeyPress_def Let_def
  by (auto simp: hd_inv_checkForHotkeys hd_inv_down hd_inv_up hd_inv_clearState simp del: fun_upd_apply)

lemma runKeys_Cons_fst:
  "fst (runKeys ((now, md, k, d) # cs) hk) = fst (runKeys cs (fst (HandleKeyPress now md k d hk)))"
  by (simp split: prod.splits)

lemma runKeys_Cons_snd:
  "snd (runKeys ((now, md, k, d) # cs) hk)
     = snd (HandleKeyPress now md k d hk) @ snd (runKeys cs (fst (HandleKeyPress now md k d hk)))"
  by (simp split: prod.splits)

lemma runKeys_append_fst: "fst (runKeys (cs @ ds) hk) = fst (runKeys ds (fst (runKeys cs hk)))"
proof (induction cs arbitrary: hk)
  case Nil
  show ?case by simp
next
  case (Cons c cs)
  obtain now md k d where c: "c = (now, md, k, d)" by (cases c) auto
  show ?case unfolding c by (simp only: append_Cons runKeys_Cons_fst Cons.IH)
qed

lemma runKeys_append_snd:
  "snd (runKeys (cs @ ds) hk) = snd (runKeys cs hk) @ snd (runKeys ds (fst (runKeys cs hk)))"
proof (induction cs arbitrary: hk)
  case Nil
  show ?case by simp
next
  case (Cons c cs)
  obtain now md k d where c: "c = (now, md, k, d)" by (cases c) auto
  show ?case unfolding c
    by (simp only: append_Cons runKeys_Cons_fst runKeys_Cons_snd Cons.IH append_assoc)
qed

lemma hd_inv_runKeys: "hd_inv hk \<Longrightarrow> hd_inv (fst (runKeys cs hk))"
proof (induction cs arbitrary: hk)
  case Nil then show ?case by simp
next
  case (Cons c cs)
  obtain now md k d where c: "c = (now, md, k, d)" by (cases c) auto
  have "hd_inv (fst (HandleKeyPress now md k d hk))" using Cons.prems by (rule hd_inv_HandleKeyPress)
  from Cons.IH[OF this] show ?case by (simp only: c runKeys_Cons_fst)
qed

lemma inv_card: "hd_inv hk \<Longrightarrow> card (dom (hd_PressedKeys hk)) = length (hd_KeyPressOrder hk)"
  by (metis hd_inv_def distinct_card)

lemma inv_sorted: "hd_inv hk \<Longrightarrow> sorted_list_of_set (dom (hd_PressedKeys hk)) = sort (hd_KeyPressOrder hk)"
  by (metis hd_inv_def sorted_list_of_set_sort_remdups distinct_remdups_id)

lemma checkForHotkeys_inv:
  "hd_inv hk \<Longrightarrow> checkForHotkeys md hk =
     (if length (hd_KeyPressOrder hk) < 2 then (hk, [])
      else (case firstMatch (sort (hd_KeyPressOrder hk)) (hd_HotkeyPatterns hk) of
              None \<Rightarrow> (hk, [])
            | Some p \<Rightarrow> (clearState hk, if hd_EventCallback hk then [hotkeyEvent p md] else [])))"
  by (simp add: checkForHotkeys_def inv_card inv_sorted hotkeyEvent_def split: option.splits)

lemma HandleKeyPress_down_inv:
  assumes "hd_inv hk"
  shows "HandleKeyPress now md k True hk =
     (if k \<in> set (hd_KeyPressOrder hk) then (hk, [])
      else if length (hd_KeyPressOrder hk) < 1 then (pressDown now k hk, [])
      else (case firstMatch (sort (hd_KeyPressOrder hk @ [k])) (hd_HotkeyPatterns hk) of
              None \<Rightarrow> (pressDown now k hk, [])
            | Some p \<Rightarrow> (clearState (pressDown now k hk),
                          if hd_EventCallback hk then [hotkeyEvent p md] else [])))"
proof (cases "k \<in> set (hd_KeyPressOrder hk)")
  case True
  then show ?thesis using map_get_inv[OF assms, of k] by (simp add: HandleKeyPress_def)
next
  case False
  then have ng: "\<not> map_get (hd_PressedKeys hk) k" using map_get_inv[OF assms, of k] by simp
  have inv': "hd_inv (pressDown now k hk)" unfolding pressDown_def using assms ng by (rule hd_inv_down)
  have "HandleKeyPress now md k True hk = checkForHotkeys md (pressDown now k hk)"
    using ng by (simp add: HandleKeyPress_def pressDown_def)
  also have "\<dots> = (if length (hd_KeyPressOrder hk) < 1 then (pressDown now k hk, [])
      else (case firstMatch (sort (hd_KeyPressOrder hk @ [k])) (hd_HotkeyPatterns hk) of
              None \<Rightarrow> (pressDown now k hk, [])
            | Some p \<Rightarrow> (clearState (pressDown now k hk),
                          if hd_EventCallback hk then [hotkeyEvent p md] else [])))"
    unfolding checkForHotkeys_inv[OF inv'] by (auto simp: pressDown_def split: option.splits)
  finally show ?thesis using False by simp
qed

lemma dom_checkForHotkeys: "dom (hd_PressedKeys (fst (checkForHotkeys md hk))) \<subseteq> dom (hd_PressedKeys hk)"
  by (simp add: checkForHotkeys_def clearState_def split: option.splits)

lemma dom_key_down:
  "dom (hd_PressedKeys (fst (HandleKeyPress now md k True hk))) \<subseteq> insert k (dom (hd_PressedKeys hk))"
proof (cases "map_get (hd_PressedKeys hk) k")
  case True
  then show ?thesis by (auto simp: HandleKeyPress_def)
next
  case False
  then have "HandleKeyPress now md k True hk = checkForHotkeys md (pressDown now k hk)"
    by (simp add: HandleKeyPress_def pressDown_def)
  moreover have "dom (hd_PressedKeys (pressDown now k hk)) = insert k (dom (hd_PressedKeys hk))"
    by (simp add: pressDown_def)
  ultimately show ?thesis using dom_checkForHotkeys[of md "pressDown now k hk"] by simp
qed

lemma dom_key_up:
  assumes "hd_inv hk"
  shows "dom (hd_PressedKeys (fst (HandleKeyPress now md k False hk))) \<subseteq> dom (hd_PressedKeys hk) - {k}"
proof (cases "k \<in> set (hd_KeyPressOrder hk)")
  case True
  then have "map_get (hd_PressedKeys hk) k" using map_get_inv[OF assms] by simp
  then show ?thesis by (auto simp: HandleKeyPress_def Let_def clearState_def split: if_splits)
next
  case False
  then have "\<not> map_get (hd_PressedKeys hk) k" "k \<notin> dom (hd_PressedKeys hk)"
    using map_get_inv[OF assms] assms by (auto simp: hd_inv_def)
  then show ?thesis by (auto simp: HandleKeyPress_def)
qed

lemma keyDowns_Cons: "keyDowns ((t, md, k) # ds) = (t, md, k, True) # keyDowns ds"
  by (simp add: keyDowns_def)

lemma keyUps_Cons: "keyUps ((t, md, k) # us) = (t, md, k, False) # keyUps us"
  by (simp add: keyUps_def)

lemma keysOf_Cons: "keysOf ((t, md, k) # ds) = k # keysOf ds"
  by (simp add: keysOf_def)

lemma dom_keyDowns:
  "dom (hd_PressedKeys (fst (runKeys (keyDowns ds) hk))) \<subseteq> dom (hd_PressedKeys hk) \<union> set (keysOf ds)"
proof (induction ds arbitrary: hk)
  case Nil
  show ?case by (simp add: keyDowns_def)
next
  case (Cons d ds)
  obtain t md k where d: "d = (t, md, k)" by (cases d) auto
  have "dom (hd_PressedKeys (fst (runKeys (keyDowns ds) (fst (HandleKeyPress t md k True hk)))))
          \<subseteq> dom (hd_PressedKeys (fst (HandleKeyPress t md k True hk))) \<union> set (keysOf ds)"
    by (rule Cons.IH)
  also have "\<dots> \<subseteq> insert k (dom (hd_PressedKeys hk)) \<union> set (keysOf ds)"
    using dom_key_down[of t md k hk] by blast
  finally show ?case unfolding d keyDowns_Cons keysOf_Cons runKeys_Cons_fst by auto
qed

lemma dom_keyUps:
  assumes "hd_inv hk" "dom (hd_PressedKeys hk) \<subseteq> set (keysOf us)"
  shows "dom (hd_PressedKeys (fst (runKeys (keyUps us) hk))) = {}"
  using assms
proof (induction us arbitrary: hk)
  case Nil
  then show ?case by (simp add: keyUps_def keysOf_def)
next
  case (Cons u us)
  obtain t md k where u: "u = (t, md, k)" by (cases u) auto
  let ?hk1 = "fst (HandleKeyPress t md k False hk)"
  have inv1: "hd_inv ?hk1" using Cons.prems(1) by (rule hd_inv_HandleKeyPress)
  have "dom (hd_PressedKeys ?hk1) \<subseteq> dom (hd_PressedKeys hk) - {k}"
    using Cons.prems(1) by (rule dom_key_up)
  moreover have "dom (hd_PressedKeys hk) \<subseteq> insert k (set (keysOf us))"
    using Cons.prems(2) unfolding u keysOf_Cons by simp
  ultimately have "dom (hd_PressedKeys ?hk1) \<subseteq> set (keysOf us)"
    by blast
  from Cons.IH[OF inv1 this] show ?case unfolding u keyUps_Cons runKeys_Cons_fst .
qed

lemma keyDowns_no_match:
  assumes "hd_inv hk"
    and "distinct (hd_KeyPressOrder hk @ keysOf ds)"
    and "\<forall>n\<in>{1..length ds}. 2 \<le> length (hd_KeyPressOrder hk) + n \<longrightarrow>
           firstMatch (sort (hd_KeyPressOrder hk @ take n (keysOf ds))) (hd_HotkeyPatterns hk) = None"
  shows "hd_KeyPressOrder (fst (runKeys (keyDowns ds) hk)) = hd_KeyPressOrder hk @ keysOf ds
       \<and> snd (runKeys (keyDowns ds) hk) = []"
  using assms
proof (induction ds arbitrary: hk)
  case Nil
  show ?case by (simp add: keyDowns_def keysOf_def)
next
  case (Cons d ds)
  obtain t md k where d: "d = (t, md, k)" by (cases d) auto
  let ?hk1 = "pressDown t k hk"
  have knew: "k \<notin> set (hd_KeyPressOrder hk)" using Cons.prems(2) unfolding d keysOf_Cons by auto
  have nm: "2 \<le> length (hd_KeyPressOrder hk) + 1 \<longrightarrow>
            firstMatch (sort (hd_KeyPressOrder hk @ [k])) (hd_HotkeyPatterns hk) = None"
    using Cons.prems(3)[rule_format, of 1] unfolding d keysOf_Cons by simp
  have step: "HandleKeyPress t md k True hk = (?hk1, [])"
  proof (cases "length (hd_KeyPressOrder hk) < 1")
    case True
    then show ?thesis using knew by (simp add: HandleKeyPress_down_inv[OF Cons.prems(1)])
  next
    case False
    then have "firstMatch (sort (hd_KeyPressOrder hk @ [k])) (hd_HotkeyPatterns hk) = None"
      using nm by (cases "hd_KeyPressOrder hk") auto
    then show ?thesis using knew False by (simp add: HandleKeyPress_down_inv[OF Cons.prems(1)])
  qed
  have inv1: "hd_inv ?hk1" using hd_inv_HandleKeyPress[OF Cons.prems(1), of t md k True] step by simp
  have ord1: "hd_KeyPressOrder ?hk1 = hd_KeyPressOrder hk @ [k]" by (simp add: pressDown_def)
  have pats1: "hd_HotkeyPatterns ?hk1 = hd_HotkeyPatterns hk" by (simp add: pressDown_def)
  have dist1: "distinct (hd_KeyPressOrder ?hk1 @ keysOf ds)"
    using Cons.prems(2) unfolding d keysOf_Cons ord1 by simp
  have nm1: "\<forall>n\<in>{1..length ds}. 2 \<le> length (hd_KeyPressOrder ?hk1) + n \<longrightarrow>
           firstMatch (sort (hd_KeyPressOrder ?hk1 @ take n (keysOf ds))) (hd_HotkeyPatterns ?hk1) = None"
  proof (intro ballI impI)
    fix n assume n: "n \<in> {1..length ds}" 
    have "Suc n \<in> {1..length (d # ds)}" using n by simp
    moreover have "2 \<le> length (hd_KeyPressOrder hk) + Suc n" using n by simp
    ultimately have "firstMatch (sort (hd_KeyPressOrder hk @ take (Suc n) (keysOf (d # ds)))) (hd_HotkeyPatterns hk) = None"
      using Cons.prems(3) by blast
    then show "firstMatch (sort (hd_KeyPressOrder ?hk1 @ take n (keysOf ds))) (hd_HotkeyPatterns ?hk1) = None"
      unfolding d keysOf_Cons ord1 pats1 by simp
  qed
  from Cons.IH[OF inv1 dist1 nm1] show ?case
    unfolding d keyDowns_Cons keysOf_Cons runKeys_Cons_fst runKeys_Cons_snd step by (simp add: ord1)
qed

lemma firstMatch_AB: "firstMatch [0x41, 0x42] initializeHotkeyPatterns = None"
  by (simp add: initializeHotkeyPatterns_def mkPattern_def keysMatch_def
      VK_CONTROL_def VK_MENU_def VK_SHIFT_def VK_LWIN_def)

lemma firstMatch_CtrlS:
  "firstMatch [0x11, 0x53] initializeHotkeyPatterns
     = Some (mkPattern [VK_CONTROL, 0x53] ''Ctrl+S'' ''Save'' False ''File'')"
  by (simp add: initializeHotkeyPatterns_def mkPattern_def keysMatch_def
      VK_CONTROL_def VK_MENU_def VK_SHIFT_def VK_LWIN_def)

lemma new_order: "hd_KeyPressOrder (NewHotkeyDetector cb) = []"
  and new_pats: "hd_HotkeyPatterns (NewHotkeyDetector cb) = initializeHotkeyPatterns"
  and new_cb: "hd_EventCallback (NewHotkeyDetector cb) = cb"
  by (simp_all add: NewHotkeyDetector_def)

lemma pressDown_fields:
  "hd_KeyPressOrder (pressDown t k hk) = hd_KeyPressOrder hk @ [k]"
  "hd_HotkeyPatterns (pressDown t k hk) = hd_HotkeyPatterns hk"
  "hd_EventCallback (pressDown t k hk) = hd_EventCallback hk"
  by (simp_all add: pressDown_def)

lemma clearState_fields:
  "hd_KeyPressOrder (clearState hk) = []"
  "hd_PressedKeys (clearState hk) = Map.empty"
  "hd_HotkeyPatterns (clearState hk) = hd_HotkeyPatterns hk"
  "hd_EventCallback (clearState hk) = hd_EventCallback hk"
  by (simp_all add: clearState_def)

lemma hd_inv_pressDown: "hd_inv hk \<Longrightarrow> k \<notin> set (hd_KeyPressOrder hk) \<Longrightarrow> hd_inv (pressDown t k hk)"
  unfolding pressDown_def by (rule hd_inv_down) (simp_all add: map_get_inv)

text \<open>Two fresh keys pressed on an empty held set, when the pair is catalogued.\<close>
lemma two_keys_match:
  assumes inv: "hd_inv hk" and emp: "hd_KeyPressOrder hk = []" and ne: "a \<noteq> b"
    and m: "firstMatch (sort [a, b]) (hd_HotkeyPatterns hk) = Some p"
  shows "runKeys [(t1, md1, a, True), (t2, md2, b, True)] hk
     = (clearState (pressDown t2 b (pressDown t1 a hk)),
        if hd_EventCallback hk then [hotkeyEvent p md2] else [])"
proof -
  have s1: "HandleKeyPress t1 md1 a True hk = (pressDown t1 a hk, [])"
    by (simp add: HandleKeyPress_down_inv[OF inv] emp)
  have inv1: "hd_inv (pressDown t1 a hk)" using inv by (rule hd_inv_pressDown) (simp add: emp)
  have s2: "HandleKeyPress t2 md2 b True (pressDown t1 a hk)
     = (clearState (pressDown t2 b (pressDown t1 a hk)),
        if hd_EventCallback hk then [hotkeyEvent p md2] else [])"
    using ne m by (simp add: HandleKeyPress_down_inv[OF inv1] pressDown_fields emp del: sort_key_simps)
  show ?thesis by (simp add: s1 s2)
qed

lemma ctrl_then_s:
  assumes inv: "hd_inv hk" and emp: "hd_KeyPressOrder hk = []"
    and pats: "hd_HotkeyPatterns hk = initializeHotkeyPatterns"
  shows "runKeys [(t1, md1, 0x11, True), (t2, md2, 0x53, True)] hk
     = (clearState (pressDown t2 0x53 (pressDown t1 0x11 hk)),
        if hd_EventCallback hk then [hotkeyEvent ctrlS md2] else [])"
  by (rule two_keys_match[OF inv emp]) (simp_all add: pats firstMatch_CtrlS ctrlS_def)

lemma s_then_ctrl:
  assumes inv: "hd_inv hk" and emp: "hd_KeyPressOrder hk = []"
    and pats: "hd_HotkeyPatterns hk = initializeHotkeyPatterns"
  shows "runKeys [(t1, md1, 0x53, True), (t2, md2, 0x11, True)] hk
     = (clearState (pressDown t2 0x11 (pressDown t1 0x53 hk)),
        if hd_EventCallback hk then [hotkeyEvent ctrlS md2] else [])"
  by (rule two_keys_match[OF inv emp]) (simp_all add: pats firstMatch_CtrlS ctrlS_def)

subsection \<open>Claims about the hotkey detector\<close>

text \<open>
  Claim C8. Between entry-point calls, a key code is in the press-order list
  (\<open>KeyPressOrder\<close>) if and only if it is a key of the held set (\<open>PressedKeys\<close>):
  this holds in every state reached from a new detector by any sequence of
  \<open>HandleKeyPress\<close> calls, whatever the calls insert, remove or clear.
\<close>

theorem hotkey_order_list_in_sync:
  "k \<in> set (hd_KeyPressOrder (fst (runKeys cs (NewHotkeyDetector cb))))
     \<longleftrightarrow> k \<in> dom (hd_PressedKeys (fst (runKeys cs (NewHotkeyDetector cb))))"
  using hd_inv_runKeys[OF hd_inv_New, of cs cb] by (simp add: hd_inv_def)

lemma order_after_a_b:
  "hd_KeyPressOrder (fst (runKeys (keyDowns [(1, md0, 0x41), (2, md0, 0x42)])
      (NewHotkeyDetector True))) = [0x41, 0x42]"
proof -
  let ?ds = "[(1::int, md0, 0x41::uint32), (2, md0, 0x42)]"
  let ?ini = "NewHotkeyDetector True"
  have k: "keysOf ?ds = [0x41, 0x42]" by (simp add: keysOf_def)
  have o0: "hd_KeyPressOrder ?ini = []" and p0: "hd_HotkeyPatterns ?ini = initializeHotkeyPatterns"
    by (simp_all add: NewHotkeyDetector_def)
  have m: "firstMatch (sort (take 2 (keysOf ?ds))) initializeHotkeyPatterns = None"
    by (simp add: k firstMatch_AB)
  have b: "\<forall>n\<in>{2..length ?ds}. firstMatch (sort (take n (keysOf ?ds))) initializeHotkeyPatterns = None"
  proof
    fix n assume "n \<in> {2..length ?ds}"
    then have "n = 2" by simp
    then show "firstMatch (sort (take n (keysOf ?ds))) initializeHotkeyPatterns = None"
      using m by simp
  qed
  have d: "distinct (keysOf ?ds)" by (simp add: k)
  have "hd_KeyPressOrder (fst (runKeys (keyDowns ?ds) ?ini)) = hd_KeyPressOrder ?ini @ keysOf ?ds
      \<and> snd (runKeys (keyDowns ?ds) ?ini) = []"
    using hd_inv_New d b by (intro keyDowns_no_match) (auto simp: o0 p0)
  then show ?thesis by (simp add: o0 k)
qed

theorem hotkey_order_list_in_sync_witness:
  "0x42 \<in> set (hd_KeyPressOrder (fst (runKeys (keyDowns [(1, md0, 0x41), (2, md0, 0x42)])
        (NewHotkeyDetector True))))
   \<and> 0x42 \<in> dom (hd_PressedKeys (fst (runKeys (keyDowns [(1, md0, 0x41), (2, md0, 0x42)])
        (NewHotkeyDetector True))))
   \<and> 0x43 \<notin> set (hd_KeyPressOrder (fst (runKeys (keyDowns [(1, md0, 0x41), (2, md0, 0x42)])
        (NewHotkeyDetector True))))
   \<and> 0x43 \<notin> dom (hd_PressedKeys (fst (runKeys (keyDowns [(1, md0, 0x41), (2, md0, 0x42)])
        (NewHotkeyDetector True))))
   \<and> ((0x41 \<in> set (hd_KeyPressOrder (fst (runKeys
        [(1, md0, 0x11, True), (2, md0, 0x41, True), (3, md0, 0x11, False)] (NewHotkeyDetector True)))))
      = (0x41 \<in> dom (hd_PressedKeys (fst (runKeys
        [(1, md0, 0x11, True), (2, md0, 0x41, True), (3, md0, 0x11, False)] (NewHotkeyDetector True))))))"
  using hotkey_order_list_in_sync[of "0x42" "keyDowns [(1, md0, 0x41), (2, md0, 0x42)]" True]
    hotkey_order_list_in_sync[of "0x43" "keyDowns [(1, md0, 0x41), (2, md0, 0x42)]" True]
    hotkey_order_list_in_sync[of "0x41"
      "[(1, md0, 0x11, True), (2, md0, 0x41, True), (3, md0, 0x11, False)]" True]
  by (simp add: order_after_a_b del: runKeys.simps)

text \<open>
  Claim C2, as amended. From a new detector, after key-downs of pairwise distinct key
  codes of which no prefix of two or more keys is a catalogued combination, the held set
  is exactly those keys and has as many entries as there were calls; and whatever the
  key-downs were, after key-ups of all their key codes the held set is empty.
  The claim as stated fails: a catalogued combination clears the held set at once, so
  key-downs of Ctrl and S leave no entry.
\<close>

theorem hotkey_held_set_after_key_downs:
  "(distinct (keysOf ds)
      \<and> (\<forall>n\<in>{2..length ds}. firstMatch (sort (take n (keysOf ds))) initializeHotkeyPatterns = None)
     \<longrightarrow> dom (hd_PressedKeys (fst (runKeys (keyDowns ds) (NewHotkeyDetector cb)))) = set (keysOf ds)
       \<and> card (dom (hd_PressedKeys (fst (runKeys (keyDowns ds) (NewHotkeyDetector cb))))) = length ds)
   \<and> (set (keysOf ds) \<subseteq> set (keysOf us)
     \<longrightarrow> dom (hd_PressedKeys (fst (runKeys (keyDowns ds @ keyUps us) (NewHotkeyDetector cb)))) = {})"
proof (intro conjI impI)
  let ?ini = "NewHotkeyDetector cb"
  let ?st = "fst (runKeys (keyDowns ds) ?ini)"
  have inv0: "hd_inv ?ini" by (rule hd_inv_New)
  have inv: "hd_inv ?st" using inv0 by (rule hd_inv_runKeys)
  {
    assume a: "distinct (keysOf ds)
      \<and> (\<forall>n\<in>{2..length ds}. firstMatch (sort (take n (keysOf ds))) initializeHotkeyPatterns = None)"
    have o0: "hd_KeyPressOrder ?ini = []" and p0: "hd_HotkeyPatterns ?ini = initializeHotkeyPatterns"
      by (simp_all add: NewHotkeyDetector_def)
    have "hd_KeyPressOrder ?st = hd_KeyPressOrder ?ini @ keysOf ds \<and> snd (runKeys (keyDowns ds) ?ini) = []"
      using inv0 a by (intro keyDowns_no_match) (auto simp: o0 p0)
    then have ord: "hd_KeyPressOrder ?st = keysOf ds" by (simp add: o0)
    show "dom (hd_PressedKeys ?st) = set (keysOf ds)" using inv ord by (simp add: hd_inv_def)
    show "card (dom (hd_PressedKeys ?st)) = length ds"
      using inv_card[OF inv] ord by (simp add: keysOf_def)
  }
  {
    assume a: "set (keysOf ds) \<subseteq> set (keysOf us)"
    have "dom (hd_PressedKeys ?st) \<subseteq> dom (hd_PressedKeys ?ini) \<union> set (keysOf ds)" by (rule dom_keyDowns)
    then have "dom (hd_PressedKeys ?st) \<subseteq> set (keysOf us)" using a by (auto simp: NewHotkeyDetector_def)
    from dom_keyUps[OF inv this]
    show "dom (hd_PressedKeys (fst (runKeys (keyDowns ds @ keyUps us) ?ini))) = {}"
      by (simp only: runKeys_append_fst)
  }
qed

theorem hotkey_held_set_after_key_downs_witness:
  "distinct (keysOf [(1, md0, 0x41), (2, md0, 0x42)])
   \<and> firstMatch (sort (take 2 (keysOf [(1, md0, 0x41), (2, md0, 0x42)]))) initializeHotkeyPatterns = None
   \<and> dom (hd_PressedKeys (fst (runKeys (keyDowns [(1, md0, 0x41), (2, md0, 0x42)])
          (NewHotkeyDetector True)))) = {0x41, 0x42}
   \<and> card (dom (hd_PressedKeys (fst (runKeys (keyDowns [(1, md0, 0x41), (2, md0, 0x42)])
          (NewHotkeyDetector True))))) = 2
   \<and> set (keysOf [(1, md0, 0x41), (2, md0, 0x42)]) \<subseteq> set (keysOf [(3, md0, 0x42), (4, md0, 0x41)])
   \<and> dom (hd_PressedKeys (fst (runKeys
          (keyDowns [(1, md0, 0x41), (2, md0, 0x42)] @ keyUps [(3, md0, 0x42), (4, md0, 0x41)])
          (NewHotkeyDetector True)))) = {}"
proof -
  let ?ds = "[(1::int, md0, 0x41::uint32), (2, md0, 0x42)]"
  let ?us = "[(3::int, md0, 0x42::uint32), (4, md0, 0x41)]"
  have k: "keysOf ?ds = [0x41, 0x42]" "keysOf ?us = [0x42, 0x41]" by (simp_all add: keysOf_def)
  have d: "distinct (keysOf ?ds)" by (simp add: k)
  have m: "firstMatch (sort (take 2 (keysOf ?ds))) initializeHotkeyPatterns = None"
    by (simp add: k firstMatch_AB)
  have b: "\<forall>n\<in>{2..length ?ds}. firstMatch (sort (take n (keysOf ?ds))) initializeHotkeyPatterns = None"
  proof
    fix n assume "n \<in> {2..length ?ds}"
    then have "n = 2" by simp
    then show "firstMatch (sort (take n (keysOf ?ds))) initializeHotkeyPatterns = None"
      using m by simp
  qed
  have s: "set (keysOf ?ds) \<subseteq> set (keysOf ?us)" by (simp add: k)
  from hotkey_held_set_after_key_downs[of ?ds True ?us] d b s
  have "dom (hd_PressedKeys (fst (runKeys (keyDowns ?ds) (NewHotkeyDetector True)))) = set (keysOf ?ds)"
    and "card (dom (hd_PressedKeys (fst (runKeys (keyDowns ?ds) (NewHotkeyDetector True))))) = length ?ds"
    and "dom (hd_PressedKeys (fst (runKeys (keyDowns ?ds @ keyUps ?us) (NewHotkeyDetector True)))) = {}"
    by blast+
  then show ?thesis using d m s by (simp add: k)
qed

theorem hotkey_key_downs_counterexample:
  "card (dom (hd_PressedKeys (fst (runKeys (keyDowns [(1, md0, 0x11), (2, md0, 0x53)])
      (NewHotkeyDetector True))))) \<noteq> length [(1::int, md0, 0x11::uint32), (2, md0, 0x53)]"
  by (simp add: keyDowns_def ctrl_then_s[OF hd_inv_New new_order new_pats] clearState_fields del: runKeys.simps)

text \<open>
  Claim C4. From a new detector with a callback, key-downs of Ctrl and S, in either
  order, emit exactly one event, Ctrl+S / Save. The claim adds that no further call emits
  an event while both keys stay held. The detector does not keep that: the match clears
  the held set, so the key-down guard no longer knows the keys are held, and a repeated
  key-down of Ctrl and of S (no key-up in between) emits the event a second time.
\<close>

theorem hotkey_ctrl_s_repeated_key_downs:
  "snd (runKeys [(t1, md1, 0x11, True), (t2, md2, 0x53, True)] (NewHotkeyDetector True))
      = [hotkeyEvent ctrlS md2]
   \<and> snd (runKeys [(t1, md1, 0x53, True), (t2, md2, 0x11, True)] (NewHotkeyDetector True))
      = [hotkeyEvent ctrlS md2]
   \<and> snd (runKeys [(t1, md1, 0x11, True), (t2, md2, 0x53, True),
                    (t3, md3, 0x11, True), (t4, md4, 0x53, True)] (NewHotkeyDetector True))
      = [hotkeyEvent ctrlS md2, hotkeyEvent ctrlS md4]"
proof -
  let ?ini = "NewHotkeyDetector True"
  let ?mid = "clearState (pressDown t2 0x53 (pressDown t1 0x11 ?ini))"
  have r1: "runKeys [(t1, md1, 0x11, True), (t2, md2, 0x53, True)] ?ini = (?mid, [hotkeyEvent ctrlS md2])"
    by (simp add: ctrl_then_s[OF hd_inv_New new_order new_pats] new_cb del: runKeys.simps)
  have r1': "snd (runKeys [(t1, md1, 0x53, True), (t2, md2, 0x11, True)] ?ini) = [hotkeyEvent ctrlS md2]"
    by (simp add: s_then_ctrl[OF hd_inv_New new_order new_pats] new_cb del: runKeys.simps)
  have inv: "hd_inv ?mid" by (rule hd_inv_clearState)
  have r2: "snd (runKeys [(t3, md3, 0x11, True), (t4, md4, 0x53, True)] ?mid) = [hotkeyEvent ctrlS md4]"
    by (simp add: ctrl_then_s[OF inv] clearState_fields pressDown_fields new_pats new_cb del: runKeys.simps)
  have "snd (runKeys ([(t1, md1, 0x11, True), (t2, md2, 0x53, True)] @
                    [(t3, md3, 0x11, True), (t4, md4, 0x53, True)]) ?ini)
      = [hotkeyEvent ctrlS md2, hotkeyEvent ctrlS md4]"
    unfolding runKeys_append_snd by (simp only: r1 r2 fst_conv snd_conv append.simps)
  then show ?thesis using r1 r1' by (simp del: runKeys.simps)
qed

section \<open>Proofs: rate gate\<close>

lemma allowAll_Cons_fst: "fst (allowAll (t # ts) rl) = fst (Allow t rl) # fst (allowAll ts (snd (Allow t rl)))"
  by (simp split: prod.splits)

lemma allowAll_Cons_snd: "snd (allowAll (t # ts) rl) = snd (allowAll ts (snd (Allow t rl)))"
  by (simp split: prod.splits)

lemma sint_succ:
  fixes c m :: int32
  assumes "sint c < sint m"
  shows "sint (c + 1) = sint c + 1"
proof -
  have "sint m < 2 ^ 31" using sint_lt[of m] by simp
  moreover have "- (2 ^ 31) \<le> sint c" using sint_ge[of c] by simp
  ultimately have "- (2 ^ 31) \<le> sint c + 1 \<and> sint c + 1 < 2 ^ 31" using assms by simp
  then show ?thesis
    by (simp add: sint_word_ariths signed_take_bit_int_eq_self)
qed

lemma Allow_in_window:
  assumes "time_Sub t (rl_WindowStart rl) < rl_WindowSize rl"
  shows "Allow t rl =
     (if sint (rl_EventCount rl) < sint (rl_MaxEvents rl)
      then (True, rl\<lparr>rl_EventCount := rl_EventCount rl + 1\<rparr>) else (False, rl))"
  using assms by (auto simp: Allow_def word_sle_eq)

lemma Allow_reset:
  assumes "time_Sub t (rl_WindowStart rl) \<ge> rl_WindowSize rl"
  shows "Allow t rl =
     (if 0 < sint (rl_MaxEvents rl)
      then (True, rl\<lparr>rl_EventCount := 1, rl_WindowStart := t\<rparr>)
      else (False, rl\<lparr>rl_EventCount := 0, rl_WindowStart := t\<rparr>))"
  using assms by (auto simp: Allow_def word_sle_eq)

lemma allowAll_in_window:
  assumes "\<forall>t\<in>set ts. time_Sub t (rl_WindowStart rl) < rl_WindowSize rl"
  shows "fst (allowAll ts rl)
           = map (\<lambda>i. sint (rl_EventCount rl) + int i < sint (rl_MaxEvents rl)) [0..<length ts]
       \<and> rl_WindowStart (snd (allowAll ts rl)) = rl_WindowStart rl
       \<and> rl_WindowSize (snd (allowAll ts rl)) = rl_WindowSize rl
       \<and> rl_MaxEvents (snd (allowAll ts rl)) = rl_MaxEvents rl"
  using assms
proof (induction ts arbitrary: rl)
  case Nil
  show ?case by simp
next
  case (Cons t ts)
  have w: "time_Sub t (rl_WindowStart rl) < rl_WindowSize rl" using Cons.prems by simp
  let ?nxt = "snd (Allow t rl)"
  have same: "rl_WindowStart ?nxt = rl_WindowStart rl" "rl_WindowSize ?nxt = rl_WindowSize rl"
    "rl_MaxEvents ?nxt = rl_MaxEvents rl"
    by (simp_all add: Allow_in_window[OF w])
  have "\<forall>u\<in>set ts. time_Sub u (rl_WindowStart ?nxt) < rl_WindowSize ?nxt"
    using Cons.prems by (simp add: same)
  note ih = Cons.IH[OF this, unfolded same]
  have shift: "map (\<lambda>i. sint (rl_EventCount rl) + int i < sint (rl_MaxEvents rl)) [0..<length (t # ts)]
     = (sint (rl_EventCount rl) < sint (rl_MaxEvents rl))
       # map (\<lambda>i. sint (rl_EventCount rl) + 1 + int i < sint (rl_MaxEvents rl)) [0..<length ts]"
    by (simp add: upt_conv_Cons map_Suc_upt[symmetric] add.assoc del: upt_Suc)
  show ?case
  proof (cases "sint (rl_EventCount rl) < sint (rl_MaxEvents rl)")
    case True
    then have ec: "sint (rl_EventCount ?nxt) = sint (rl_EventCount rl) + 1"
      by (simp add: Allow_in_window[OF w] sint_succ)
    show ?thesis
      unfolding allowAll_Cons_fst allowAll_Cons_snd shift
      using ih True by (simp add: sint_succ[OF True] Allow_in_window[OF w])
  next
    case False
    then have ec: "rl_EventCount ?nxt = rl_EventCount rl" by (simp add: Allow_in_window[OF w])
    have "\<And>i. \<not> sint (rl_EventCount rl) + 1 + int i < sint (rl_MaxEvents rl)"
         "\<And>i. \<not> sint (rl_EventCount rl) + int i < sint (rl_MaxEvents rl)"
      using False by auto
    then show ?thesis
      unfolding allowAll_Cons_fst allowAll_Cons_snd shift
      using ih False by (simp add: ec Allow_in_window[OF w])
  qed
qed

lemma count_below: "length (filter (\<lambda>i. int i < m) [0..<n]) = min n (nat m)"
  by (induction n) auto

lemma count_true_map: "length (filter id (map (\<lambda>i. int i < m) [0..<n])) = min n (nat m)"
  by (simp add: filter_map comp_def count_below)

text \<open>
  Claim C9. A call of \<open>Allow\<close> at a time \<open>tr\<close> at which the elapsed time since the
  window start has reached the window size resets the counter and opens a window at
  \<open>tr\<close>. Of that call and the calls that follow it within the window, call number
  \<open>i\<close> (counted from 0) returns true exactly when \<open>i < MaxEvents\<close>: at most
  \<open>MaxEvents\<close> calls of a window return true, every further one returns false, and
  after the reset events are permitted again up to the maximum. The first window of a new
  limiter behaves the same way.
\<close>

theorem rate_gate_fixed_window:
  "(rl_WindowSize rl \<le> time_Sub tr (rl_WindowStart rl)
      \<and> (\<forall>t\<in>set ts. time_Sub t tr < rl_WindowSize rl)
     \<longrightarrow> fst (allowAll (tr # ts) rl)
           = map (\<lambda>i. int i < sint (rl_MaxEvents rl)) [0..<Suc (length ts)]
       \<and> length (filter id (fst (allowAll (tr # ts) rl)))
           = min (Suc (length ts)) (nat (sint (rl_MaxEvents rl)))
       \<and> rl_WindowStart (snd (allowAll (tr # ts) rl)) = tr)
   \<and> ((\<forall>t\<in>set us. time_Sub t c < w)
     \<longrightarrow> fst (allowAll us (NewRateLimiter c m w)) = map (\<lambda>i. int i < sint m) [0..<length us])"
proof (intro conjI impI)
  assume a: "rl_WindowSize rl \<le> time_Sub tr (rl_WindowStart rl)
      \<and> (\<forall>t\<in>set ts. time_Sub t tr < rl_WindowSize rl)"
  let ?r = "rl\<lparr>rl_EventCount := 0, rl_WindowStart := tr\<rparr>"
  have inwin: "\<forall>t\<in>set (tr # ts). time_Sub t (rl_WindowStart ?r) < rl_WindowSize ?r \<or> t = tr"
    using a by simp
  have step: "Allow tr rl = (if 0 < sint (rl_MaxEvents rl)
      then (True, rl\<lparr>rl_EventCount := 1, rl_WindowStart := tr\<rparr>)
      else (False, ?r))"
    using a by (simp add: Allow_reset)
  let ?nxt = "snd (Allow tr rl)"
  have f: "rl_WindowStart ?nxt = tr" "rl_WindowSize ?nxt = rl_WindowSize rl"
    "rl_MaxEvents ?nxt = rl_MaxEvents rl"
    "sint (rl_EventCount ?nxt) = (if 0 < sint (rl_MaxEvents rl) then 1 else 0)"
    "fst (Allow tr rl) = (0 < sint (rl_MaxEvents rl))"
    by (simp_all add: step)
  have "\<forall>t\<in>set ts. time_Sub t (rl_WindowStart ?nxt) < rl_WindowSize ?nxt"
    using a by (simp add: f)
  note rest = allowAll_in_window[OF this, unfolded f]
  have shift: "map (\<lambda>i. int i < sint (rl_MaxEvents rl)) [0..<Suc (length ts)]
     = (0 < sint (rl_MaxEvents rl)) # map (\<lambda>i. 1 + int i < sint (rl_MaxEvents rl)) [0..<length ts]"
    by (simp add: upt_conv_Cons map_Suc_upt[symmetric] del: upt_Suc)
  have neg: "\<not> 0 < sint (rl_MaxEvents rl) \<Longrightarrow> (int i < sint (rl_MaxEvents rl)) = (1 + int i < sint (rl_MaxEvents rl))" for i
    by auto
  show res: "fst (allowAll (tr # ts) rl)
           = map (\<lambda>i. int i < sint (rl_MaxEvents rl)) [0..<Suc (length ts)]"
    unfolding allowAll_Cons_fst shift using rest neg by (simp add: f)
  show "length (filter id (fst (allowAll (tr # ts) rl)))
           = min (Suc (length ts)) (nat (sint (rl_MaxEvents rl)))"
    unfolding res by (rule count_true_map)
  show "rl_WindowStart (snd (allowAll (tr # ts) rl)) = tr"
    unfolding allowAll_Cons_snd using rest by simp
next
  assume a: "\<forall>t\<in>set us. time_Sub t c < w"
  have "\<forall>t\<in>set us. time_Sub t (rl_WindowStart (NewRateLimiter c m w)) < rl_WindowSize (NewRateLimiter c m w)"
    using a by (simp add: NewRateLimiter_def)
  from allowAll_in_window[OF this]
  show "fst (allowAll us (NewRateLimiter c m w)) = map (\<lambda>i. int i < sint m) [0..<length us]"
    by (simp add: NewRateLimiter_def)
qed

theorem rate_gate_fixed_window_witness:
  "rl_WindowSize rl_full \<le> time_Sub 1000000000 (rl_WindowStart rl_full)
   \<and> time_Sub 1000000001 1000000000 < rl_WindowSize rl_full
   \<and> time_Sub 1000000002 1000000000 < rl_WindowSize rl_full
   \<and> fst (Allow 999999999 rl_full) = False
   \<and> fst (allowAll [1000000000, 1000000001, 1000000002] rl_full) = [True, True, False]
   \<and> length (filter id (fst (allowAll [1000000000, 1000000001, 1000000002] rl_full))) = 2
   \<and> time_Sub 5 0 < 1000000000
   \<and> fst (allowAll [5] (NewRateLimiter 0 1 1000000000)) = [True]"
proof -
  have h1: "rl_WindowSize rl_full \<le> time_Sub 1000000000 (rl_WindowStart rl_full)"
    by (simp add: rl_full_def time_Sub_def Millisecond_def maxDuration_def minDuration_def)
  have h2: "\<forall>t\<in>set [1000000001, 1000000002]. time_Sub t 1000000000 < rl_WindowSize rl_full"
    by (simp add: rl_full_def time_Sub_def Millisecond_def maxDuration_def minDuration_def)
  have h3: "\<forall>t\<in>set [5]. time_Sub t 0 < 1000000000"
    by (simp add: time_Sub_def maxDuration_def minDuration_def)
  have m: "sint (rl_MaxEvents rl_full) = 2" by (simp add: rl_full_def)
  have before: "fst (Allow 999999999 rl_full) = False"
    by (simp add: Allow_def rl_full_def time_Sub_def Millisecond_def maxDuration_def minDuration_def word_sle_eq)
  from rate_gate_fixed_window[where rl = rl_full and tr = 1000000000 and ts = "[1000000001, 1000000002]" and us = "[5]" and c = 0 and w = 1000000000 and m = 1] h1 h2 h3
  have "fst (allowAll (1000000000 # [1000000001, 1000000002]) rl_full)
           = map (\<lambda>i. int i < sint (rl_MaxEvents rl_full)) [0..<Suc (length [1000000001, 1000000002::int])]"
    and "length (filter id (fst (allowAll (1000000000 # [1000000001, 1000000002]) rl_full)))
           = min (Suc (length [1000000001, 1000000002::int])) (nat (sint (rl_MaxEvents rl_full)))"
    and "fst (allowAll [5] (NewRateLimiter 0 1 1000000000)) = map (\<lambda>i. int i < sint (1::int32)) [0..<length [5::int]]"
    by blast+
  then have "fst (allowAll [1000000000, 1000000001, 1000000002] rl_full) = [True, True, False]"
    and "length (filter id (fst (allowAll [1000000000, 1000000001, 1000000002] rl_full))) = 2"
    and "fst (allowAll [5] (NewRateLimiter 0 1 1000000000)) = [True]"
    by (simp_all add: m upt_conv_Cons del: allowAll.simps upt_Suc)
  then show ?thesis using h1 h2 h3 before by (simp del: allowAll.simps)
qed

section \<open>Proofs: drag-drop tracker\<close>

lemma HasPrefix_refl: "HasPrefix s s"
  by (induction s) simp_all

lemma Contains_refl: "Contains s s"
  by (cases s) (simp_all add: HasPrefix_refl)

lemma isDropTarget_vocabulary:
  "isDropTarget ml el =
     (case el of
        None \<Rightarrow> False
      | Some e \<Rightarrow>
          list_ex (Contains (ToLower ml (Role e)))
            [''list'', ''listbox'', ''tree'', ''treeitem'', ''document'', ''application'',
             ''pane'', ''window'', ''textbox'', ''editbox'', ''richedit'', ''button'',
             ''dropdownbutton'']
          \<or> list_ex (Contains (ToLower ml (Name e)))
               [''drop'', ''upload'', ''import'', ''attach'', ''browse'', ''file'', ''folder'',
                ''directory''])"
  by (cases el) (auto simp: isDropTarget_def dropTargetRoles_def dropKeywords_def Let_def Contains_refl)

lemma lower_listbox: "ToLower ml ''listbox'' = ''listbox''"
proof -
  have "isASCII ''listbox''" by code_simp
  moreover have "map toLowerChar ''listbox'' = ''listbox''" by code_simp
  ultimately show ?thesis by (simp add: ToLower_def)
qed

lemma isDropTarget_listbox: "Role e = ''listbox'' \<Longrightarrow> isDropTarget ml (Some e)"
proof -
  assume r: "Role e = ''listbox''"
  have "Contains ''listbox'' ''list''" by code_simp
  then show ?thesis by (simp add: isDropTarget_vocabulary r lower_listbox)
qed

lemma isSuccessfulDrop_iff:
  "isSuccessfulDrop ml now p el ddt =
     (isDropTarget ml el \<or> 50 < calculateDistance (ddt_DragStartPos ddt) p
      \<or> 500 * Millisecond < time_Since now (ddt_DragStartTime ddt))"
  by (cases el) (auto simp: isSuccessfulDrop_def isDropTarget_def)

lemma HandleMouseUp_emits:
  assumes "ddt_IsDragging ddt" "ddt_DragStartTime ddt \<noteq> 0"
    "ddt_MinDragDistance ddt \<le> calculateDistance (ddt_DragStartPos ddt) p" "ddt_EventCallback ddt"
  shows "map dde_Success (snd (ddt_HandleMouseUp ml now md clip p MouseButtonLeft el ddt))
           = [isSuccessfulDrop ml now p el ddt]"
  using assms by (simp add: ddt_HandleMouseUp_def Let_def split: prod.splits)

lemma distance_0_60: "calculateDistance (pos 0 0) (pos 0 60) = 60"
  by (simp add: calculateDistance_def pos_def)

lemma HandleMouseUp_state:
  "fst (ddt_HandleMouseUp ml now md clip p MouseButtonLeft el ddt) = clearDragState ddt"
  by (simp add: ddt_HandleMouseUp_def Let_def split: prod.splits)

lemma HandleMouseMove_cleared:
  "ddt_DragStartTime ddt = 0 \<Longrightarrow> foldl (\<lambda>d q. ddt_HandleMouseMove q d) ddt ps = ddt"
  by (induction ps) (simp_all add: ddt_HandleMouseMove_def)

text \<open>
  Claim C5. When \<open>HandleMouseUp\<close> with the primary button completes a confirmed drag
  (dragging, start time set, a callback registered) whose distance is at least the minimum
  drag distance, it emits exactly one event, and the event's \<open>Success\<close> is true exactly
  when one of three conditions holds: the target element is present and its lowered role
  contains one of the thirteen drop-target roles or its lowered name contains one of the
  eight drop keywords; or the distance exceeds 50 px; or the duration exceeds 500 ms. A
  target of role "listbox" makes \<open>Success\<close> true whatever the distance and the duration
  are. In particular a press at (0,0), a move to (0,60) and a release at (0,60) on an
  element of role "listbox" gives \<open>Success = true\<close> whatever the clock readings are (the
  press time is not Go's zero time).
\<close>

theorem drag_drop_success_heuristics:
  "(ddt_IsDragging ddt \<and> ddt_DragStartTime ddt \<noteq> 0 \<and> ddt_EventCallback ddt
      \<and> ddt_MinDragDistance ddt \<le> calculateDistance (ddt_DragStartPos ddt) p
     \<longrightarrow> map dde_Success (snd (ddt_HandleMouseUp ml now md clip p MouseButtonLeft el ddt))
           = [(case el of
                 None \<Rightarrow> False
               | Some e \<Rightarrow>
                   list_ex (Contains (ToLower ml (Role e)))
                     [''list'', ''listbox'', ''tree'', ''treeitem'', ''document'', ''application'',
                      ''pane'', ''window'', ''textbox'', ''editbox'', ''richedit'', ''button'',
                      ''dropdownbutton'']
                   \<or> list_ex (Contains (ToLower ml (Name e)))
                        [''drop'', ''upload'', ''import'', ''attach'', ''browse'', ''file'',
                         ''folder'', ''directory''])
              \<or> 50 < calculateDistance (ddt_DragStartPos ddt) p
              \<or> 500 * Millisecond < time_Since now (ddt_DragStartTime ddt)])
   \<and> (ddt_IsDragging ddt \<and> ddt_DragStartTime ddt \<noteq> 0 \<and> ddt_EventCallback ddt
      \<and> ddt_MinDragDistance ddt \<le> calculateDistance (ddt_DragStartPos ddt) p
      \<and> Role tgt = ''listbox''
     \<longrightarrow> map dde_Success (snd (ddt_HandleMouseUp ml now md clip p MouseButtonLeft (Some tgt) ddt))
           = [True])
   \<and> (td \<noteq> 0 \<and> Role tgt = ''listbox'' \<and> ddt_EventCallback trk \<and> ddt_MinDragDistance trk \<le> 60
     \<longrightarrow> map dde_Success (snd (ddt_HandleMouseUp ml tu md clip (pos 0 60) MouseButtonLeft (Some tgt)
            (ddt_HandleMouseMove (pos 0 60)
              (ddt_HandleMouseDown td (pos 0 0) MouseButtonLeft src trk)))) = [True])"
proof (intro conjI impI)
  assume "ddt_IsDragging ddt \<and> ddt_DragStartTime ddt \<noteq> 0 \<and> ddt_EventCallback ddt
      \<and> ddt_MinDragDistance ddt \<le> calculateDistance (ddt_DragStartPos ddt) p"
  then have "map dde_Success (snd (ddt_HandleMouseUp ml now md clip p MouseButtonLeft el ddt))
           = [isDropTarget ml el
              \<or> 50 < calculateDistance (ddt_DragStartPos ddt) p
              \<or> 500 * Millisecond < time_Since now (ddt_DragStartTime ddt)]"
    by (simp add: HandleMouseUp_emits isSuccessfulDrop_iff)
  then show "map dde_Success (snd (ddt_HandleMouseUp ml now md clip p MouseButtonLeft el ddt))
           = [(case el of
                 None \<Rightarrow> False
               | Some e \<Rightarrow>
                   list_ex (Contains (ToLower ml (Role e)))
                     [''list'', ''listbox'', ''tree'', ''treeitem'', ''document'', ''application'',
                      ''pane'', ''window'', ''textbox'', ''editbox'', ''richedit'', ''button'',
                      ''dropdownbutton'']
                   \<or> list_ex (Contains (ToLower ml (Name e)))
                        [''drop'', ''upload'', ''import'', ''attach'', ''browse'', ''file'',
                         ''folder'', ''directory''])
              \<or> 50 < calculateDistance (ddt_DragStartPos ddt) p
              \<or> 500 * Millisecond < time_Since now (ddt_DragStartTime ddt)]"
    by (simp only: isDropTarget_vocabulary)
next
  assume a: "ddt_IsDragging ddt \<and> ddt_DragStartTime ddt \<noteq> 0 \<and> ddt_EventCallback ddt
      \<and> ddt_MinDragDistance ddt \<le> calculateDistance (ddt_DragStartPos ddt) p
      \<and> Role tgt = ''listbox''"
  then have "isSuccessfulDrop ml now p (Some tgt) ddt"
    by (simp add: isSuccessfulDrop_iff isDropTarget_listbox)
  then show "map dde_Success (snd (ddt_HandleMouseUp ml now md clip p MouseButtonLeft (Some tgt) ddt))
           = [True]"
    using a by (simp add: HandleMouseUp_emits)
next
  assume a: "td \<noteq> 0 \<and> Role tgt = ''listbox'' \<and> ddt_EventCallback trk \<and> ddt_MinDragDistance trk \<le> 60"
  let ?d = "ddt_HandleMouseMove (pos 0 60) (ddt_HandleMouseDown td (pos 0 0) MouseButtonLeft src trk)"
  have f: "ddt_IsDragging ?d" "ddt_DragStartTime ?d = td" "ddt_DragStartPos ?d = pos 0 0"
    "ddt_EventCallback ?d" "ddt_MinDragDistance ?d = ddt_MinDragDistance trk"
    using a by (simp_all add: ddt_HandleMouseMove_def ddt_HandleMouseDown_def Let_def distance_0_60)
  have "map dde_Success (snd (ddt_HandleMouseUp ml tu md clip (pos 0 60) MouseButtonLeft (Some tgt) ?d))
          = [isSuccessfulDrop ml tu (pos 0 60) (Some tgt) ?d]"
    using a by (intro HandleMouseUp_emits) (simp_all add: f distance_0_60)
  moreover have "isSuccessfulDrop ml tu (pos 0 60) (Some tgt) ?d"
    using a by (simp add: isSuccessfulDrop_iff isDropTarget_listbox)
  ultimately show "map dde_Success (snd (ddt_HandleMouseUp ml tu md clip (pos 0 60) MouseButtonLeft (Some tgt) ?d)) = [True]"
    by simp
qed

lemma ToLower_ascii: "isASCII s \<Longrightarrow> ToLower ml s = map toLowerChar s"
  by (simp add: ToLower_def)

lemma lower_ListBox: "ToLower ml ''ListBox'' = ''listbox''"
proof -
  have "isASCII ''ListBox''" by code_simp
  moreover have "map toLowerChar ''ListBox'' = ''listbox''" by code_simp
  ultimately show ?thesis by (simp add: ToLower_ascii)
qed

lemma lower_label: "ToLower ml ''label'' = ''label''"
proof -
  have "isASCII ''label''" by code_simp
  moreover have "map toLowerChar ''label'' = ''label''" by code_simp
  ultimately show ?thesis by (simp add: ToLower_ascii)
qed

lemma lower_Caption: "ToLower ml ''Caption'' = ''caption''"
proof -
  have "isASCII ''Caption''" by code_simp
  moreover have "map toLowerChar ''Caption'' = ''caption''" by code_simp
  ultimately show ?thesis by (simp add: ToLower_ascii)
qed

lemma lower_custom: "ToLower ml ''custom'' = ''custom''"
proof -
  have "isASCII ''custom''" by code_simp
  moreover have "map toLowerChar ''custom'' = ''custom''" by code_simp
  ultimately show ?thesis by (simp add: ToLower_ascii)
qed

lemma lower_Upload: "ToLower ml ''Upload area'' = ''upload area''"
proof -
  have "isASCII ''Upload area''" by code_simp
  moreover have "map toLowerChar ''Upload area'' = ''upload area''" by code_simp
  ultimately show ?thesis by (simp add: ToLower_ascii)
qed

lemma vocabulary_listbox:
  "list_ex (Contains ''listbox'')
     [''list'', ''listbox'', ''tree'', ''treeitem'', ''document'', ''application'',
      ''pane'', ''window'', ''textbox'', ''editbox'', ''richedit'', ''button'',
      ''dropdownbutton'']"
  by code_simp

lemma vocabulary_label:
  "\<not> list_ex (Contains ''label'')
     [''list'', ''listbox'', ''tree'', ''treeitem'', ''document'', ''application'',
      ''pane'', ''window'', ''textbox'', ''editbox'', ''richedit'', ''button'',
      ''dropdownbutton'']"
  by code_simp

lemma vocabulary_custom:
  "\<not> list_ex (Contains ''custom'')
     [''list'', ''listbox'', ''tree'', ''treeitem'', ''document'', ''application'',
      ''pane'', ''window'', ''textbox'', ''editbox'', ''richedit'', ''button'',
      ''dropdownbutton'']"
  by code_simp

lemma vocabulary_caption:
  "\<not> list_ex (Contains ''caption'')
     [''drop'', ''upload'', ''import'', ''attach'', ''browse'', ''file'', ''folder'',
      ''directory'']"
  by code_simp

lemma vocabulary_upload:
  "list_ex (Contains ''upload area'')
     [''drop'', ''upload'', ''import'', ''attach'', ''browse'', ''file'', ''folder'',
      ''directory'']"
  by code_simp

lemma sqrt_400: "sqrt 400 = 20"
  by (rule real_sqrt_unique) simp_all

lemma sqrt_2500: "sqrt 2500 = 50"
  by (rule real_sqrt_unique) simp_all

lemma distance_12_16: "calculateDistance zeroPosition (pos 12 16) = 20"
  by (simp add: calculateDistance_def pos_def zeroPosition_def sqrt_400)

lemma distance_30_40: "calculateDistance zeroPosition (pos 30 40) = 50"
  by (simp add: calculateDistance_def pos_def zeroPosition_def sqrt_2500)

lemma distance_60_0: "calculateDistance zeroPosition (pos 60 0) = 60"
  by (simp add: calculateDistance_def pos_def zeroPosition_def)

lemma draggingFromOrigin_fields:
  "ddt_IsDragging draggingFromOrigin" "ddt_DragStartTime draggingFromOrigin = 1000000000"
  "ddt_EventCallback draggingFromOrigin" "ddt_MinDragDistance draggingFromOrigin = 10"
  "ddt_DragStartPos draggingFromOrigin = zeroPosition"
  by (simp_all add: draggingFromOrigin_def NewDragDropTracker_def)

lemma since_2ns: "time_Since 1000000002 1000000000 = 2"
  by (simp add: time_Since_def time_Sub_def maxDuration_def minDuration_def)

lemma since_500ms: "time_Since 1500000000 1000000000 = 500 * Millisecond"
  by (simp add: time_Since_def time_Sub_def maxDuration_def minDuration_def Millisecond_def)

lemma since_600ms: "time_Since 1600000000 1000000000 = 600 * Millisecond"
  by (simp add: time_Since_def time_Sub_def maxDuration_def minDuration_def Millisecond_def)

theorem drag_drop_success_heuristics_witness:
  "\<forall>ml.
     map dde_Success (snd (ddt_HandleMouseUp ml 1000000002 md0 [] (pos 12 16) MouseButtonLeft
        (Some mixedCaseListElement) draggingFromOrigin)) = [True]
   \<and> map dde_Success (snd (ddt_HandleMouseUp ml 1000000002 md0 [] (pos 12 16) MouseButtonLeft
        (Some labelElement) draggingFromOrigin)) = [False]
   \<and> map dde_Success (snd (ddt_HandleMouseUp ml 1000000002 md0 [] (pos 12 16) MouseButtonLeft
        (Some uploadElement) draggingFromOrigin)) = [True]
   \<and> map dde_Success (snd (ddt_HandleMouseUp ml 1000000002 md0 [] (pos 12 16) MouseButtonLeft
        None draggingFromOrigin)) = [False]
   \<and> map dde_Success (snd (ddt_HandleMouseUp ml 1000000002 md0 [] (pos 30 40) MouseButtonLeft
        None draggingFromOrigin)) = [False]
   \<and> map dde_Success (snd (ddt_HandleMouseUp ml 1000000002 md0 [] (pos 60 0) MouseButtonLeft
        None draggingFromOrigin)) = [True]
   \<and> map dde_Success (snd (ddt_HandleMouseUp ml 1500000000 md0 [] (pos 12 16) MouseButtonLeft
        None draggingFromOrigin)) = [False]
   \<and> map dde_Success (snd (ddt_HandleMouseUp ml 1600000000 md0 [] (pos 12 16) MouseButtonLeft
        None draggingFromOrigin)) = [True]
   \<and> map dde_Success (snd (ddt_HandleMouseUp ml 3 md0 [] (pos 0 60) MouseButtonLeft
        (Some listboxElement)
        (ddt_HandleMouseMove (pos 0 60)
          (ddt_HandleMouseDown 1 (pos 0 0) MouseButtonLeft None (NewDragDropTracker True)))))
      = [True]"
proof (intro allI conjI)
  fix ml :: "string \<Rightarrow> string"
  note facts = draggingFromOrigin_fields distance_12_16 distance_30_40 distance_60_0
    since_2ns since_500ms since_600ms Millisecond_def
    mixedCaseListElement_def labelElement_def uploadElement_def
    lower_ListBox lower_label lower_Caption lower_custom lower_Upload
    vocabulary_listbox vocabulary_label vocabulary_custom vocabulary_caption vocabulary_upload
  show "map dde_Success (snd (ddt_HandleMouseUp ml 1000000002 md0 [] (pos 12 16) MouseButtonLeft
        (Some mixedCaseListElement) draggingFromOrigin)) = [True]"
    using drag_drop_success_heuristics[where ml = ml and ddt = draggingFromOrigin
        and p = "pos 12 16" and now = 1000000002 and md = md0 and clip = "[]"
        and el = "Some mixedCaseListElement" and td = 0]
    by (simp add: facts)
  show "map dde_Success (snd (ddt_HandleMouseUp ml 1000000002 md0 [] (pos 12 16) MouseButtonLeft
        (Some labelElement) draggingFromOrigin)) = [False]"
    using drag_drop_success_heuristics[where ml = ml and ddt = draggingFromOrigin
        and p = "pos 12 16" and now = 1000000002 and md = md0 and clip = "[]"
        and el = "Some labelElement" and td = 0]
    by (simp add: facts)
  show "map dde_Success (snd (ddt_HandleMouseUp ml 1000000002 md0 [] (pos 12 16) MouseButtonLeft
        (Some uploadElement) draggingFromOrigin)) = [True]"
    using drag_drop_success_heuristics[where ml = ml and ddt = draggingFromOrigin
        and p = "pos 12 16" and now = 1000000002 and md = md0 and clip = "[]"
        and el = "Some uploadElement" and td = 0]
    by (simp add: facts)
  show "map dde_Success (snd (ddt_HandleMouseUp ml 1000000002 md0 [] (pos 12 16) MouseButtonLeft
        None draggingFromOrigin)) = [False]"
    using drag_drop_success_heuristics[where ml = ml and ddt = draggingFromOrigin
        and p = "pos 12 16" and now = 1000000002 and md = md0 and clip = "[]"
        and el = None and td = 0]
    by (simp add: facts)
  show "map dde_Success (snd (ddt_HandleMouseUp ml 1000000002 md0 [] (pos 30 40) MouseButtonLeft
        None draggingFromOrigin)) = [False]"
    using drag_drop_success_heuristics[where ml = ml and ddt = draggingFromOrigin
        and p = "pos 30 40" and now = 1000000002 and md = md0 and clip = "[]"
        and el = None and td = 0]
    by (simp add: facts)
  show "map dde_Success (snd (ddt_HandleMouseUp ml 1000000002 md0 [] (pos 60 0) MouseButtonLeft
        None draggingFromOrigin)) = [True]"
    using drag_drop_success_heuristics[where ml = ml and ddt = draggingFromOrigin
        and p = "pos 60 0" and now = 1000000002 and md = md0 and clip = "[]"
        and el = None and td = 0]
    by (simp add: facts)
  show "map dde_Success (snd (ddt_HandleMouseUp ml 1500000000 md0 [] (pos 12 16) MouseButtonLeft
        None draggingFromOrigin)) = [False]"
    using drag_drop_success_heuristics[where ml = ml and ddt = draggingFromOrigin
        and p = "pos 12 16" and now = 1500000000 and md = md0 and clip = "[]"
        and el = None and td = 0]
    by (simp add: facts)
  show "map dde_Success (snd (ddt_HandleMouseUp ml 1600000000 md0 [] (pos 12 16) MouseButtonLeft
        None draggingFromOrigin)) = [True]"
    using drag_drop_success_heuristics[where ml = ml and ddt = draggingFromOrigin
        and p = "pos 12 16" and now = 1600000000 and md = md0 and clip = "[]"
        and el = None and td = 0]
    by (simp add: facts)
  show "map dde_Success (snd (ddt_HandleMouseUp ml 3 md0 [] (pos 0 60) MouseButtonLeft
        (Some listboxElement)
        (ddt_HandleMouseMove (pos 0 60)
          (ddt_HandleMouseDown 1 (pos 0 0) MouseButtonLeft None (NewDragDropTracker True)))))
      = [True]"
    using drag_drop_success_heuristics[where ml = ml and td = 1 and tgt = listboxElement
        and trk = "NewDragDropTracker True" and tu = 3 and md = md0 and clip = "[]" and src = None
        and ddt = draggingFromOrigin and p = "pos 12 16"]
    by (simp add: listboxElement_def NewDragDropTracker_def)
qed

text \<open>
  Claim C10. After every \<open>HandleMouseUp\<close> with the left button, whichever of its three
  paths it took, the drag state is cleared: \<open>IsDragging\<close> is false and the start time,
  start position, source element and last position are zero; and any sequence of
  \<open>HandleMouseMove\<close> calls that follows leaves that state unchanged, so no drag is entered
  before a new \<open>HandleMouseDown\<close>.
\<close>

theorem drag_state_cleared_after_mouse_up:
  "\<not> ddt_IsDragging (fst (ddt_HandleMouseUp ml now md clip p MouseButtonLeft el ddt))
   \<and> ddt_DragStartTime (fst (ddt_HandleMouseUp ml now md clip p MouseButtonLeft el ddt)) = 0
   \<and> ddt_DragStartPos (fst (ddt_HandleMouseUp ml now md clip p MouseButtonLeft el ddt)) = zeroPosition
   \<and> ddt_DragStartElement (fst (ddt_HandleMouseUp ml now md clip p MouseButtonLeft el ddt)) = None
   \<and> ddt_LastDragPos (fst (ddt_HandleMouseUp ml now md clip p MouseButtonLeft el ddt)) = zeroPosition
   \<and> foldl (\<lambda>d q. ddt_HandleMouseMove q d)
        (fst (ddt_HandleMouseUp ml now md clip p MouseButtonLeft el ddt)) ps
      = fst (ddt_HandleMouseUp ml now md clip p MouseButtonLeft el ddt)"
proof -
  have z: "ddt_DragStartTime (clearDragState ddt) = 0" by (simp add: clearDragState_def)
  show ?thesis
    unfolding HandleMouseUp_state HandleMouseMove_cleared[OF z]
    by (simp add: clearDragState_def)
qed

theorem drag_state_cleared_after_mouse_up_witness:
  "\<forall>ml.
   \<not> ddt_IsDragging (foldl (\<lambda>d q. ddt_HandleMouseMove q d)
        (fst (ddt_HandleMouseUp ml 3 md0 [] (pos 0 60) MouseButtonLeft None
          ((NewDragDropTracker True)\<lparr>ddt_IsDragging := True, ddt_DragStartTime := 1\<rparr>)))
        [pos 100 100, pos 200 200])
   \<and> ddt_DragStartTime (fst (ddt_HandleMouseUp ml 3 md0 [] (pos 0 60) MouseButtonLeft None
          ((NewDragDropTracker True)\<lparr>ddt_IsDragging := True, ddt_DragStartTime := 1\<rparr>))) = 0"
proof
  fix ml :: "string \<Rightarrow> string"
  show "\<not> ddt_IsDragging (foldl (\<lambda>d q. ddt_HandleMouseMove q d)
        (fst (ddt_HandleMouseUp ml 3 md0 [] (pos 0 60) MouseButtonLeft None
          ((NewDragDropTracker True)\<lparr>ddt_IsDragging := True, ddt_DragStartTime := 1\<rparr>)))
        [pos 100 100, pos 200 200])
   \<and> ddt_DragStartTime (fst (ddt_HandleMouseUp ml 3 md0 [] (pos 0 60) MouseButtonLeft None
          ((NewDragDropTracker True)\<lparr>ddt_IsDragging := True, ddt_DragStartTime := 1\<rparr>))) = 0"
    using drag_state_cleared_after_mouse_up[of ml 3 md0 "[]" "pos 0 60" None
      "(NewDragDropTracker True)\<lparr>ddt_IsDragging := True, ddt_DragStartTime := 1\<rparr>"
      "[pos 100 100, pos 200 200]"]
    by simp
qed

section \<open>Proofs: text selection tracker\<close>

lemma mouse_down_fields:
  "tst_IsSelecting (tst_HandleMouseDown now p MouseButtonLeft s)"
  "tst_SelectionStartPos (tst_HandleMouseDown now p MouseButtonLeft s) = p"
  "tst_EventCallback (tst_HandleMouseDown now p MouseButtonLeft s) = tst_EventCallback s"
  "tst_ClickCount (tst_HandleMouseDown now p MouseButtonLeft s)
     = (if isCloseClick now p s then tst_ClickCount s + 1 else 1)"
  by (simp_all add: tst_HandleMouseDown_def Let_def)

lemma two_three_not_le_one: "\<not> (2::goInt) \<le>s 1" "\<not> (3::goInt) \<le>s 1"
  by (simp_all add: word_sle_eq)

lemma mouse_up_selecting:
  assumes "tst_IsSelecting s"
  shows "snd (tst_HandleMouseUp md sel p MouseButtonLeft s) =
     (if (calculateDistance (tst_SelectionStartPos s) p < 5 \<and> tst_ClickCount s \<le>s 1)
         \<or> sel = [] \<or> \<not> tst_EventCallback s then []
      else if tst_ClickCount s = 2
        then [selectionEvent sel (tst_SelectionStartPos s) p SelectionDoubleClick md]
      else if tst_ClickCount s = 3
        then [selectionEvent sel (tst_SelectionStartPos s) p SelectionTripleClick md]
      else if 5 \<le> calculateDistance (tst_SelectionStartPos s) p
        then [selectionEvent sel (tst_SelectionStartPos s) p SelectionMouseDrag md]
      else [])"
  using assms
  by (auto simp: tst_HandleMouseUp_def Let_def selectionMethod_def two_three_not_le_one
      split: option.splits)

text \<open>With the source's placeholder content source nothing is ever emitted.\<close>

lemma mouse_up_placeholder:
  "snd (tst_HandleMouseUp md (getSelectedText clipboard) p button s) = []"
  by (simp add: tst_HandleMouseUp_def getSelectedText_def Let_def split: option.splits)

lemma moves_fields:
  "tst_IsSelecting (foldl (\<lambda>t q. tst_HandleMouseMove q t) s qs) = tst_IsSelecting s"
  "tst_SelectionStartPos (foldl (\<lambda>t q. tst_HandleMouseMove q t) s qs) = tst_SelectionStartPos s"
  "tst_ClickCount (foldl (\<lambda>t q. tst_HandleMouseMove q t) s qs) = tst_ClickCount s"
  "tst_EventCallback (foldl (\<lambda>t q. tst_HandleMouseMove q t) s qs) = tst_EventCallback s"
  by (induction qs arbitrary: s) (simp_all add: tst_HandleMouseMove_def)

lemma calculateDistance_sqrt:
  "calculateDistance p1 p2 =
     sqrt ((real_of_int (sint (X p2 - X p1)))\<^sup>2 + (real_of_int (sint (Y p2 - Y p1)))\<^sup>2)"
  by (simp add: calculateDistance_def Let_def power2_eq_square)

text \<open>
  Claim C1. A primary-button \<open>HandleMouseDown\<close> at \<open>pd\<close>, any pointer moves, and a
  primary-button \<open>HandleMouseUp\<close> at \<open>p\<close>, with \<open>n\<close> the click count after the press
  (one more than before when the press is a close click, 1 otherwise) and the distance the
  square root of the sum of the squares of the two coordinate differences: if the distance
  is below 5 px and \<open>n\<close> is at most 1, no event is emitted; otherwise the method is
  double-click when \<open>n\<close> is 2, triple-click when it is 3, and mouse-drag when it is neither
  and the distance is at least 5 px; in every remaining case, and whenever the content
  source returns the empty text (or no callback is registered), no event is emitted. The
  emitted event is the one event with the text, the press position, the release position,
  the method, the length of the text and the metadata. With the content source of the
  source file, which returns the empty text, no event is emitted at all.
\<close>

theorem selection_classified_on_mouse_up:
  "snd (tst_HandleMouseUp md sel p MouseButtonLeft
         (foldl (\<lambda>t q. tst_HandleMouseMove q t) (tst_HandleMouseDown td pd MouseButtonLeft s) qs)) =
     (let n = (if isCloseClick td pd s then tst_ClickCount s + 1 else 1);
          distance = sqrt ((real_of_int (sint (X p - X pd)))\<^sup>2
                           + (real_of_int (sint (Y p - Y pd)))\<^sup>2)
      in if (distance < 5 \<and> n \<le>s 1) \<or> sel = [] \<or> \<not> tst_EventCallback s then []
         else if n = 2
           then [\<lparr>tse_SelectedText = sel, tse_StartPosition = pd, tse_EndPosition = p,
                  tse_SelectionMethod = SelectionDoubleClick,
                  tse_SelectionLength = of_nat (length sel), tse_Metadata = md\<rparr>]
         else if n = 3
           then [\<lparr>tse_SelectedText = sel, tse_StartPosition = pd, tse_EndPosition = p,
                  tse_SelectionMethod = SelectionTripleClick,
                  tse_SelectionLength = of_nat (length sel), tse_Metadata = md\<rparr>]
         else if 5 \<le> distance
           then [\<lparr>tse_SelectedText = sel, tse_StartPosition = pd, tse_EndPosition = p,
                  tse_SelectionMethod = SelectionMouseDrag,
                  tse_SelectionLength = of_nat (length sel), tse_Metadata = md\<rparr>]
         else [])
   \<and> snd (tst_HandleMouseUp md (getSelectedText clipboard) p MouseButtonLeft
         (foldl (\<lambda>t q. tst_HandleMouseMove q t) (tst_HandleMouseDown td pd MouseButtonLeft s) qs))
       = []"
proof (rule conjI)
  let ?s = "foldl (\<lambda>t q. tst_HandleMouseMove q t) (tst_HandleMouseDown td pd MouseButtonLeft s) qs"
  have sel: "tst_IsSelecting ?s" by (simp only: moves_fields mouse_down_fields)
  have f: "tst_SelectionStartPos ?s = pd" "tst_EventCallback ?s = tst_EventCallback s"
    "tst_ClickCount ?s = (if isCloseClick td pd s then tst_ClickCount s + 1 else 1)"
    by (simp_all only: moves_fields mouse_down_fields)
  show "snd (tst_HandleMouseUp md sel p MouseButtonLeft ?s) =
     (let n = (if isCloseClick td pd s then tst_ClickCount s + 1 else 1);
          distance = sqrt ((real_of_int (sint (X p - X pd)))\<^sup>2
                           + (real_of_int (sint (Y p - Y pd)))\<^sup>2)
      in if (distance < 5 \<and> n \<le>s 1) \<or> sel = [] \<or> \<not> tst_EventCallback s then []
         else if n = 2
           then [\<lparr>tse_SelectedText = sel, tse_StartPosition = pd, tse_EndPosition = p,
                  tse_SelectionMethod = SelectionDoubleClick,
                  tse_SelectionLength = of_nat (length sel), tse_Metadata = md\<rparr>]
         else if n = 3
           then [\<lparr>tse_SelectedText = sel, tse_StartPosition = pd, tse_EndPosition = p,
                  tse_SelectionMethod = SelectionTripleClick,
                  tse_SelectionLength = of_nat (length sel), tse_Metadata = md\<rparr>]
         else if 5 \<le> distance
           then [\<lparr>tse_SelectedText = sel, tse_StartPosition = pd, tse_EndPosition = p,
                  tse_SelectionMethod = SelectionMouseDrag,
                  tse_SelectionLength = of_nat (length sel), tse_Metadata = md\<rparr>]
         else [])"
    unfolding mouse_up_selecting[OF sel, of md sel p] f Let_def selectionEvent_def
      calculateDistance_sqrt
    by (rule refl)
  show "snd (tst_HandleMouseUp md (getSelectedText clipboard) p MouseButtonLeft ?s) = []"
    by (rule mouse_up_placeholder)
qed

lemma distance_same: "calculateDistance q q = 0"
  by (simp add: calculateDistance_def)

lemma sqrt_lt_5: "(sqrt x < 5) = (x < 25)"
proof -
  have "sqrt 25 = 5" by (rule real_sqrt_unique) simp_all
  then show ?thesis using real_sqrt_less_iff[of x 25] by simp
qed

lemma sqrt_ge_5: "(5 \<le> sqrt x) = (25 \<le> x)"
  using sqrt_lt_5[of x] by linarith

lemma twoClicks_fields:
  "tst_ClickCount twoClicks = 2" "tst_LastClickTime twoClicks = 1100000000"
  "tst_LastClickPos twoClicks = pos 100 100" "tst_EventCallback twoClicks"
  by (simp_all add: twoClicks_def tst_HandleMouseDown_def Let_def isCloseClick_def
      NewTextSelectionTracker_def time_Since_def time_Sub_def Millisecond_def maxDuration_def
      minDuration_def distance_same)

lemma pos_fields: "X (pos a b) = a" "Y (pos a b) = b"
  by (simp_all add: pos_def)

lemma new_callback: "tst_EventCallback (NewTextSelectionTracker c) = c"
  "tst_ClickCount (NewTextSelectionTracker c) = 0"
  by (simp_all add: NewTextSelectionTracker_def)

lemma fresh_not_close: "\<not> isCloseClick 1000000000 (pos 100 100) (NewTextSelectionTracker True)"
  by (simp add: isCloseClick_def NewTextSelectionTracker_def time_Since_def
      time_Sub_def Millisecond_def maxDuration_def minDuration_def)

lemma second_close: "isCloseClick 1100000000 (pos 100 100)
    (tst_HandleMouseDown 1000000000 (pos 100 100) MouseButtonLeft (NewTextSelectionTracker True))"
  by (simp add: isCloseClick_def tst_HandleMouseDown_def Let_def NewTextSelectionTracker_def
      time_Since_def time_Sub_def Millisecond_def maxDuration_def minDuration_def distance_same)

lemma third_close: "isCloseClick 1200000000 (pos 100 100) twoClicks"
  by (simp add: isCloseClick_def twoClicks_fields time_Since_def
      time_Sub_def Millisecond_def maxDuration_def minDuration_def distance_same)

lemma first_click_fields:
  "tst_ClickCount (tst_HandleMouseDown 1000000000 (pos 100 100) MouseButtonLeft
     (NewTextSelectionTracker True)) = 1"
  "tst_EventCallback (tst_HandleMouseDown 1000000000 (pos 100 100) MouseButtonLeft
     (NewTextSelectionTracker True))"
  by (simp_all add: mouse_down_fields fresh_not_close NewTextSelectionTracker_def)

theorem selection_classified_on_mouse_up_witness:
  "snd (tst_HandleMouseUp md0 ''abc'' (pos 100 100) MouseButtonLeft
         (foldl (\<lambda>t q. tst_HandleMouseMove q t)
            (tst_HandleMouseDown 1000000000 (pos 100 100) MouseButtonLeft (NewTextSelectionTracker True))
            [pos 100 100])) = []
   \<and> snd (tst_HandleMouseUp md0 ''abc'' (pos 103 103) MouseButtonLeft
         (foldl (\<lambda>t q. tst_HandleMouseMove q t)
            (tst_HandleMouseDown 1000000000 (pos 100 100) MouseButtonLeft (NewTextSelectionTracker True))
            [])) = []
   \<and> snd (tst_HandleMouseUp md0 ''abc'' (pos 103 104) MouseButtonLeft
         (foldl (\<lambda>t q. tst_HandleMouseMove q t)
            (tst_HandleMouseDown 1000000000 (pos 100 100) MouseButtonLeft (NewTextSelectionTracker True))
            []))
       = [\<lparr>tse_SelectedText = ''abc'', tse_StartPosition = pos 100 100, tse_EndPosition = pos 103 104,
           tse_SelectionMethod = SelectionMouseDrag, tse_SelectionLength = 3, tse_Metadata = md0\<rparr>]
   \<and> snd (tst_HandleMouseUp md0 ''abc'' (pos 160 100) MouseButtonLeft
         (foldl (\<lambda>t q. tst_HandleMouseMove q t)
            (tst_HandleMouseDown 1000000000 (pos 100 100) MouseButtonLeft (NewTextSelectionTracker True))
            [pos 130 100]))
       = [\<lparr>tse_SelectedText = ''abc'', tse_StartPosition = pos 100 100, tse_EndPosition = pos 160 100,
           tse_SelectionMethod = SelectionMouseDrag, tse_SelectionLength = 3, tse_Metadata = md0\<rparr>]
   \<and> snd (tst_HandleMouseUp md0 ''abc'' (pos 100 160) MouseButtonLeft
         (foldl (\<lambda>t q. tst_HandleMouseMove q t)
            (tst_HandleMouseDown 1000000000 (pos 100 100) MouseButtonLeft (NewTextSelectionTracker True))
            [pos 100 130]))
       = [\<lparr>tse_SelectedText = ''abc'', tse_StartPosition = pos 100 100, tse_EndPosition = pos 100 160,
           tse_SelectionMethod = SelectionMouseDrag, tse_SelectionLength = 3, tse_Metadata = md0\<rparr>]
   \<and> snd (tst_HandleMouseUp md0 [] (pos 160 100) MouseButtonLeft
         (foldl (\<lambda>t q. tst_HandleMouseMove q t)
            (tst_HandleMouseDown 1000000000 (pos 100 100) MouseButtonLeft (NewTextSelectionTracker True))
            [])) = []
   \<and> snd (tst_HandleMouseUp md0 ''abc'' (pos 160 100) MouseButtonLeft
         (foldl (\<lambda>t q. tst_HandleMouseMove q t)
            (tst_HandleMouseDown 1000000000 (pos 100 100) MouseButtonLeft (NewTextSelectionTracker False))
            [])) = []
   \<and> snd (tst_HandleMouseUp md0 ''abc'' (pos 100 100) MouseButtonLeft
         (foldl (\<lambda>t q. tst_HandleMouseMove q t)
            (tst_HandleMouseDown 1100000000 (pos 100 100) MouseButtonLeft
              (tst_HandleMouseDown 1000000000 (pos 100 100) MouseButtonLeft
                (NewTextSelectionTracker True))) []))
       = [\<lparr>tse_SelectedText = ''abc'', tse_StartPosition = pos 100 100, tse_EndPosition = pos 100 100,
           tse_SelectionMethod = SelectionDoubleClick, tse_SelectionLength = 3, tse_Metadata = md0\<rparr>]
   \<and> snd (tst_HandleMouseUp md0 ''abc'' (pos 100 100) MouseButtonLeft
         (foldl (\<lambda>t q. tst_HandleMouseMove q t)
            (tst_HandleMouseDown 1200000000 (pos 100 100) MouseButtonLeft twoClicks) []))
       = [\<lparr>tse_SelectedText = ''abc'', tse_StartPosition = pos 100 100, tse_EndPosition = pos 100 100,
           tse_SelectionMethod = SelectionTripleClick, tse_SelectionLength = 3, tse_Metadata = md0\<rparr>]
   \<and> snd (tst_HandleMouseUp md0 ''abc'' (pos 160 100) MouseButtonLeft
         (foldl (\<lambda>t q. tst_HandleMouseMove q t)
            (tst_HandleMouseDown 1200000000 (pos 100 100) MouseButtonLeft twoClicks) [pos 130 100]))
       = [\<lparr>tse_SelectedText = ''abc'', tse_StartPosition = pos 100 100, tse_EndPosition = pos 160 100,
           tse_SelectionMethod = SelectionTripleClick, tse_SelectionLength = 3, tse_Metadata = md0\<rparr>]
   \<and> snd (tst_HandleMouseUp md0 (getSelectedText ''abc'') (pos 160 100) MouseButtonLeft
         (foldl (\<lambda>t q. tst_HandleMouseMove q t)
            (tst_HandleMouseDown 1000000000 (pos 100 100) MouseButtonLeft (NewTextSelectionTracker True))
            [])) = []"
proof -
  note facts = Let_def fresh_not_close second_close third_close twoClicks_fields first_click_fields
    pos_fields sqrt_lt_5 sqrt_ge_5 word_sle_eq new_callback
  have fn: "\<not> isCloseClick 1000000000 (pos 100 100) (NewTextSelectionTracker False)"
    by (simp add: isCloseClick_def NewTextSelectionTracker_def time_Since_def
      time_Sub_def Millisecond_def maxDuration_def minDuration_def)
  have a1: "snd (tst_HandleMouseUp md0 ''abc'' (pos 100 100) MouseButtonLeft
         (foldl (\<lambda>t q. tst_HandleMouseMove q t)
            (tst_HandleMouseDown 1000000000 (pos 100 100) MouseButtonLeft (NewTextSelectionTracker True))
            [pos 100 100])) = []"
    using selection_classified_on_mouse_up[of md0 "''abc''" "pos 100 100" 1000000000 "pos 100 100"
            "NewTextSelectionTracker True" "[pos 100 100]" "[]"]
    by (simp add: facts)
  have a2: "snd (tst_HandleMouseUp md0 ''abc'' (pos 103 103) MouseButtonLeft
         (foldl (\<lambda>t q. tst_HandleMouseMove q t)
            (tst_HandleMouseDown 1000000000 (pos 100 100) MouseButtonLeft (NewTextSelectionTracker True))
            [])) = []"
    using selection_classified_on_mouse_up[of md0 "''abc''" "pos 103 103" 1000000000 "pos 100 100"
            "NewTextSelectionTracker True" "[]" "[]"]
    by (simp add: facts)
  have a3: "snd (tst_HandleMouseUp md0 ''abc'' (pos 103 104) MouseButtonLeft
         (foldl (\<lambda>t q. tst_HandleMouseMove q t)
            (tst_HandleMouseDown 1000000000 (pos 100 100) MouseButtonLeft (NewTextSelectionTracker True))
            []))
       = [\<lparr>tse_SelectedText = ''abc'', tse_StartPosition = pos 100 100, tse_EndPosition = pos 103 104,
           tse_SelectionMethod = SelectionMouseDrag, tse_SelectionLength = 3, tse_Metadata = md0\<rparr>]"
    using selection_classified_on_mouse_up[of md0 "''abc''" "pos 103 104" 1000000000 "pos 100 100"
            "NewTextSelectionTracker True" "[]" "[]"]
    by (simp add: facts)
  have a4: "snd (tst_HandleMouseUp md0 ''abc'' (pos 160 100) MouseButtonLeft
         (foldl (\<lambda>t q. tst_HandleMouseMove q t)
            (tst_HandleMouseDown 1000000000 (pos 100 100) MouseButtonLeft (NewTextSelectionTracker True))
            [pos 130 100]))
       = [\<lparr>tse_SelectedText = ''abc'', tse_StartPosition = pos 100 100, tse_EndPosition = pos 160 100,
           tse_SelectionMethod = SelectionMouseDrag, tse_SelectionLength = 3, tse_Metadata = md0\<rparr>]"
    using selection_classified_on_mouse_up[of md0 "''abc''" "pos 160 100" 1000000000 "pos 100 100"
            "NewTextSelectionTracker True" "[pos 130 100]" "[]"]
    by (simp add: facts)
  have a5: "snd (tst_HandleMouseUp md0 ''abc'' (pos 100 160) MouseButtonLeft
         (foldl (\<lambda>t q. tst_HandleMouseMove q t)
            (tst_HandleMouseDown 1000000000 (pos 100 100) MouseButtonLeft (NewTextSelectionTracker True))
            [pos 100 130]))
       = [\<lparr>tse_SelectedText = ''abc'', tse_StartPosition = pos 100 100, tse_EndPosition = pos 100 160,
           tse_SelectionMethod = SelectionMouseDrag, tse_SelectionLength = 3, tse_Metadata = md0\<rparr>]"
    using selection_classified_on_mouse_up[of md0 "''abc''" "pos 100 160" 1000000000 "pos 100 100"
            "NewTextSelectionTracker True" "[pos 100 130]" "[]"]
    by (simp add: facts)
  have a6: "snd (tst_HandleMouseUp md0 [] (pos 160 100) MouseButtonLeft
         (foldl (\<lambda>t q. tst_HandleMouseMove q t)
            (tst_HandleMouseDown 1000000000 (pos 100 100) MouseButtonLeft (NewTextSelectionTracker True))
            [])) = []"
    using selection_classified_on_mouse_up[of md0 "[]" "pos 160 100" 1000000000 "pos 100 100"
            "NewTextSelectionTracker True" "[]" "[]"]
    by (simp add: facts)
  have a7: "snd (tst_HandleMouseUp md0 ''abc'' (pos 160 100) MouseButtonLeft
         (foldl (\<lambda>t q. tst_HandleMouseMove q t)
            (tst_HandleMouseDown 1000000000 (pos 100 100) MouseButtonLeft (NewTextSelectionTracker False))
            [])) = []"
    using selection_classified_on_mouse_up[of md0 "''abc''" "pos 160 100" 1000000000 "pos 100 100"
            "NewTextSelectionTracker False" "[]" "[]"]
    by (simp add: facts fn)
  have a8: "snd (tst_HandleMouseUp md0 ''abc'' (pos 100 100) MouseButtonLeft
         (foldl (\<lambda>t q. tst_HandleMouseMove q t)
            (tst_HandleMouseDown 1100000000 (pos 100 100) MouseButtonLeft
              (tst_HandleMouseDown 1000000000 (pos 100 100) MouseButtonLeft
                (NewTextSelectionTracker True))) []))
       = [\<lparr>tse_SelectedText = ''abc'', tse_StartPosition = pos 100 100, tse_EndPosition = pos 100 100,
           tse_SelectionMethod = SelectionDoubleClick, tse_SelectionLength = 3, tse_Metadata = md0\<rparr>]"
    using selection_classified_on_mouse_up[of md0 "''abc''" "pos 100 100" 1100000000 "pos 100 100"
            "tst_HandleMouseDown 1000000000 (pos 100 100) MouseButtonLeft (NewTextSelectionTracker True)"
            "[]" "[]"]
    by (simp add: facts)
  have a9: "snd (tst_HandleMouseUp md0 ''abc'' (pos 100 100) MouseButtonLeft
         (foldl (\<lambda>t q. tst_HandleMouseMove q t)
            (tst_HandleMouseDown 1200000000 (pos 100 100) MouseButtonLeft twoClicks) []))
       = [\<lparr>tse_SelectedText = ''abc'', tse_StartPosition = pos 100 100, tse_EndPosition = pos 100 100,
           tse_SelectionMethod = SelectionTripleClick, tse_SelectionLength = 3, tse_Metadata = md0\<rparr>]"
    using selection_classified_on_mouse_up[of md0 "''abc''" "pos 100 100" 1200000000 "pos 100 100"
            twoClicks "[]" "[]"]
    by (simp add: facts)
  have a10: "snd (tst_HandleMouseUp md0 ''abc'' (pos 160 100) MouseButtonLeft
         (foldl (\<lambda>t q. tst_HandleMouseMove q t)
            (tst_HandleMouseDown 1200000000 (pos 100 100) MouseButtonLeft twoClicks) [pos 130 100]))
       = [\<lparr>tse_SelectedText = ''abc'', tse_StartPosition = pos 100 100, tse_EndPosition = pos 160 100,
           tse_SelectionMethod = SelectionTripleClick, tse_SelectionLength = 3, tse_Metadata = md0\<rparr>]"
    using selection_classified_on_mouse_up[of md0 "''abc''" "pos 160 100" 1200000000 "pos 100 100"
            twoClicks "[pos 130 100]" "[]"]
    by (simp add: facts)
  have a11: "snd (tst_HandleMouseUp md0 (getSelectedText ''abc'') (pos 160 100) MouseButtonLeft
         (foldl (\<lambda>t q. tst_HandleMouseMove q t)
            (tst_HandleMouseDown 1000000000 (pos 100 100) MouseButtonLeft (NewTextSelectionTracker True))
            [])) = []"
    using selection_classified_on_mouse_up[of md0 "''abc''" "pos 160 100" 1000000000 "pos 100 100"
            "NewTextSelectionTracker True" "[]" "''abc''"]
    by simp
  from a1 a2 a3 a4 a5 a6 a7 a8 a9 a10 a11 show ?thesis by (intro conjI)
qed

section \<open>Proofs: text input manager\<close>

lemma dropWhile_keeps:
  "\<exists>x\<in>set xs. \<not> P x \<Longrightarrow> \<exists>x\<in>set (dropWhile P xs). \<not> P x"
  by (induction xs) auto

lemma TrimSpace_not_blank:
  "(TrimSpace s \<noteq> []) = list_ex (\<lambda>r. \<not> unicode_IsSpace r) s"
proof
  assume "TrimSpace s \<noteq> []"
  then have "dropWhile unicode_IsSpace s \<noteq> []"
    unfolding TrimSpace_def by (cases "dropWhile unicode_IsSpace s") simp_all
  then have "\<not> (\<forall>x\<in>set s. unicode_IsSpace x)"
    by simp
  then show "list_ex (\<lambda>r. \<not> unicode_IsSpace r) s"
    by (simp add: list_ex_iff)
next
  assume "list_ex (\<lambda>r. \<not> unicode_IsSpace r) s"
  then have "\<exists>x\<in>set s. \<not> unicode_IsSpace x" by (simp add: list_ex_iff)
  then have "\<exists>x\<in>set (dropWhile unicode_IsSpace s). \<not> unicode_IsSpace x"
    by (rule dropWhile_keeps)
  then have "\<exists>x\<in>set (rev (dropWhile unicode_IsSpace s)). \<not> unicode_IsSpace x" by simp
  then have "dropWhile unicode_IsSpace (rev (dropWhile unicode_IsSpace s)) \<noteq> []"
    unfolding dropWhile_eq_Nil_conv by blast
  then show "TrimSpace s \<noteq> []" by (simp add: TrimSpace_def)
qed

lemma internal_events:
  "snd (completeTextInputInternal now md readText (Some tr) reason tim)
     = (if tim_EventCallback tim
           \<and> getCurrentText readText (tit_Element tr) \<noteq> tit_InitialText tr
           \<and> TrimSpace (getCurrentText readText (tit_Element tr)) \<noteq> []
        then [textInputEvent now md (getCurrentText readText (tit_Element tr)) tr]
        else [])"
  by (simp add: completeTextInputInternal_def Let_def textInputEvent_def)

lemma internal_events_explicit:
  "snd (completeTextInputInternal now md readText (Some tr) reason tim)
     = (let finalText = (case tit_Element tr of None \<Rightarrow> [] | Some e \<Rightarrow> readText e)
        in if tim_EventCallback tim \<and> finalText \<noteq> tit_InitialText tr
              \<and> list_ex (\<lambda>r. \<not> unicode_IsSpace r) finalText
           then [\<lparr>tic_TextValue = finalText,
                  tic_FieldName = (case tit_Element tr of None \<Rightarrow> ''Unknown''
                                   | Some e \<Rightarrow> if Name e = [] then ''Unknown'' else Name e),
                  tic_FieldType = (case tit_Element tr of None \<Rightarrow> ''Unknown'' | Some e \<Rightarrow> Role e),
                  tic_InputMethod = tit_InputMethod tr,
                  tic_TypingDurationMs =
                    word_of_int (Milliseconds (time_Since now (tit_StartTime tr))),
                  tic_KeystrokeCount = tit_KeystrokeCount tr,
                  tic_Metadata = (case tit_Element tr of None \<Rightarrow> md
                                  | Some e \<Rightarrow> md\<lparr>md_UIElement := Some e\<rparr>)\<rparr>]
           else [])"
  unfolding internal_events TrimSpace_not_blank
  by (cases "tit_Element tr")
     (simp_all add: Let_def textInputEvent_def getCurrentText_def getFieldName_def getFieldType_def)

lemma internal_placeholder:
  "snd (completeTextInputInternal now md placeholderText tracker reason tim) = []"
  by (cases tracker)
     (simp_all add: completeTextInputInternal_def Let_def getCurrentText_def placeholderText_def
        TrimSpace_def split: option.splits)

lemma internal_cong:
  "tim_EventCallback a = tim_EventCallback b \<Longrightarrow>
   snd (completeTextInputInternal now md readText t reason a)
     = snd (completeTextInputInternal now md readText t reason b)"
  by (cases t) (simp_all add: completeTextInputInternal_def Let_def)

lemma completeAll_events:
  "distinct ks \<Longrightarrow>
   snd (completeAll now md readText ks tim)
     = concat (map (\<lambda>k. case tim_ActiveInputs tim k of
                           None \<Rightarrow> []
                         | Some t \<Rightarrow> snd (completeTextInputInternal now md readText (Some t)
                                            ''session_end'' tim)) ks)"
proof (induction ks arbitrary: tim)
  case Nil
  show ?case by simp
next
  case (Cons k ks)
  have d: "distinct ks" and nk: "k \<notin> set ks" using Cons.prems by simp_all
  show ?case
  proof (cases "tim_ActiveInputs tim k")
    case None
    then show ?thesis using Cons.IH[OF d, of tim] by simp
  next
    case (Some t)
    let ?del = "tim\<lparr>tim_ActiveInputs := (tim_ActiveInputs tim)(k := None)\<rparr>"
    have same: "(case tim_ActiveInputs ?del j of
                   None \<Rightarrow> []
                 | Some t \<Rightarrow> snd (completeTextInputInternal now md readText (Some t) ''session_end'' ?del))
              = (case tim_ActiveInputs tim j of
                   None \<Rightarrow> []
                 | Some t \<Rightarrow> snd (completeTextInputInternal now md readText (Some t) ''session_end'' tim))"
      if "j \<in> set ks" for j
    proof -
      have "j \<noteq> k" using that nk by auto
      then have "tim_ActiveInputs ?del j = tim_ActiveInputs tim j" by simp
      moreover have "tim_EventCallback ?del = tim_EventCallback tim" by simp
      ultimately show ?thesis
        by (simp add: internal_cong[of ?del tim] split: option.splits)
    qed
    have "snd (completeAll now md readText ks ?del)
       = concat (map (\<lambda>k. case tim_ActiveInputs tim k of
                           None \<Rightarrow> []
                         | Some t \<Rightarrow> snd (completeTextInputInternal now md readText (Some t)
                                            ''session_end'' tim)) ks)"
      unfolding Cons.IH[OF d, of ?del] using same by (intro arg_cong[where f = concat] map_cong) auto
    then show ?thesis using Some by (auto simp: Let_def split: prod.splits)
  qed
qed

text \<open>
  Claim C6. Completing a text-input session, for any reason, emits a
  \<open>TextInputCompletedEvent\<close> if and only if the re-read final text differs from the text
  captured at the start of the session and has a rune that is not white space, which is
  what not being blank after trimming comes to (and a callback is registered); the event
  carries the final text untrimmed, the field name and type, the input method, the typing
  duration in milliseconds, the keystroke count and the metadata with the element.
  Otherwise nothing is emitted: a final text equal to the initial one emits nothing, and a
  final text of white space only emits nothing; no path returns an error. With the reader
  of the source file, which returns the empty text, nothing is emitted at all. The three
  callers emit exactly what \<open>completeTextInputInternal\<close> emits: \<open>CompleteTextInput\<close> (the
  timeout), \<open>StartTextInput\<close> on an element with an active session (the focus change) and
  \<open>CompleteAllActiveInputs\<close> (the session end), the last for every session in the order the
  map is ranged over.
\<close>

theorem text_input_completion_emits_iff_changed:
  "snd (completeTextInputInternal now md readText (Some tr) reason tim)
     = (let finalText = (case tit_Element tr of None \<Rightarrow> [] | Some e \<Rightarrow> readText e)
        in if tim_EventCallback tim \<and> finalText \<noteq> tit_InitialText tr
              \<and> list_ex (\<lambda>r. \<not> unicode_IsSpace r) finalText
           then [\<lparr>tic_TextValue = finalText,
                  tic_FieldName = (case tit_Element tr of None \<Rightarrow> ''Unknown''
                                   | Some e \<Rightarrow> if Name e = [] then ''Unknown'' else Name e),
                  tic_FieldType = (case tit_Element tr of None \<Rightarrow> ''Unknown'' | Some e \<Rightarrow> Role e),
                  tic_InputMethod = tit_InputMethod tr,
                  tic_TypingDurationMs =
                    word_of_int (Milliseconds (time_Since now (tit_StartTime tr))),
                  tic_KeystrokeCount = tit_KeystrokeCount tr,
                  tic_Metadata = (case tit_Element tr of None \<Rightarrow> md
                                  | Some e \<Rightarrow> md\<lparr>md_UIElement := Some e\<rparr>)\<rparr>]
           else [])
   \<and> (tit_Element tr = Some el \<and> readText el = tit_InitialText tr
      \<longrightarrow> snd (completeTextInputInternal now md readText (Some tr) reason tim) = [])
   \<and> (tit_Element tr = Some el \<and> list_all unicode_IsSpace (readText el)
      \<longrightarrow> snd (completeTextInputInternal now md readText (Some tr) reason tim) = [])
   \<and> snd (completeTextInputInternal now md placeholderText (Some tr) reason tim) = []
   \<and> (tim_ActiveInputs tim k = Some tr
      \<longrightarrow> snd (CompleteTextInput now md readText k ''timeout'' tim)
          = snd (completeTextInputInternal now md readText (Some tr) ''timeout'' tim))
   \<and> (tim_ActiveInputs tim (getElementKey (Some e)) = Some tr
      \<longrightarrow> snd (StartTextInput now md readText (Some e) tim)
          = snd (completeTextInputInternal now md readText (Some tr) ''focus_change'' tim))
   \<and> (distinct ks
      \<longrightarrow> snd (CompleteAllActiveInputs now md readText ks tim)
          = concat (map (\<lambda>k. case tim_ActiveInputs tim k of
                                None \<Rightarrow> []
                              | Some t \<Rightarrow> snd (completeTextInputInternal now md readText (Some t)
                                                 ''session_end'' tim)) ks))"
proof (intro conjI impI)
  show "snd (completeTextInputInternal now md readText (Some tr) reason tim)
     = (let finalText = (case tit_Element tr of None \<Rightarrow> [] | Some e \<Rightarrow> readText e)
        in if tim_EventCallback tim \<and> finalText \<noteq> tit_InitialText tr
              \<and> list_ex (\<lambda>r. \<not> unicode_IsSpace r) finalText
           then [\<lparr>tic_TextValue = finalText,
                  tic_FieldName = (case tit_Element tr of None \<Rightarrow> ''Unknown''
                                   | Some e \<Rightarrow> if Name e = [] then ''Unknown'' else Name e),
                  tic_FieldType = (case tit_Element tr of None \<Rightarrow> ''Unknown'' | Some e \<Rightarrow> Role e),
                  tic_InputMethod = tit_InputMethod tr,
                  tic_TypingDurationMs =
                    word_of_int (Milliseconds (time_Since now (tit_StartTime tr))),
                  tic_KeystrokeCount = tit_KeystrokeCount tr,
                  tic_Metadata = (case tit_Element tr of None \<Rightarrow> md
                                  | Some e \<Rightarrow> md\<lparr>md_UIElement := Some e\<rparr>)\<rparr>]
           else [])"
    by (rule internal_events_explicit)
next
  assume "tit_Element tr = Some el \<and> readText el = tit_InitialText tr"
  then show "snd (completeTextInputInternal now md readText (Some tr) reason tim) = []"
    by (simp add: internal_events getCurrentText_def)
next
  assume a: "tit_Element tr = Some el \<and> list_all unicode_IsSpace (readText el)"
  then have "\<not> list_ex (\<lambda>r. \<not> unicode_IsSpace r) (readText el)"
    by (simp add: list_ex_iff list_all_iff)
  then show "snd (completeTextInputInternal now md readText (Some tr) reason tim) = []"
    using a by (simp add: internal_events TrimSpace_not_blank getCurrentText_def)
next
  show "snd (completeTextInputInternal now md placeholderText (Some tr) reason tim) = []"
    by (rule internal_placeholder)
next
  assume "tim_ActiveInputs tim k = Some tr"
  then show "snd (CompleteTextInput now md readText k ''timeout'' tim)
          = snd (completeTextInputInternal now md readText (Some tr) ''timeout'' tim)"
    by (simp add: CompleteTextInput_def)
next
  assume "tim_ActiveInputs tim (getElementKey (Some e)) = Some tr"
  then show "snd (StartTextInput now md readText (Some e) tim)
          = snd (completeTextInputInternal now md readText (Some tr) ''focus_change'' tim)"
    by (simp add: StartTextInput_def Let_def)
next
  assume "distinct ks"
  then show "snd (CompleteAllActiveInputs now md readText ks tim)
          = concat (map (\<lambda>k. case tim_ActiveInputs tim k of
                                None \<Rightarrow> []
                              | Some t \<Rightarrow> snd (completeTextInputInternal now md readText (Some t)
                                                 ''session_end'' tim)) ks)"
    by (simp add: CompleteAllActiveInputs_def completeAll_events)
qed

lemma hello_duration: "Milliseconds (time_Since 4000000000 1000000000) = 3000"
  by (simp add: Milliseconds_def time_Since_def time_Sub_def maxDuration_def minDuration_def
      Millisecond_def signed_divide_int_def)

lemma helloSession_fields:
  "tit_Element helloSession = Some editElement" "tit_InitialText helloSession = []"
  "tit_StartTime helloSession = 1000000000" "tit_KeystrokeCount helloSession = 5"
  "tit_InputMethod helloSession = TextInputTyped"
  by (simp_all add: helloSession_def)

lemma editElement_fields: "Name editElement = ''Search''" "Role editElement = ''edit''"
  by (simp_all add: editElement_def)

lemma helloManager_fields:
  "tim_EventCallback helloManager"
  "tim_ActiveInputs helloManager (getElementKey (Some editElement)) = Some helloSession"
  by (simp_all add: helloManager_def)

lemma text_facts:
  "list_ex (\<lambda>r. \<not> unicode_IsSpace r) helloText" "helloText \<noteq> []"
  "list_ex (\<lambda>r. \<not> unicode_IsSpace r) paddedText" "paddedText \<noteq> []"
  "list_ex (\<lambda>r. \<not> unicode_IsSpace r) zeroWidthText" "zeroWidthText \<noteq> []"
  "list_all unicode_IsSpace blankText" "blankText \<noteq> []"
  by (simp_all add: helloText_def paddedText_def zeroWidthText_def blankText_def unicode_IsSpace_def)

theorem text_input_completion_emits_iff_changed_witness:
  "snd (completeTextInputInternal 4000000000 md0 readHello (Some helloSession) ''timeout'' helloManager)
     = [\<lparr>tic_TextValue = helloText, tic_FieldName = ''Search'', tic_FieldType = ''edit'',
         tic_InputMethod = TextInputTyped, tic_TypingDurationMs = 3000, tic_KeystrokeCount = 5,
         tic_Metadata = md0\<lparr>md_UIElement := Some editElement\<rparr>\<rparr>]
   \<and> map tic_TextValue (snd (completeTextInputInternal 4000000000 md0 (\<lambda>e. paddedText)
        (Some helloSession) ''timeout'' helloManager)) = [paddedText]
   \<and> map tic_TextValue (snd (completeTextInputInternal 4000000000 md0 (\<lambda>e. zeroWidthText)
        (Some helloSession) ''timeout'' helloManager)) = [zeroWidthText]
   \<and> snd (completeTextInputInternal 4000000000 md0 (\<lambda>e. blankText)
        (Some helloSession) ''timeout'' helloManager) = []
   \<and> snd (completeTextInputInternal 4000000000 md0 readHello
        (Some (helloSession\<lparr>tit_InitialText := helloText\<rparr>)) ''timeout'' helloManager) = []
   \<and> snd (completeTextInputInternal 4000000000 md0 readHello (Some helloSession) ''timeout''
        (helloManager\<lparr>tim_EventCallback := False\<rparr>)) = []
   \<and> snd (completeTextInputInternal 4000000000 md0 placeholderText (Some helloSession) ''timeout''
            helloManager) = []
   \<and> map tic_TextValue (snd (CompleteTextInput 4000000000 md0 readHello
        (getElementKey (Some editElement)) ''timeout'' helloManager)) = [helloText]
   \<and> map tic_TextValue (snd (StartTextInput 4000000000 md0 readHello (Some editElement)
        helloManager)) = [helloText]
   \<and> map tic_TextValue (snd (CompleteAllActiveInputs 4000000000 md0 readHello
        [getElementKey (Some editElement)] helloManager)) = [helloText]
   \<and> snd (CompleteTextInput 4000000000 md0 (\<lambda>e. blankText)
        (getElementKey (Some editElement)) ''timeout'' helloManager) = []
   \<and> snd (StartTextInput 4000000000 md0 (\<lambda>e. blankText) (Some editElement) helloManager) = []
   \<and> snd (CompleteAllActiveInputs 4000000000 md0 (\<lambda>e. blankText)
        [getElementKey (Some editElement)] helloManager) = []"
proof -
  let ?k = "getElementKey (Some editElement)"
  note facts = Let_def helloSession_fields editElement_fields helloManager_fields text_facts
    hello_duration readHello_def
  have i1: "snd (completeTextInputInternal 4000000000 md0 readHello (Some helloSession) r helloManager)
     = [\<lparr>tic_TextValue = helloText, tic_FieldName = ''Search'', tic_FieldType = ''edit'',
         tic_InputMethod = TextInputTyped, tic_TypingDurationMs = 3000, tic_KeystrokeCount = 5,
         tic_Metadata = md0\<lparr>md_UIElement := Some editElement\<rparr>\<rparr>]" for r
    using text_input_completion_emits_iff_changed[where now = 4000000000 and md = md0
      and readText = readHello and tr = helloSession and reason = r
      and tim = helloManager and k = ?k and e = editElement and ks = "[?k]" and el = editElement]
    by (simp add: facts)
  have i2: "map tic_TextValue (snd (completeTextInputInternal 4000000000 md0 (\<lambda>e. paddedText)
        (Some helloSession) ''timeout'' helloManager)) = [paddedText]"
    using text_input_completion_emits_iff_changed[where now = 4000000000 and md = md0
      and readText = "\<lambda>e. paddedText" and tr = helloSession and reason = "''timeout''"
      and tim = helloManager and k = ?k and e = editElement and ks = "[?k]" and el = editElement]
    by (simp add: facts)
  have i3: "map tic_TextValue (snd (completeTextInputInternal 4000000000 md0 (\<lambda>e. zeroWidthText)
        (Some helloSession) ''timeout'' helloManager)) = [zeroWidthText]"
    using text_input_completion_emits_iff_changed[where now = 4000000000 and md = md0
      and readText = "\<lambda>e. zeroWidthText" and tr = helloSession and reason = "''timeout''"
      and tim = helloManager and k = ?k and e = editElement and ks = "[?k]" and el = editElement]
    by (simp add: facts)
  note tb = text_input_completion_emits_iff_changed[where now = 4000000000 and md = md0
      and readText = "\<lambda>e. blankText" and tr = helloSession
      and tim = helloManager and k = ?k and e = editElement and ks = "[?k]" and el = editElement]
  have i4: "snd (completeTextInputInternal 4000000000 md0 (\<lambda>e. blankText)
        (Some helloSession) r helloManager) = []" for r
    using tb[where reason = r, THEN conjunct2, THEN conjunct2, THEN conjunct1]
    by (simp add: helloSession_fields text_facts)
  have i5: "snd (completeTextInputInternal 4000000000 md0 readHello
        (Some (helloSession\<lparr>tit_InitialText := helloText\<rparr>)) ''timeout'' helloManager) = []"
    using text_input_completion_emits_iff_changed[where now = 4000000000 and md = md0
      and readText = readHello and tr = "helloSession\<lparr>tit_InitialText := helloText\<rparr>"
      and reason = "''timeout''"
      and tim = helloManager and k = ?k and e = editElement and ks = "[?k]" and el = editElement]
    by (simp add: facts)
  have i6: "snd (completeTextInputInternal 4000000000 md0 readHello (Some helloSession) ''timeout''
        (helloManager\<lparr>tim_EventCallback := False\<rparr>)) = []"
    using text_input_completion_emits_iff_changed[where now = 4000000000 and md = md0
      and readText = readHello and tr = helloSession and reason = "''timeout''"
      and tim = "helloManager\<lparr>tim_EventCallback := False\<rparr>" and k = ?k and e = editElement
      and ks = "[?k]" and el = editElement]
    by (simp add: facts)
  have i7: "snd (completeTextInputInternal 4000000000 md0 placeholderText (Some helloSession) ''timeout''
            helloManager) = []"
    using text_input_completion_emits_iff_changed[where now = 4000000000 and md = md0
      and readText = readHello and tr = helloSession and reason = "''timeout''"
      and tim = helloManager and k = ?k and e = editElement and ks = "[?k]" and el = editElement]
    by simp
  have c1: "snd (CompleteTextInput 4000000000 md0 readHello ?k ''timeout'' helloManager)
       = snd (completeTextInputInternal 4000000000 md0 readHello (Some helloSession) ''timeout'' helloManager)"
    "snd (StartTextInput 4000000000 md0 readHello (Some editElement) helloManager)
       = snd (completeTextInputInternal 4000000000 md0 readHello (Some helloSession) ''focus_change'' helloManager)"
    "snd (CompleteAllActiveInputs 4000000000 md0 readHello [?k] helloManager)
       = snd (completeTextInputInternal 4000000000 md0 readHello (Some helloSession) ''session_end'' helloManager)"
    using text_input_completion_emits_iff_changed[where now = 4000000000 and md = md0
      and readText = readHello and tr = helloSession and reason = "''timeout''"
      and tim = helloManager and k = ?k and e = editElement and ks = "[?k]" and el = editElement]
    by (simp_all add: helloManager_fields)
  have c2: "snd (CompleteTextInput 4000000000 md0 (\<lambda>e. blankText) ?k ''timeout'' helloManager)
       = snd (completeTextInputInternal 4000000000 md0 (\<lambda>e. blankText) (Some helloSession) ''timeout'' helloManager)"
    "snd (StartTextInput 4000000000 md0 (\<lambda>e. blankText) (Some editElement) helloManager)
       = snd (completeTextInputInternal 4000000000 md0 (\<lambda>e. blankText) (Some helloSession) ''focus_change'' helloManager)"
    "snd (CompleteAllActiveInputs 4000000000 md0 (\<lambda>e. blankText) [?k] helloManager)
       = snd (completeTextInputInternal 4000000000 md0 (\<lambda>e. blankText) (Some helloSession) ''session_end'' helloManager)"
    using tb[where reason = "''timeout''"]
    by (simp_all add: helloManager_fields)
  show ?thesis
    unfolding c1 c2 i1 i4 using i2 i3 i5 i6 i7 by simp
qed

section \<open>Proofs: browser tab navigation tracker\<close>

lemma firstHotkeyMethod_skip:
  "\<forall>x\<in>set pre. hotkeyMethod x = None \<Longrightarrow> firstHotkeyMethod (pre @ hs) = firstHotkeyMethod hs"
  by (induction pre) simp_all

lemma firstHotkeyMethod_none:
  "\<forall>x\<in>set hs. hotkeyMethod x = None \<Longrightarrow> firstHotkeyMethod hs = None"
  by (induction hs) simp_all

lemma window_change_methods:
  assumes "btt_BrowserStates btt (ProcessID e) = Some bs"
  shows "\<forall>ev\<in>set (snd (HandleWindowChange ml xt gb now md (Some e) btt)).
           bne_Method ev = determineNavigationMethod bs"
  using assms by (simp add: HandleWindowChange_def Let_def navigationEvent_def)

text \<open>
  Claim C3, as amended. Every event that \<open>HandleWindowChange\<close> emits for a process
  carries the method \<open>determineNavigationMethod\<close> computes from the state stored for that
  process. That method is decided by the oldest hotkey of the recent-hotkey buffer that
  matches any of the new-tab, close-tab, tab-cycle or address-bar patterns: the buffer
  order is the priority, not the order of the pattern groups. When no buffered hotkey
  matches, the method is "tab click" if the recent-click buffer is non-empty and "other"
  otherwise.
\<close>

theorem navigation_method_from_oldest_hotkey:
  "(btt_BrowserStates btt (ProcessID e) = Some bs
      \<longrightarrow> list_all (\<lambda>ev. bne_Method ev = determineNavigationMethod bs)
            (snd (HandleWindowChange ml xt gb now md (Some e) btt)))
   \<and> (bs_RecentHotkeys bs = pre @ h # post \<and> list_all (\<lambda>x. hotkeyMethod x = None) pre
        \<and> hotkeyMethod h = Some m
      \<longrightarrow> determineNavigationMethod bs = m)
   \<and> (list_all (\<lambda>x. hotkeyMethod x = None) (bs_RecentHotkeys bs)
      \<longrightarrow> determineNavigationMethod bs
          = (if bs_RecentClicks bs \<noteq> [] then TabNavigationTabClick else TabNavigationOther))"
proof (intro conjI impI)
  assume "btt_BrowserStates btt (ProcessID e) = Some bs"
  then show "list_all (\<lambda>ev. bne_Method ev = determineNavigationMethod bs)
            (snd (HandleWindowChange ml xt gb now md (Some e) btt))"
    using window_change_methods[of btt e bs ml xt gb now md] by (simp add: list_all_iff)
next
  assume a: "bs_RecentHotkeys bs = pre @ h # post \<and> list_all (\<lambda>x. hotkeyMethod x = None) pre
        \<and> hotkeyMethod h = Some m"
  then have "firstHotkeyMethod (bs_RecentHotkeys bs) = firstHotkeyMethod (h # post)"
    by (simp add: firstHotkeyMethod_skip list_all_iff)
  then show "determineNavigationMethod bs = m"
    using a by (simp add: determineNavigationMethod_def)
next
  assume "list_all (\<lambda>x. hotkeyMethod x = None) (bs_RecentHotkeys bs)"
  then have "firstHotkeyMethod (bs_RecentHotkeys bs) = None"
    by (simp add: firstHotkeyMethod_none list_all_iff)
  then show "determineNavigationMethod bs
          = (if bs_RecentClicks bs \<noteq> [] then TabNavigationTabClick else TabNavigationOther)"
    by (simp add: determineNavigationMethod_def)
qed

lemma hotkeyMethod_values:
  "hotkeyMethod ''Ctrl+L'' = Some TabNavigationAddressBar"
  "hotkeyMethod ''Ctrl+T'' = Some TabNavigationNewTabButton"
  "hotkeyMethod ''Ctrl+R'' = None"
  by (simp_all add: hotkeyMethod_def)

theorem navigation_method_priority_counterexample:
  "determineNavigationMethod addressThenNewTab = TabNavigationAddressBar
   \<and> spec_navigationMethod addressThenNewTab = TabNavigationNewTabButton
   \<and> determineNavigationMethod addressThenNewTab \<noteq> spec_navigationMethod addressThenNewTab"
  by (simp add: determineNavigationMethod_def spec_navigationMethod_def addressThenNewTab_def
      hotkeyMethod_values)

lemma isBrowserWindow_vocabulary:
  "isBrowserWindow ml (Some e) =
     list_ex (\<lambda>browser. Contains (ToLower ml (ApplicationName e)) browser
                         \<or> Contains (ToLower ml (WindowTitle e)) browser)
       [''chrome'', ''firefox'', ''edge'', ''safari'', ''opera'', ''brave'', ''vivaldi'']"
  by (simp add: isBrowserWindow_def browsers_def Let_def)

lemma lower_chrome_exe: "ToLower ml ''chrome.exe'' = ''chrome.exe''"
proof -
  have "isASCII ''chrome.exe''" by code_simp
  moreover have "map toLowerChar ''chrome.exe'' = ''chrome.exe''" by code_simp
  ultimately show ?thesis by (simp add: ToLower_def)
qed

lemma contains_chrome: "Contains ''chrome.exe'' ''chrome''"
  by code_simp

lemma isBrowser_chrome: "isBrowserWindow ml (Some chromeSeed)" "isBrowserWindow ml (Some chromePage)"
  by (simp_all add: isBrowserWindow_vocabulary chromeSeed_def chromePage_def lower_chrome_exe
      contains_chrome)

lemma find_seed: "FindString urlRun (WindowTitle chromeSeed) = []"
  "FindString fallbackRun (WindowTitle chromeSeed) = []"
  by code_simp+

lemma find_page: "FindString urlRun (WindowTitle chromePage) = ''https://example.com/page''"
  by code_simp

lemma title_nonempty: "WindowTitle chromeSeed \<noteq> []" "WindowTitle chromePage \<noteq> []"
  by (simp_all add: chromeSeed_def chromePage_def)

lemma extract_seed:
  "btt_URLPatterns btt = [''chrome'', ''firefox'', ''edge'', ''safari'']
     \<Longrightarrow> extractURL btt (WindowTitle chromeSeed) = []"
  by (simp add: extractURL_def find_seed)

lemma extract_page:
  "btt_URLPatterns btt = [''chrome'', ''firefox'', ''edge'', ''safari'']
     \<Longrightarrow> extractURL btt (WindowTitle chromePage) = ''https://example.com/page''"
  by (simp add: extractURL_def find_page title_nonempty)

lemma pid: "ProcessID chromeSeed = 1234" "ProcessID chromePage = 1234"
  by (simp_all add: chromeSeed_def chromePage_def)

lemma seededTracker_eq:
  "seededTracker ml = (NewBrowserTabTracker True)\<lparr>btt_BrowserStates := [1234 \<mapsto> seededState]\<rparr>"
  unfolding seededTracker_def HandleWindowChange_def
  by (simp add: isBrowser_chrome Let_def pid extract_seed NewBrowserTabTracker_def seededState_def)

lemma hotkeyTracker_eq:
  "hotkeyTracker ml = (NewBrowserTabTracker True)\<lparr>btt_BrowserStates :=
      [1234 \<mapsto> seededState\<lparr>bs_RecentHotkeys := [''Ctrl+R'', ''Ctrl+L'', ''Ctrl+T'']\<rparr>]\<rparr>"
  unfolding hotkeyTracker_def seededTracker_eq HandleHotkey_def
  by (simp add: isBrowser_chrome Let_def pid isBrowserNavigationHotkey_def seededState_def)

theorem navigation_method_from_oldest_hotkey_witness:
  "\<forall>ml.
   btt_BrowserStates (hotkeyTracker ml) (ProcessID chromePage)
     = Some (seededState\<lparr>bs_RecentHotkeys := [''Ctrl+R'', ''Ctrl+L'', ''Ctrl+T'']\<rparr>)
   \<and> map bne_Method (snd (HandleWindowChange ml (\<lambda>s. s) (\<lambda>s. s) 3000000000 md0 (Some chromePage)
          (hotkeyTracker ml))) = [TabNavigationAddressBar]
   \<and> determineNavigationMethod (seededState\<lparr>bs_RecentHotkeys := [''Ctrl+R'', ''Ctrl+L'', ''Ctrl+T'']\<rparr>)
       = TabNavigationAddressBar
   \<and> determineNavigationMethod (seededState\<lparr>bs_RecentHotkeys := [''Ctrl+R''],
          bs_RecentClicks := [pos 10 10]\<rparr>) = TabNavigationTabClick
   \<and> determineNavigationMethod (seededState\<lparr>bs_RecentHotkeys := [''Ctrl+R'']\<rparr>) = TabNavigationOther"
proof
  fix ml :: "string \<Rightarrow> string"
  let ?bs = "seededState\<lparr>bs_RecentHotkeys := [''Ctrl+R'', ''Ctrl+L'', ''Ctrl+T'']\<rparr>"
  let ?evs = "snd (HandleWindowChange ml (\<lambda>s. s) (\<lambda>s. s) 3000000000 md0 (Some chromePage) (hotkeyTracker ml))"
  have st: "btt_BrowserStates (hotkeyTracker ml) (ProcessID chromePage) = Some ?bs"
    by (simp add: hotkeyTracker_eq pid)
  have one: "length ?evs = 1"
    unfolding HandleWindowChange_def
    by (simp add: isBrowser_chrome Let_def pid hotkeyTracker_eq extract_page
        NewBrowserTabTracker_def seededState_def)
  have split: "bs_RecentHotkeys ?bs = [''Ctrl+R''] @ ''Ctrl+L'' # [''Ctrl+T'']
      \<and> list_all (\<lambda>x. hotkeyMethod x = None) [''Ctrl+R'']
      \<and> hotkeyMethod ''Ctrl+L'' = Some TabNavigationAddressBar"
    by (simp add: hotkeyMethod_values)
  from navigation_method_from_oldest_hotkey[where btt = "hotkeyTracker ml" and e = chromePage
      and bs = ?bs and ml = ml and xt = "\<lambda>s. s" and gb = "\<lambda>s. s" and now = 3000000000 and md = md0
      and pre = "[''Ctrl+R'']" and h = "''Ctrl+L''" and post = "[''Ctrl+T'']"
      and m = TabNavigationAddressBar] st split
  have all: "list_all (\<lambda>ev. bne_Method ev = determineNavigationMethod ?bs) ?evs"
    and m: "determineNavigationMethod ?bs = TabNavigationAddressBar"
    by blast+
  obtain ev where ev: "?evs = [ev]" using one by (cases ?evs) auto
  have meth: "map bne_Method ?evs = [TabNavigationAddressBar]"
    using all m unfolding ev by simp
  have none: "list_all (\<lambda>x. hotkeyMethod x = None) [''Ctrl+R'']" by (simp add: hotkeyMethod_values)
  have click: "determineNavigationMethod (seededState\<lparr>bs_RecentHotkeys := [''Ctrl+R''],
          bs_RecentClicks := [pos 10 10]\<rparr>) = TabNavigationTabClick"
    using navigation_method_from_oldest_hotkey[where bs = "seededState\<lparr>bs_RecentHotkeys := [''Ctrl+R''],
          bs_RecentClicks := [pos 10 10]\<rparr>" and btt = "hotkeyTracker ml" and e = chromePage
          and pre = "[]" and h = "[]" and post = "[]" and m = TabNavigationOther] none
    by simp
  have other: "determineNavigationMethod (seededState\<lparr>bs_RecentHotkeys := [''Ctrl+R'']\<rparr>)
       = TabNavigationOther"
    using navigation_method_from_oldest_hotkey[where bs = "seededState\<lparr>bs_RecentHotkeys := [''Ctrl+R'']\<rparr>"
          and btt = "hotkeyTracker ml" and e = chromePage
          and pre = "[]" and h = "[]" and post = "[]" and m = TabNavigationOther] none
    by (simp add: seededState_def)
  show "btt_BrowserStates (hotkeyTracker ml) (ProcessID chromePage)
     = Some (seededState\<lparr>bs_RecentHotkeys := [''Ctrl+R'', ''Ctrl+L'', ''Ctrl+T'']\<rparr>)
   \<and> map bne_Method (snd (HandleWindowChange ml (\<lambda>s. s) (\<lambda>s. s) 3000000000 md0 (Some chromePage)
          (hotkeyTracker ml))) = [TabNavigationAddressBar]
   \<and> determineNavigationMethod (seededState\<lparr>bs_RecentHotkeys := [''Ctrl+R'', ''Ctrl+L'', ''Ctrl+T'']\<rparr>)
       = TabNavigationAddressBar
   \<and> determineNavigationMethod (seededState\<lparr>bs_RecentHotkeys := [''Ctrl+R''],
          bs_RecentClicks := [pos 10 10]\<rparr>) = TabNavigationTabClick
   \<and> determineNavigationMethod (seededState\<lparr>bs_RecentHotkeys := [''Ctrl+R'']\<rparr>) = TabNavigationOther"
    using st meth m click other by simp
qed

lemma window_change_seed:
  assumes "isBrowserWindow ml (Some e)" "btt_BrowserStates btt (ProcessID e) = None"
  shows "HandleWindowChange ml xt gb now md (Some e) btt =
     (btt\<lparr>btt_BrowserStates := (btt_BrowserStates btt)(ProcessID e \<mapsto>
          \<lparr>bs_ProcessID = ProcessID e, bs_WindowTitle = WindowTitle e,
           bs_CurrentURL = extractURL btt (WindowTitle e), bs_LastURLChange = now,
           bs_TabCount = 1, bs_LastTabAction = 0, bs_RecentHotkeys = [],
           bs_RecentClicks = []\<rparr>)\<rparr>, [])"
  using assms by (simp add: HandleWindowChange_def Let_def)

lemma window_change_changed:
  assumes "isBrowserWindow ml (Some e)" "btt_BrowserStates btt (ProcessID e) = Some bs"
    "extractURL btt (WindowTitle e) \<noteq> []" "extractURL btt (WindowTitle e) \<noteq> bs_CurrentURL bs"
  shows "HandleWindowChange ml xt gb now md (Some e) btt =
     (btt\<lparr>btt_BrowserStates := (btt_BrowserStates btt)(ProcessID e \<mapsto>
          bs\<lparr>bs_CurrentURL := extractURL btt (WindowTitle e), bs_WindowTitle := WindowTitle e,
             bs_LastURLChange := now, bs_LastTabAction := now\<rparr>)\<rparr>,
      if btt_EventCallback btt
      then [navigationEvent xt gb now md e (extractURL btt (WindowTitle e)) bs] else [])"
  using assms by (cases bs) (simp add: HandleWindowChange_def Let_def)

lemma window_change_same:
  assumes "isBrowserWindow ml (Some e)" "btt_BrowserStates btt (ProcessID e) = Some bs"
    "extractURL btt (WindowTitle e) = [] \<or> extractURL btt (WindowTitle e) = bs_CurrentURL bs"
  shows "HandleWindowChange ml xt gb now md (Some e) btt =
     (btt\<lparr>btt_BrowserStates := (btt_BrowserStates btt)(ProcessID e \<mapsto>
          bs\<lparr>bs_WindowTitle := WindowTitle e\<rparr>)\<rparr>, [])"
  using assms by (cases bs) (auto simp: HandleWindowChange_def Let_def)

lemma window_change_not_browser:
  "\<not> isBrowserWindow ml (Some e) \<Longrightarrow> HandleWindowChange ml xt gb now md (Some e) btt = (btt, [])"
  by (simp add: HandleWindowChange_def)

text \<open>
  Claim C7. A window is a browser window when its lowered application name or its lowered
  title contains one of the seven browser names. The first \<open>HandleWindowChange\<close> for a
  browser window of a process seeds the state of that process and emits nothing. A later
  one for the same process whose title yields a non-empty URL different from the stored one
  emits exactly one event (a callback being registered) with the stored URL as \<open>FromURL\<close>,
  the extracted URL as \<open>ToURL\<close> and the milliseconds since \<open>LastURLChange\<close> as dwell
  time, and stores the new URL with the current time. When the URL is empty or unchanged
  nothing is emitted and the stored URL and its time stay, so \<open>LastURLChange\<close> is the time
  of the process's last URL change. A window that is not a browser window changes nothing
  and emits nothing.
\<close>

theorem window_change_seeds_then_emits_on_url_change:
  "isBrowserWindow ml (Some e) =
     list_ex (\<lambda>browser. Contains (ToLower ml (ApplicationName e)) browser
                         \<or> Contains (ToLower ml (WindowTitle e)) browser)
       [''chrome'', ''firefox'', ''edge'', ''safari'', ''opera'', ''brave'', ''vivaldi'']
   \<and> (isBrowserWindow ml (Some e) \<and> btt_BrowserStates btt (ProcessID e) = None
      \<longrightarrow> snd (HandleWindowChange ml xt gb now md (Some e) btt) = []
        \<and> btt_BrowserStates (fst (HandleWindowChange ml xt gb now md (Some e) btt)) (ProcessID e)
            = Some \<lparr>bs_ProcessID = ProcessID e, bs_WindowTitle = WindowTitle e,
                    bs_CurrentURL = extractURL btt (WindowTitle e), bs_LastURLChange = now,
                    bs_TabCount = 1, bs_LastTabAction = 0, bs_RecentHotkeys = [],
                    bs_RecentClicks = []\<rparr>)
   \<and> (isBrowserWindow ml (Some e) \<and> btt_BrowserStates btt (ProcessID e) = Some bs
        \<and> btt_EventCallback btt
        \<and> extractURL btt (WindowTitle e) \<noteq> []
        \<and> extractURL btt (WindowTitle e) \<noteq> bs_CurrentURL bs
      \<longrightarrow> map bne_FromURL (snd (HandleWindowChange ml xt gb now md (Some e) btt)) = [bs_CurrentURL bs]
        \<and> map bne_ToURL (snd (HandleWindowChange ml xt gb now md (Some e) btt))
            = [extractURL btt (WindowTitle e)]
        \<and> map bne_PageDwellTimeMs (snd (HandleWindowChange ml xt gb now md (Some e) btt))
            = [word_of_int (Milliseconds (time_Since now (bs_LastURLChange bs)))]
        \<and> map_option bs_CurrentURL
             (btt_BrowserStates (fst (HandleWindowChange ml xt gb now md (Some e) btt)) (ProcessID e))
            = Some (extractURL btt (WindowTitle e))
        \<and> map_option bs_LastURLChange
             (btt_BrowserStates (fst (HandleWindowChange ml xt gb now md (Some e) btt)) (ProcessID e))
            = Some now)
   \<and> (isBrowserWindow ml (Some e) \<and> btt_BrowserStates btt (ProcessID e) = Some bs
        \<and> (extractURL btt (WindowTitle e) = [] \<or> extractURL btt (WindowTitle e) = bs_CurrentURL bs)
      \<longrightarrow> snd (HandleWindowChange ml xt gb now md (Some e) btt) = []
        \<and> map_option bs_CurrentURL
             (btt_BrowserStates (fst (HandleWindowChange ml xt gb now md (Some e) btt)) (ProcessID e))
            = Some (bs_CurrentURL bs)
        \<and> map_option bs_LastURLChange
             (btt_BrowserStates (fst (HandleWindowChange ml xt gb now md (Some e) btt)) (ProcessID e))
            = Some (bs_LastURLChange bs))
   \<and> (\<not> isBrowserWindow ml (Some e)
      \<longrightarrow> HandleWindowChange ml xt gb now md (Some e) btt = (btt, []))
   \<and> HandleWindowChange ml xt gb now md None btt = (btt, [])"
proof (intro conjI impI)
  show "isBrowserWindow ml (Some e) =
     list_ex (\<lambda>browser. Contains (ToLower ml (ApplicationName e)) browser
                         \<or> Contains (ToLower ml (WindowTitle e)) browser)
       [''chrome'', ''firefox'', ''edge'', ''safari'', ''opera'', ''brave'', ''vivaldi'']"
    by (rule isBrowserWindow_vocabulary)
next
  assume a: "isBrowserWindow ml (Some e) \<and> btt_BrowserStates btt (ProcessID e) = None"
  note r = window_change_seed[of ml e btt xt gb now md]
  show "snd (HandleWindowChange ml xt gb now md (Some e) btt) = []" using a by (simp add: r)
  show "btt_BrowserStates (fst (HandleWindowChange ml xt gb now md (Some e) btt)) (ProcessID e)
            = Some \<lparr>bs_ProcessID = ProcessID e, bs_WindowTitle = WindowTitle e,
                    bs_CurrentURL = extractURL btt (WindowTitle e), bs_LastURLChange = now,
                    bs_TabCount = 1, bs_LastTabAction = 0, bs_RecentHotkeys = [],
                    bs_RecentClicks = []\<rparr>"
    using a by (simp add: r)
next
  assume a: "isBrowserWindow ml (Some e) \<and> btt_BrowserStates btt (ProcessID e) = Some bs
        \<and> btt_EventCallback btt
        \<and> extractURL btt (WindowTitle e) \<noteq> []
        \<and> extractURL btt (WindowTitle e) \<noteq> bs_CurrentURL bs"
  then have r: "HandleWindowChange ml xt gb now md (Some e) btt =
     (btt\<lparr>btt_BrowserStates := (btt_BrowserStates btt)(ProcessID e \<mapsto>
          bs\<lparr>bs_CurrentURL := extractURL btt (WindowTitle e), bs_WindowTitle := WindowTitle e,
             bs_LastURLChange := now, bs_LastTabAction := now\<rparr>)\<rparr>,
      [navigationEvent xt gb now md e (extractURL btt (WindowTitle e)) bs])"
    by (simp add: window_change_changed)
  show "map bne_FromURL (snd (HandleWindowChange ml xt gb now md (Some e) btt)) = [bs_CurrentURL bs]"
    "map bne_ToURL (snd (HandleWindowChange ml xt gb now md (Some e) btt))
            = [extractURL btt (WindowTitle e)]"
    "map bne_PageDwellTimeMs (snd (HandleWindowChange ml xt gb now md (Some e) btt))
            = [word_of_int (Milliseconds (time_Since now (bs_LastURLChange bs)))]"
    "map_option bs_CurrentURL
       (btt_BrowserStates (fst (HandleWindowChange ml xt gb now md (Some e) btt)) (ProcessID e))
      = Some (extractURL btt (WindowTitle e))"
    "map_option bs_LastURLChange
       (btt_BrowserStates (fst (HandleWindowChange ml xt gb now md (Some e) btt)) (ProcessID e))
      = Some now"
    by (simp_all add: r navigationEvent_def)
next
  assume a: "isBrowserWindow ml (Some e) \<and> btt_BrowserStates btt (ProcessID e) = Some bs
        \<and> (extractURL btt (WindowTitle e) = [] \<or> extractURL btt (WindowTitle e) = bs_CurrentURL bs)"
  then have r: "HandleWindowChange ml xt gb now md (Some e) btt =
     (btt\<lparr>btt_BrowserStates := (btt_BrowserStates btt)(ProcessID e \<mapsto>
          bs\<lparr>bs_WindowTitle := WindowTitle e\<rparr>)\<rparr>, [])"
    by (simp add: window_change_same)
  show "snd (HandleWindowChange ml xt gb now md (Some e) btt) = []"
    "map_option bs_CurrentURL
       (btt_BrowserStates (fst (HandleWindowChange ml xt gb now md (Some e) btt)) (ProcessID e))
      = Some (bs_CurrentURL bs)"
    "map_option bs_LastURLChange
       (btt_BrowserStates (fst (HandleWindowChange ml xt gb now md (Some e) btt)) (ProcessID e))
      = Some (bs_LastURLChange bs)"
    by (simp_all add: r)
next
  assume "\<not> isBrowserWindow ml (Some e)"
  then show "HandleWindowChange ml xt gb now md (Some e) btt = (btt, [])"
    by (rule window_change_not_browser)
next
  show "HandleWindowChange ml xt gb now md None btt = (btt, [])"
    by (simp add: HandleWindowChange_def)
qed

lemma dwell_2000: "Milliseconds (time_Since 3000000000 1000000000) = 2000"
  by (simp add: Milliseconds_def time_Since_def time_Sub_def maxDuration_def minDuration_def
      Millisecond_def signed_divide_int_def)

lemma lower_notepad:
  "ToLower ml ''notepad.exe'' = ''notepad.exe''"
  "ToLower ml ''https://example.com/page - Notepad'' = ''https://example.com/page - notepad''"
proof -
  have "isASCII ''notepad.exe''" by code_simp
  moreover have "map toLowerChar ''notepad.exe'' = ''notepad.exe''" by code_simp
  ultimately show "ToLower ml ''notepad.exe'' = ''notepad.exe''" by (simp add: ToLower_def)
  have "isASCII ''https://example.com/page - Notepad''" by code_simp
  moreover have "map toLowerChar ''https://example.com/page - Notepad''
      = ''https://example.com/page - notepad''" by code_simp
  ultimately show "ToLower ml ''https://example.com/page - Notepad''
      = ''https://example.com/page - notepad''" by (simp add: ToLower_def)
qed

lemma notepad_names:
  "\<not> list_ex (\<lambda>browser. Contains ''notepad.exe'' browser
                           \<or> Contains ''https://example.com/page - notepad'' browser)
       [''chrome'', ''firefox'', ''edge'', ''safari'', ''opera'', ''brave'', ''vivaldi'']"
  by code_simp

lemma lower_firefox:
  "ToLower ml ''FIREFOX.EXE'' = ''firefox.exe''"
proof -
  have "isASCII ''FIREFOX.EXE''" by code_simp
  moreover have "map toLowerChar ''FIREFOX.EXE'' = ''firefox.exe''" by code_simp
  ultimately show ?thesis by (simp add: ToLower_def)
qed

lemma lower_start: "ToLower ml ''Start'' = ''start''"
proof -
  have "isASCII ''Start''" by code_simp
  moreover have "map toLowerChar ''Start'' = ''start''" by code_simp
  ultimately show ?thesis by (simp add: ToLower_def)
qed

lemma lower_dotted: "ToLower dottedLower dottedName = ''firefox.exe''"
proof -
  have "\<not> isASCII dottedName" by code_simp
  then show ?thesis by (simp add: ToLower_def dottedLower_def)
qed

lemma firefox_names:
  "list_ex (\<lambda>browser. Contains ''firefox.exe'' browser \<or> Contains ''start'' browser)
       [''chrome'', ''firefox'', ''edge'', ''safari'', ''opera'', ''brave'', ''vivaldi'']"
  by code_simp

lemma new_tracker_states: "btt_BrowserStates (NewBrowserTabTracker c) p = None"
  by (simp add: NewBrowserTabTracker_def)

theorem window_change_seeds_then_emits_on_url_change_witness:
  "(\<forall>ml.
     isBrowserWindow ml (Some chromeSeed)
   \<and> btt_BrowserStates (NewBrowserTabTracker True) (ProcessID chromeSeed) = None
   \<and> snd (HandleWindowChange ml (\<lambda>s. s) (\<lambda>s. s) 1000000000 md0 (Some chromeSeed)
            (NewBrowserTabTracker True)) = []
   \<and> btt_BrowserStates (fst (HandleWindowChange ml (\<lambda>s. s) (\<lambda>s. s) 1000000000 md0
            (Some chromeSeed) (NewBrowserTabTracker True))) 1234 = Some seededState
   \<and> btt_BrowserStates (seededTracker ml) (ProcessID chromePage) = Some seededState
   \<and> extractURL (seededTracker ml) (WindowTitle chromePage) = ''https://example.com/page''
   \<and> map bne_FromURL (snd (HandleWindowChange ml (\<lambda>s. s) (\<lambda>s. s) 3000000000 md0 (Some chromePage)
            (seededTracker ml))) = [[]]
   \<and> map bne_ToURL (snd (HandleWindowChange ml (\<lambda>s. s) (\<lambda>s. s) 3000000000 md0 (Some chromePage)
            (seededTracker ml))) = [''https://example.com/page'']
   \<and> map bne_PageDwellTimeMs (snd (HandleWindowChange ml (\<lambda>s. s) (\<lambda>s. s) 3000000000 md0
            (Some chromePage) (seededTracker ml))) = [2000]
   \<and> extractURL (seededTracker ml) (WindowTitle chromeSeed) = []
   \<and> snd (HandleWindowChange ml (\<lambda>s. s) (\<lambda>s. s) 4000000000 md0 (Some chromeSeed)
            (seededTracker ml)) = []
   \<and> \<not> isBrowserWindow ml (Some notepadWindow)
   \<and> HandleWindowChange ml (\<lambda>s. s) (\<lambda>s. s) 1000000000 md0 (Some notepadWindow)
        (NewBrowserTabTracker True) = (NewBrowserTabTracker True, [])
   \<and> isBrowserWindow ml (Some firefoxUpper)
   \<and> btt_BrowserStates (fst (HandleWindowChange ml (\<lambda>s. s) (\<lambda>s. s) 1000000000 md0
        (Some firefoxUpper) (NewBrowserTabTracker True))) 88
       = Some \<lparr>bs_ProcessID = 88, bs_WindowTitle = ''Start'', bs_CurrentURL = [],
               bs_LastURLChange = 1000000000, bs_TabCount = 1, bs_LastTabAction = 0,
               bs_RecentHotkeys = [], bs_RecentClicks = []\<rparr>)
   \<and> isBrowserWindow dottedLower (Some firefoxDotted)
   \<and> btt_BrowserStates (fst (HandleWindowChange dottedLower (\<lambda>s. s) (\<lambda>s. s) 1000000000 md0
        (Some firefoxDotted) (NewBrowserTabTracker True))) 99
       = Some \<lparr>bs_ProcessID = 99, bs_WindowTitle = ''Start'', bs_CurrentURL = [],
               bs_LastURLChange = 1000000000, bs_TabCount = 1, bs_LastTabAction = 0,
               bs_RecentHotkeys = [], bs_RecentClicks = []\<rparr>"
proof (intro conjI allI)
  fix ml :: "string \<Rightarrow> string"
  note t = window_change_seeds_then_emits_on_url_change[where ml = ml and xt = "\<lambda>s. s"
      and gb = "\<lambda>s. s" and md = md0]
  show b1: "isBrowserWindow ml (Some chromeSeed)"
    using t[where e = chromeSeed, THEN conjunct1]
    by (simp add: chromeSeed_def lower_chrome_exe contains_chrome)
  have b2: "isBrowserWindow ml (Some chromePage)"
    using t[where e = chromePage, THEN conjunct1]
    by (simp add: chromePage_def lower_chrome_exe contains_chrome)
  show n: "btt_BrowserStates (NewBrowserTabTracker True) (ProcessID chromeSeed) = None"
    by (rule new_tracker_states)
  have st: "btt_BrowserStates (seededTracker ml) (ProcessID chromePage) = Some seededState"
    "btt_BrowserStates (seededTracker ml) (ProcessID chromeSeed) = Some seededState"
    by (simp_all add: seededTracker_eq pid)
  show "btt_BrowserStates (seededTracker ml) (ProcessID chromePage) = Some seededState"
    by (rule st)
  have cb: "btt_EventCallback (seededTracker ml)"
    by (simp add: seededTracker_eq NewBrowserTabTracker_def)
  have pats: "btt_URLPatterns (seededTracker ml) = [''chrome'', ''firefox'', ''edge'', ''safari'']"
    "btt_URLPatterns (NewBrowserTabTracker True) = [''chrome'', ''firefox'', ''edge'', ''safari'']"
    by (simp_all add: seededTracker_eq NewBrowserTabTracker_def)
  show u1: "extractURL (seededTracker ml) (WindowTitle chromePage) = ''https://example.com/page''"
    by (simp add: extract_page pats)
  show u2: "extractURL (seededTracker ml) (WindowTitle chromeSeed) = []"
    by (simp add: extract_seed pats)
  have f: "bs_CurrentURL seededState = []" "bs_LastURLChange seededState = 1000000000"
    by (simp_all add: seededState_def)
  show "snd (HandleWindowChange ml (\<lambda>s. s) (\<lambda>s. s) 1000000000 md0 (Some chromeSeed)
            (NewBrowserTabTracker True)) = []"
    using t[where e = chromeSeed and btt = "NewBrowserTabTracker True" and now = 1000000000] b1 n
    by blast
  show "btt_BrowserStates (fst (HandleWindowChange ml (\<lambda>s. s) (\<lambda>s. s) 1000000000 md0
            (Some chromeSeed) (NewBrowserTabTracker True))) 1234 = Some seededState"
    using t[where e = chromeSeed and btt = "NewBrowserTabTracker True" and now = 1000000000,
        THEN conjunct2, THEN conjunct1] b1 n
    by (simp add: pid seededState_def extract_seed pats)
  have second:
    "map bne_FromURL (snd (HandleWindowChange ml (\<lambda>s. s) (\<lambda>s. s) 3000000000 md0 (Some chromePage)
            (seededTracker ml))) = [bs_CurrentURL seededState]"
    "map bne_ToURL (snd (HandleWindowChange ml (\<lambda>s. s) (\<lambda>s. s) 3000000000 md0 (Some chromePage)
            (seededTracker ml))) = [extractURL (seededTracker ml) (WindowTitle chromePage)]"
    "map bne_PageDwellTimeMs (snd (HandleWindowChange ml (\<lambda>s. s) (\<lambda>s. s) 3000000000 md0
            (Some chromePage) (seededTracker ml)))
       = [word_of_int (Milliseconds (time_Since 3000000000 (bs_LastURLChange seededState)))]"
    using t[where e = chromePage and btt = "seededTracker ml" and bs = seededState
        and now = 3000000000, THEN conjunct2, THEN conjunct2, THEN conjunct1] b2 st cb u1 f
    by simp_all
  show "map bne_FromURL (snd (HandleWindowChange ml (\<lambda>s. s) (\<lambda>s. s) 3000000000 md0 (Some chromePage)
            (seededTracker ml))) = [[]]"
    using second(1) by (simp add: f)
  show "map bne_ToURL (snd (HandleWindowChange ml (\<lambda>s. s) (\<lambda>s. s) 3000000000 md0 (Some chromePage)
            (seededTracker ml))) = [''https://example.com/page'']"
    using second(2) by (simp only: u1)
  show "map bne_PageDwellTimeMs (snd (HandleWindowChange ml (\<lambda>s. s) (\<lambda>s. s) 3000000000 md0
            (Some chromePage) (seededTracker ml))) = [2000]"
    using second(3) by (simp add: f dwell_2000)
  show "snd (HandleWindowChange ml (\<lambda>s. s) (\<lambda>s. s) 4000000000 md0 (Some chromeSeed)
            (seededTracker ml)) = []"
    using t[where e = chromeSeed and btt = "seededTracker ml" and bs = seededState
        and now = 4000000000, THEN conjunct2, THEN conjunct2, THEN conjunct2, THEN conjunct1]
      b1 st u2
    by simp
  show nb: "\<not> isBrowserWindow ml (Some notepadWindow)"
    using t[where e = notepadWindow, THEN conjunct1] notepad_names
    by (simp add: notepadWindow_def lower_notepad)
  show "HandleWindowChange ml (\<lambda>s. s) (\<lambda>s. s) 1000000000 md0 (Some notepadWindow)
        (NewBrowserTabTracker True) = (NewBrowserTabTracker True, [])"
    using t[where e = notepadWindow and btt = "NewBrowserTabTracker True" and now = 1000000000] nb
    by blast
  show fu: "isBrowserWindow ml (Some firefoxUpper)"
    using t[where e = firefoxUpper, THEN conjunct1] firefox_names
    by (simp add: firefoxUpper_def lower_firefox lower_start)
  have xs: "extractURL (NewBrowserTabTracker True) ''Start'' = []"
    unfolding extractURL_def pats by code_simp
  show "btt_BrowserStates (fst (HandleWindowChange ml (\<lambda>s. s) (\<lambda>s. s) 1000000000 md0
        (Some firefoxUpper) (NewBrowserTabTracker True))) 88
       = Some \<lparr>bs_ProcessID = 88, bs_WindowTitle = ''Start'', bs_CurrentURL = [],
               bs_LastURLChange = 1000000000, bs_TabCount = 1, bs_LastTabAction = 0,
               bs_RecentHotkeys = [], bs_RecentClicks = []\<rparr>"
    using t[where e = firefoxUpper and btt = "NewBrowserTabTracker True" and now = 1000000000,
        THEN conjunct2, THEN conjunct1] fu
    by (simp add: new_tracker_states firefoxUpper_def xs)
next
  note t = window_change_seeds_then_emits_on_url_change[where ml = dottedLower and xt = "\<lambda>s. s"
      and gb = "\<lambda>s. s" and md = md0 and e = firefoxDotted]
  have pats:
    "btt_URLPatterns (NewBrowserTabTracker True) = [''chrome'', ''firefox'', ''edge'', ''safari'']"
    by (simp add: NewBrowserTabTracker_def)
  have xs: "extractURL (NewBrowserTabTracker True) ''Start'' = []"
    unfolding extractURL_def pats by code_simp
  show fd: "isBrowserWindow dottedLower (Some firefoxDotted)"
    using t[THEN conjunct1] firefox_names
    by (simp add: firefoxDotted_def lower_dotted lower_start)
  show "btt_BrowserStates (fst (HandleWindowChange dottedLower (\<lambda>s. s) (\<lambda>s. s) 1000000000 md0
        (Some firefoxDotted) (NewBrowserTabTracker True))) 99
       = Some \<lparr>bs_ProcessID = 99, bs_WindowTitle = ''Start'', bs_CurrentURL = [],
               bs_LastURLChange = 1000000000, bs_TabCount = 1, bs_LastTabAction = 0,
               bs_RecentHotkeys = [], bs_RecentClicks = []\<rparr>"
    using t[where btt = "NewBrowserTabTracker True" and now = 1000000000,
        THEN conjunct2, THEN conjunct1] fd
    by (simp add: new_tracker_states firefoxDotted_def xs)
qed

end
